theory Spec2Isabelle
  imports Main "HOL-Library.Word" "HOL-Library.Monad_Syntax"
begin

unbundle bit_operations_syntax

section \<open>Core B: the 6510 opcode matrix (opcodes.h, opcodes.cpp)\<close>

text \<open>
  The enum \<open>AddressingMode\<close> of opcodes.h and the struct \<open>OpcodeInfo\<close>
  (\<open>unsigned char size; AddressingMode mode\<close>). An entry of the table is the pair
  (size, mode); the two fields are read with \<open>op_size\<close> and \<open>op_mode\<close>.
\<close>

datatype AddressingMode =
    am_IMP | am_IMM | am_ZP | am_ZPX | am_ZPY | am_IZX | am_IZY
  | am_ABS | am_ABX | am_ABY | am_IND | am_REL

type_synonym OpcodeInfo = "8 word \<times> AddressingMode"

definition op_size :: "OpcodeInfo \<Rightarrow> 8 word" where
  "op_size e = fst e"

definition op_mode :: "OpcodeInfo \<Rightarrow> AddressingMode" where
  "op_mode e = snd e"

text \<open>The 256 entries of \<open>opcode_table\<close>, in the order of opcodes.cpp (eight per row).\<close>

definition opcode_table :: "OpcodeInfo list" where
  "opcode_table = [
   (1, am_IMP), (2, am_IZX), (1, am_IMP), (1, am_IMP), (1, am_IMP), (2, am_ZP), (2, am_ZP), (1, am_IMP),
   (1, am_IMP), (2, am_IMM), (1, am_IMP), (1, am_IMP), (1, am_IMP), (3, am_ABS), (3, am_ABS), (1, am_IMP),
   (2, am_REL), (2, am_IZY), (1, am_IMP), (1, am_IMP), (1, am_IMP), (2, am_ZPX), (2, am_ZPX), (1, am_IMP),
   (1, am_IMP), (3, am_ABY), (1, am_IMP), (1, am_IMP), (1, am_IMP), (3, am_ABX), (3, am_ABX), (1, am_IMP),
   (3, am_ABS), (2, am_IZX), (1, am_IMP), (1, am_IMP), (2, am_ZP), (2, am_ZP), (2, am_ZP), (1, am_IMP),
   (1, am_IMP), (2, am_IMM), (1, am_IMP), (1, am_IMP), (3, am_ABS), (3, am_ABS), (3, am_ABS), (1, am_IMP),
   (2, am_REL), (2, am_IZY), (1, am_IMP), (1, am_IMP), (1, am_IMP), (2, am_ZPX), (2, am_ZPX), (1, am_IMP),
   (1, am_IMP), (3, am_ABY), (1, am_IMP), (1, am_IMP), (1, am_IMP), (3, am_ABX), (3, am_ABX), (1, am_IMP),
   (1, am_IMP), (2, am_IZX), (1, am_IMP), (1, am_IMP), (1, am_IMP), (2, am_ZP), (2, am_ZP), (1, am_IMP),
   (1, am_IMP), (2, am_IMM), (1, am_IMP), (1, am_IMP), (3, am_ABS), (3, am_ABS), (3, am_ABS), (1, am_IMP),
   (2, am_REL), (2, am_IZY), (1, am_IMP), (1, am_IMP), (1, am_IMP), (2, am_ZPX), (2, am_ZPX), (1, am_IMP),
   (1, am_IMP), (3, am_ABY), (1, am_IMP), (1, am_IMP), (1, am_IMP), (3, am_ABX), (3, am_ABX), (1, am_IMP),
   (1, am_IMP), (2, am_IZX), (1, am_IMP), (1, am_IMP), (1, am_IMP), (2, am_ZP), (2, am_ZP), (1, am_IMP),
   (1, am_IMP), (2, am_IMM), (1, am_IMP), (1, am_IMP), (3, am_IND), (3, am_ABS), (3, am_ABS), (1, am_IMP),
   (2, am_REL), (2, am_IZY), (1, am_IMP), (1, am_IMP), (1, am_IMP), (2, am_ZPX), (2, am_ZPX), (1, am_IMP),
   (1, am_IMP), (3, am_ABY), (1, am_IMP), (1, am_IMP), (1, am_IMP), (3, am_ABX), (3, am_ABX), (1, am_IMP),
   (1, am_IMP), (2, am_IZX), (1, am_IMP), (1, am_IMP), (2, am_ZP), (2, am_ZP), (2, am_ZP), (1, am_IMP),
   (1, am_IMP), (1, am_IMP), (1, am_IMP), (1, am_IMP), (3, am_ABS), (3, am_ABS), (3, am_ABS), (1, am_IMP),
   (2, am_REL), (2, am_IZY), (1, am_IMP), (1, am_IMP), (2, am_ZPX), (2, am_ZPX), (2, am_ZPY), (1, am_IMP),
   (1, am_IMP), (3, am_ABY), (1, am_IMP), (1, am_IMP), (1, am_IMP), (3, am_ABX), (1, am_IMP), (1, am_IMP),
   (2, am_IMM), (2, am_IZX), (2, am_IMM), (1, am_IMP), (2, am_ZP), (2, am_ZP), (2, am_ZP), (1, am_IMP),
   (1, am_IMP), (2, am_IMM), (1, am_IMP), (1, am_IMP), (3, am_ABS), (3, am_ABS), (3, am_ABS), (1, am_IMP),
   (2, am_REL), (2, am_IZY), (1, am_IMP), (1, am_IMP), (2, am_ZPX), (2, am_ZPX), (2, am_ZPY), (1, am_IMP),
   (1, am_IMP), (3, am_ABY), (1, am_IMP), (1, am_IMP), (3, am_ABX), (3, am_ABX), (3, am_ABY), (1, am_IMP),
   (2, am_IMM), (2, am_IZX), (1, am_IMP), (1, am_IMP), (2, am_ZP), (2, am_ZP), (2, am_ZP), (1, am_IMP),
   (1, am_IMP), (2, am_IMM), (1, am_IMP), (1, am_IMP), (3, am_ABS), (3, am_ABS), (3, am_ABS), (1, am_IMP),
   (2, am_REL), (2, am_IZY), (1, am_IMP), (1, am_IMP), (1, am_IMP), (2, am_ZPX), (2, am_ZPX), (1, am_IMP),
   (1, am_IMP), (3, am_ABY), (1, am_IMP), (1, am_IMP), (1, am_IMP), (3, am_ABX), (3, am_ABX), (1, am_IMP),
   (2, am_IMM), (2, am_IZX), (1, am_IMP), (1, am_IMP), (2, am_ZP), (2, am_ZP), (2, am_ZP), (1, am_IMP),
   (1, am_IMP), (2, am_IMM), (1, am_IMP), (1, am_IMP), (3, am_ABS), (3, am_ABS), (3, am_ABS), (1, am_IMP),
   (2, am_REL), (2, am_IZY), (1, am_IMP), (1, am_IMP), (1, am_IMP), (2, am_ZPX), (2, am_ZPX), (1, am_IMP),
   (1, am_IMP), (3, am_ABY), (1, am_IMP), (1, am_IMP), (1, am_IMP), (3, am_ABX), (3, am_ABX), (1, am_IMP)
  ]"

definition GetOpcodeSize :: "8 word \<Rightarrow> 8 word" where
  "GetOpcodeSize opcode = op_size (opcode_table ! unat opcode)"

definition GetOpcodeAddressingMode :: "8 word \<Rightarrow> AddressingMode" where
  "GetOpcodeAddressingMode opcode = op_mode (opcode_table ! unat opcode)"

definition RequiresRelocation :: "AddressingMode \<Rightarrow> bool" where
  "RequiresRelocation m = (m = am_ABS \<or> m = am_ABX \<or> m = am_ABY \<or> m = am_IND)"

definition RequiresZeroPageAdjustment :: "AddressingMode \<Rightarrow> bool" where
  "RequiresZeroPageAdjustment m =
     (m = am_ZP \<or> m = am_ZPX \<or> m = am_ZPY \<or> m = am_IZX \<or> m = am_IZY)"

section \<open>Core B: the 64 KiB memory container (c64memory.h, c64memory.cpp)\<close>

text \<open>
  \<open>unsigned char data_[0x10000]\<close>: one byte for each 16-bit address. The accessors take an
  \<open>unsigned short\<close>; \<open>GetWord\<close> and \<open>SetWord\<close> index \<open>data_[address + 1]\<close> with the
  sum computed in \<open>int\<close>, so at address 0xFFFF they touch \<open>data_[0x10000]\<close>, one past the
  array. The model makes that access the error \<open>Out_of_bounds\<close>. The exceptions thrown
  with \<open>std::runtime_error\<close> carry their message.
\<close>

type_synonym C64Memory = "16 word \<Rightarrow> 8 word"

datatype error = Runtime_error string | Out_of_bounds

definition GetByte :: "C64Memory \<Rightarrow> 16 word \<Rightarrow> 8 word" where
  "GetByte data address = data address"

definition SetByte :: "C64Memory \<Rightarrow> 16 word \<Rightarrow> 8 word \<Rightarrow> C64Memory" where
  "SetByte data address v = data(address := v)"

definition GetWord :: "C64Memory \<Rightarrow> 16 word \<Rightarrow> error + 16 word" where
  "GetWord data address =
     (if address = 0xFFFF then Inl Out_of_bounds
      else Inr (ucast (data address) OR push_bit 8 (ucast (data (address + 1)))))"

definition SetWord :: "C64Memory \<Rightarrow> 16 word \<Rightarrow> 16 word \<Rightarrow> error + C64Memory" where
  "SetWord data address v =
     (if address = 0xFFFF then Inl Out_of_bounds
      else Inr (data(address := ucast (v AND 0xFF),
                     address + 1 := ucast (drop_bit 8 v AND 0xFF))))"

section \<open>Core B: the instruction walker and relocator (packer_simple.h, packer_simple.cpp)\<close>

record DriverConfig =
  driver_code_top :: "16 word"
  driver_code_size :: "16 word"
  current_lowest_zp :: "8 word"
  target_lowest_zp :: "8 word"
  destination_address :: "16 word"

definition GetAddressDelta :: "DriverConfig \<Rightarrow> 16 word" where
  "GetAddressDelta config = destination_address config - driver_code_top config"

text \<open>
  One turn of the \<open>while\<close> loop of \<open>ProcessDriverCode\<close> at \<open>address\<close>: the opcode is read
  once, the absolute operand is patched (only when it changes), then the zero-page operand,
  and the address advances by the table's size in \<open>unsigned short\<close> arithmetic. The two
  counters of the source are only printed and are left out.
\<close>

definition relocate_abs ::
  "16 word \<Rightarrow> 8 word \<Rightarrow> AddressingMode \<Rightarrow> C64Memory \<Rightarrow> 16 word \<Rightarrow> error + C64Memory" where
  "relocate_abs address_delta opcode_size mode memory address =
     (if RequiresRelocation mode then
        (if opcode_size \<noteq> 3 then
           Inl (Runtime_error ''Expected 3-byte instruction for absolute addressing'')
         else
           (case GetWord memory (address + 1) of
              Inl e \<Rightarrow> Inl e
            | Inr vector \<Rightarrow>
                (let relocated_vector =
                       (if 0xD000 \<le> vector \<and> vector \<le> 0xDFFF then vector
                        else vector + address_delta)
                 in if vector \<noteq> relocated_vector
                    then SetWord memory (address + 1) relocated_vector
                    else Inr memory)))
      else Inr memory)"

definition relocate_zp ::
  "DriverConfig \<Rightarrow> 8 word \<Rightarrow> AddressingMode \<Rightarrow> C64Memory \<Rightarrow> 16 word \<Rightarrow> error + C64Memory" where
  "relocate_zp config opcode_size mode memory address =
     (if RequiresZeroPageAdjustment mode then
        (if opcode_size \<noteq> 2 then
           Inl (Runtime_error ''Expected 2-byte instruction for zero page addressing'')
         else
           (let zp = GetByte memory (address + 1);
                zp_offset = zp - current_lowest_zp config;
                zp_relocated = target_lowest_zp config + zp_offset
            in Inr (SetByte memory (address + 1) zp_relocated)))
      else Inr memory)"

definition walk_step ::
  "DriverConfig \<Rightarrow> 16 word \<Rightarrow> C64Memory \<Rightarrow> 16 word \<Rightarrow> error + (C64Memory \<times> 16 word)" where
  "walk_step config address_delta memory address =
     (let opcode = memory address;
          opcode_size = GetOpcodeSize opcode;
          mode = GetOpcodeAddressingMode opcode
      in case relocate_abs address_delta opcode_size mode memory address of
           Inl e \<Rightarrow> Inl e
         | Inr memory1 \<Rightarrow>
             (case relocate_zp config opcode_size mode memory1 address of
                Inl e \<Rightarrow> Inl e
              | Inr memory2 \<Rightarrow> Inr (memory2, address + ucast opcode_size)))"

text \<open>
  The loop \<open>while (address < driver_bottom)\<close>. Nothing bounds the number of turns when the
  16-bit address wraps, so the loop is a partial function: \<open>None\<close> is a walk that never
  returns, \<open>Some (Inl e)\<close> a walk ended by an exception or an out-of-bounds access.
\<close>

partial_function (option) walk_loop ::
  "DriverConfig \<Rightarrow> 16 word \<Rightarrow> 16 word \<Rightarrow> C64Memory \<Rightarrow> 16 word
     \<Rightarrow> (error + (C64Memory \<times> 16 word)) option" where
  "walk_loop config driver_bottom address_delta memory address =
     (if address < driver_bottom then
        (case walk_step config address_delta memory address of
           Inl e \<Rightarrow> Some (Inl e)
         | Inr ma \<Rightarrow> walk_loop config driver_bottom address_delta (fst ma) (snd ma))
      else Some (Inr (memory, address)))"

text \<open>
  \<open>ProcessDriverCode_walk\<close> is the body of \<open>ProcessDriverCode\<close> and also gives the value
  of the local \<open>address\<close> when the loop ends; \<open>ProcessDriverCode\<close> keeps the memory only,
  as the \<open>void\<close> function does through its reference parameter.
\<close>

definition ProcessDriverCode_walk ::
  "DriverConfig \<Rightarrow> C64Memory \<Rightarrow> (error + (C64Memory \<times> 16 word)) option" where
  "ProcessDriverCode_walk config memory =
     (let driver_top = driver_code_top config;
          driver_size = driver_code_size config;
          driver_bottom = driver_top + driver_size;
          address_delta = GetAddressDelta config
      in walk_loop config driver_bottom address_delta memory driver_top)"

definition ProcessDriverCode :: "DriverConfig \<Rightarrow> C64Memory \<Rightarrow> (error + C64Memory) option" where
  "ProcessDriverCode config memory =
     map_option (map_sum id fst) (ProcessDriverCode_walk config memory)"

section \<open>The opcode matrix is consistent with the relocator's size checks\<close>

lemma opcode_table_length: "length opcode_table = 256"
  by (simp add: opcode_table_def)

lemma opcode_table_sizes:
  "list_all (\<lambda>e. (RequiresRelocation (op_mode e) \<longrightarrow> op_size e = 3) \<and>
                 (RequiresZeroPageAdjustment (op_mode e) \<longrightarrow> op_size e = 2) \<and>
                 (op_size e = 1 \<or> op_size e = 2 \<or> op_size e = 3))
     opcode_table"
  by (simp add: opcode_table_def op_mode_def op_size_def RequiresRelocation_def
      RequiresZeroPageAdjustment_def)

lemma opcode_entry:
  "(RequiresRelocation (GetOpcodeAddressingMode opcode) \<longrightarrow> GetOpcodeSize opcode = 3) \<and>
   (RequiresZeroPageAdjustment (GetOpcodeAddressingMode opcode) \<longrightarrow> GetOpcodeSize opcode = 2) \<and>
   (GetOpcodeSize opcode = 1 \<or> GetOpcodeSize opcode = 2 \<or> GetOpcodeSize opcode = 3)"
proof -
  have "unat opcode < length opcode_table"
    using unsigned_less [of opcode, where 'a = nat] by (simp add: opcode_table_length)
  then show ?thesis
    using opcode_table_sizes
    unfolding GetOpcodeAddressingMode_def GetOpcodeSize_def list_all_length
    by blast
qed


lemma GetOpcodeSize_cases:
  "GetOpcodeSize opcode = 1 \<or> GetOpcodeSize opcode = 2 \<or> GetOpcodeSize opcode = 3"
  using opcode_entry [of opcode] by blast

lemma GetOpcodeSize_pos: "0 < unat (GetOpcodeSize opcode)"
  using GetOpcodeSize_cases [of opcode] by auto

lemma GetOpcodeSize_le3: "unat (GetOpcodeSize opcode) \<le> 3"
  using GetOpcodeSize_cases [of opcode] by auto


section \<open>The instructions of the linear walk\<close>

text \<open>
  The operand of a 3-byte instruction at \<open>a\<close> is the little-endian word in the two bytes
  after the opcode. \<open>relocated_operand\<close> is the rule of \<open>ProcessDriverCode\<close> (and of
  \<open>RelocateVector\<close>) for such a word: the range 0xD000..0xDFFF is kept, every other
  value moves by the address delta, in 16 bits.
\<close>

definition operand_word :: "C64Memory \<Rightarrow> 16 word \<Rightarrow> 16 word" where
  "operand_word data a = ucast (data (a + 1)) OR push_bit 8 (ucast (data (a + 2)))"

definition relocated_operand :: "16 word \<Rightarrow> 16 word \<Rightarrow> 16 word" where
  "relocated_operand d v = (if 0xD000 \<le> v \<and> v \<le> 0xDFFF then v else v + d)"


text \<open>
  The addresses at which a linear walk from \<open>a\<close> reads an opcode before it reaches
  \<open>bottom\<close>, in a given memory image: each instruction starts where the previous one
  ends by the table's size. Addresses are natural numbers here, so the list is finite and
  does not wrap.
\<close>

function insn_addrs :: "C64Memory \<Rightarrow> nat \<Rightarrow> nat \<Rightarrow> nat list" where
  "insn_addrs data a bottom =
     (if a < bottom
      then a # insn_addrs data (a + unat (GetOpcodeSize (data (of_nat a)))) bottom
      else [])"
  by pat_completeness auto
termination
  by (relation "measure (\<lambda>(data, a, bottom). bottom - a)")
     (use GetOpcodeSize_pos in \<open>auto simp: diff_less_mono2\<close>)

declare insn_addrs.simps [simp del]

definition insn_ok ::
  "DriverConfig \<Rightarrow> 16 word \<Rightarrow> C64Memory \<Rightarrow> C64Memory \<Rightarrow> 16 word \<Rightarrow> bool" where
  "insn_ok config d m m' b =
     (m' b = m b \<and>
      (RequiresRelocation (GetOpcodeAddressingMode (m b)) \<longrightarrow>
         operand_word m' b = relocated_operand d (operand_word m b)) \<and>
      (RequiresZeroPageAdjustment (GetOpcodeAddressingMode (m b)) \<longrightarrow>
         m' (b + 1) = target_lowest_zp config + (m (b + 1) - current_lowest_zp config)))"

lemma le16_join:
  "(ucast (ucast (v AND 0xFF :: 16 word) :: 8 word) :: 16 word) OR
     push_bit 8 (ucast (ucast (drop_bit 8 v AND 0xFF :: 16 word) :: 8 word)) = v"
proof -
  have m: "(0xFF::16 word) = mask 8" by (simp add: mask_eq_decr_exp)
  show ?thesis unfolding m by (rule bit_word_eqI) (auto simp: bit_simps)
qed

lemma not_both_modes:
  "\<not> (RequiresRelocation md \<and> RequiresZeroPageAdjustment md)"
  by (cases md) (simp_all add: RequiresRelocation_def RequiresZeroPageAdjustment_def)


lemma unat_add_small:
  fixes a :: "16 word"
  assumes "unat a \<le> 0xFFFC"
  shows "unat (a + 1) = unat a + 1" and "unat (a + 2) = unat a + 2" and "unat (a + 3) = unat a + 3"
proof -
  have "unat a + unat (1 :: 16 word) < 2 ^ LENGTH(16)" using assms by simp
  then show "unat (a + 1) = unat a + 1" by (simp add: unat_add_lem [THEN iffD1])
  have "unat a + unat (2 :: 16 word) < 2 ^ LENGTH(16)" using assms by simp
  then show "unat (a + 2) = unat a + 2" by (simp add: unat_add_lem [THEN iffD1])
  have "unat a + unat (3 :: 16 word) < 2 ^ LENGTH(16)" using assms by simp
  then show "unat (a + 3) = unat a + 3" by (simp add: unat_add_lem [THEN iffD1])
qed

lemma unat_add_size:
  fixes a :: "16 word"
  assumes "unat a \<le> 0xFFFC"
  shows "unat (a + ucast (GetOpcodeSize opcode)) = unat a + unat (GetOpcodeSize opcode)"
  using GetOpcodeSize_cases [of opcode] unat_add_small [OF assms] by auto


lemma relocate_abs_ok:
  assumes a: "unat a \<le> 0xFFFC"
    and sz: "RequiresRelocation md \<longrightarrow> sz = 3"
  shows "\<exists>m1. relocate_abs d sz md m a = Inr m1 \<and>
           (\<forall>x. x \<noteq> a + 1 \<and> x \<noteq> a + 2 \<longrightarrow> m1 x = m x) \<and>
           (\<not> RequiresRelocation md \<longrightarrow> m1 = m) \<and>
           (RequiresRelocation md \<longrightarrow>
              operand_word m1 a = relocated_operand d (operand_word m a))"
proof (cases "RequiresRelocation md")
  case False
  then show ?thesis by (simp add: relocate_abs_def)
next
  case True
  from unat_add_small(1) [OF a] a have ne: "a + 1 \<noteq> 0xFFFF"
    by (auto simp: word_unat_eq_iff)
  have two: "a + 1 + 1 = a + 2" by simp
  have ne2: "a + 2 \<noteq> a + 1" by simp
  show ?thesis
    using True sz ne ne2
    by (auto simp: relocate_abs_def GetWord_def SetWord_def operand_word_def
        relocated_operand_def two le16_join Let_def)
qed

lemma relocate_zp_ok:
  assumes sz: "RequiresZeroPageAdjustment md \<longrightarrow> sz = 2"
  shows "\<exists>m2. relocate_zp config sz md m a = Inr m2 \<and>
           (\<forall>x. x \<noteq> a + 1 \<longrightarrow> m2 x = m x) \<and>
           (\<not> RequiresZeroPageAdjustment md \<longrightarrow> m2 = m) \<and>
           (RequiresZeroPageAdjustment md \<longrightarrow>
              m2 (a + 1) = target_lowest_zp config + (m (a + 1) - current_lowest_zp config))"
  using sz by (auto simp: relocate_zp_def GetByte_def SetByte_def Let_def)


lemma insn_addrs_bounds: "n \<in> set (insn_addrs m a B) \<Longrightarrow> a \<le> n \<and> n < B"
proof (induction m a B rule: insn_addrs.induct)
  case (1 data a bottom)
  show ?case
  proof (cases "a < bottom")
    case True
    with "1.prems" have "n = a \<or> n \<in> set (insn_addrs data (a + unat (GetOpcodeSize (data (of_nat a)))) bottom)"
      by (subst (asm) insn_addrs.simps) simp
    then show ?thesis using "1.IH" [OF True] True by auto
  next
    case False
    with "1.prems" show ?thesis by (subst (asm) insn_addrs.simps) simp
  qed
qed

lemma insn_addrs_cong:
  "(\<And>n. a \<le> n \<Longrightarrow> n < B \<Longrightarrow> m1 (of_nat n) = m2 (of_nat n)) \<Longrightarrow>
   insn_addrs m1 a B = insn_addrs m2 a B"
proof (induction m1 a B rule: insn_addrs.induct)
  case (1 data a bottom)
  show ?case
  proof (cases "a < bottom")
    case True
    have eq: "data (of_nat a) = m2 (of_nat a)" using "1.prems" True by simp
    have "insn_addrs data (a + unat (GetOpcodeSize (data (of_nat a)))) bottom =
          insn_addrs m2 (a + unat (GetOpcodeSize (data (of_nat a)))) bottom"
      using "1.IH" [OF True] "1.prems" by simp
    then show ?thesis
      using True eq by (subst insn_addrs.simps, subst (2) insn_addrs.simps) simp
  next
    case False
    then show ?thesis by (subst insn_addrs.simps, subst (2) insn_addrs.simps) simp
  qed
qed

lemma walk_step_ok:
  assumes a: "unat a \<le> 0xFFFC"
  shows "\<exists>m2. walk_step config d m a = Inr (m2, a + ucast (GetOpcodeSize (m a))) \<and>
     (\<forall>x. unat x < unat a \<or> unat a + unat (GetOpcodeSize (m a)) \<le> unat x \<longrightarrow> m2 x = m x) \<and>
     insn_ok config d m m2 a"
proof -
  define sz where "sz = GetOpcodeSize (m a)"
  define md where "md = GetOpcodeAddressingMode (m a)"
  have szr: "RequiresRelocation md \<longrightarrow> sz = 3" and szz: "RequiresZeroPageAdjustment md \<longrightarrow> sz = 2"
    using opcode_entry [of "m a"] by (simp_all add: sz_def md_def)
  obtain m1 where m1: "relocate_abs d sz md m a = Inr m1"
      "\<forall>x. x \<noteq> a + 1 \<and> x \<noteq> a + 2 \<longrightarrow> m1 x = m x"
      "\<not> RequiresRelocation md \<longrightarrow> m1 = m"
      "RequiresRelocation md \<longrightarrow> operand_word m1 a = relocated_operand d (operand_word m a)"
    using relocate_abs_ok [OF a szr] by blast
  obtain m2 where m2: "relocate_zp config sz md m1 a = Inr m2"
      "\<forall>x. x \<noteq> a + 1 \<longrightarrow> m2 x = m1 x"
      "\<not> RequiresZeroPageAdjustment md \<longrightarrow> m2 = m1"
      "RequiresZeroPageAdjustment md \<longrightarrow>
         m2 (a + 1) = target_lowest_zp config + (m1 (a + 1) - current_lowest_zp config)"
    using relocate_zp_ok [OF szz] by blast
  have step: "walk_step config d m a = Inr (m2, a + ucast sz)"
    by (simp add: walk_step_def Let_def sz_def [symmetric] md_def [symmetric] m1(1) m2(1))
  note u = unat_add_small [OF a]
  have ne1: "a + 1 \<noteq> a" and ne2: "a + 2 \<noteq> a" by simp_all
  have far: "m2 x = m x" if "unat x < unat a \<or> unat a + unat sz \<le> unat x" for x
  proof (cases "RequiresRelocation md")
    case True
    then have "sz = 3" "m2 = m1" using szr m2(3) not_both_modes [of md] by auto
    moreover have "x \<noteq> a + 1 \<and> x \<noteq> a + 2" using that u \<open>sz = 3\<close> by auto
    ultimately show ?thesis using m1(2) by simp
  next
    case False
    then have m1m: "m1 = m" using m1(3) by simp
    show ?thesis
    proof (cases "RequiresZeroPageAdjustment md")
      case True
      then have "sz = 2" using szz by simp
      then have "x \<noteq> a + 1" using that u by auto
      then show ?thesis using m2(2) m1m by simp
    next
      case False
      then show ?thesis using m2(3) m1m by simp
    qed
  qed
  have same: "m2 a = m a" using m1(2) m2(2) ne1 ne2 by (metis (no_types))
  have ok: "insn_ok config d m m2 a"
  proof (cases "RequiresRelocation md")
    case True
    then have "m2 = m1" "\<not> RequiresZeroPageAdjustment md"
      using m2(3) not_both_modes [of md] by auto
    then show ?thesis using True m1(4) same by (simp add: insn_ok_def md_def [symmetric])
  next
    case False
    then have "m1 = m" using m1(3) by simp
    then show ?thesis using False m2(4) same by (simp add: insn_ok_def md_def [symmetric])
  qed
  show ?thesis using step far same ok unfolding sz_def by blast
qed


lemma insn_ok_cong_src:
  "m2 b = m b \<Longrightarrow> m2 (b + 1) = m (b + 1) \<Longrightarrow> m2 (b + 2) = m (b + 2) \<Longrightarrow>
   insn_ok config d m2 m' b = insn_ok config d m m' b"
  by (simp add: insn_ok_def operand_word_def)

lemma walk_loop_ok:
  assumes B: "unat B \<le> 0xFFFD"
  shows "\<exists>m' a'. walk_loop config B d m a = Some (Inr (m', a')) \<and>
      (a < B \<longrightarrow> unat B \<le> unat a' \<and> unat a' \<le> unat B + 2) \<and>
      (\<not> a < B \<longrightarrow> a' = a) \<and>
      (\<forall>x. unat x < unat a \<longrightarrow> m' x = m x) \<and>
      (\<forall>n \<in> set (insn_addrs m (unat a) (unat B)). insn_ok config d m m' (of_nat n))"
proof (induction "unat B - unat a" arbitrary: m a rule: less_induct)
  case less
  show ?case
  proof (cases "a < B")
    case False
    then have "insn_addrs m (unat a) (unat B) = []"
      by (subst insn_addrs.simps) (simp add: word_less_nat_alt)
    with False show ?thesis by (subst walk_loop.simps) simp
  next
    case True
    then have lt: "unat a < unat B" by (simp add: word_less_nat_alt)
    with B have a: "unat a \<le> 0xFFFC" by simp
    define sz where "sz = GetOpcodeSize (m a)"
    obtain m2 where st: "walk_step config d m a = Inr (m2, a + ucast sz)"
      and far: "\<forall>x. unat x < unat a \<or> unat a + unat sz \<le> unat x \<longrightarrow> m2 x = m x"
      and ok: "insn_ok config d m m2 a"
      using walk_step_ok [OF a] unfolding sz_def by blast
    define a2 where "a2 = a + ucast sz"
    have ua2: "unat a2 = unat a + unat sz"
      unfolding a2_def sz_def by (rule unat_add_size [OF a])
    have szpos: "0 < unat sz" and szle: "unat sz \<le> 3"
      unfolding sz_def by (rule GetOpcodeSize_pos, rule GetOpcodeSize_le3)
    have "unat B - unat a2 < unat B - unat a" using ua2 szpos lt by simp
    from less [OF this, of m2] obtain m' a' where
      r1: "walk_loop config B d m2 a2 = Some (Inr (m', a'))" and
      r2: "a2 < B \<longrightarrow> unat B \<le> unat a' \<and> unat a' \<le> unat B + 2" and
      r3: "\<not> a2 < B \<longrightarrow> a' = a2" and
      r4: "\<forall>x. unat x < unat a2 \<longrightarrow> m' x = m2 x" and
      r5: "\<forall>n\<in>set (insn_addrs m2 (unat a2) (unat B)). insn_ok config d m2 m' (of_nat n)"
      by blast
    have loop: "walk_loop config B d m a = Some (Inr (m', a'))"
      using True st r1 by (subst walk_loop.simps) (simp add: a2_def)
    have bound: "unat B \<le> unat a' \<and> unat a' \<le> unat B + 2"
    proof (cases "a2 < B")
      case True
      then show ?thesis using r2 by simp
    next
      case False
      then have "a' = a2" "unat B \<le> unat a2" using r3 by (simp_all add: word_less_nat_alt)
      then show ?thesis using ua2 szle lt by simp
    qed
    have below: "\<forall>x. unat x < unat a \<longrightarrow> m' x = m x"
      using r4 far ua2 by auto
    note u = unat_add_small [OF a]
    have head: "insn_ok config d m m' a"
    proof -
      have h0: "m' a = m2 a" using r4 ua2 szpos by simp
      have h1: "m' (a + 1) = m2 (a + 1)" if "2 \<le> unat sz"
        using r4 ua2 u that by simp
      have h2: "m' (a + 2) = m2 (a + 2)" if "sz = 3"
        using r4 ua2 u that by simp
      have e: "RequiresRelocation (GetOpcodeAddressingMode (m a)) \<longrightarrow> sz = 3"
          "RequiresZeroPageAdjustment (GetOpcodeAddressingMode (m a)) \<longrightarrow> sz = 2"
        using opcode_entry [of "m a"] by (simp_all add: sz_def)
      show ?thesis
        using ok h0 h1 h2 e by (auto simp: insn_ok_def operand_word_def)
    qed
    have agree: "m2 (of_nat n) = m (of_nat n)" if "unat a2 \<le> n" "n < 65536" for n
      using far ua2 that by (simp add: unat_of_nat)
    have eq: "insn_addrs m2 (unat a2) (unat B) = insn_addrs m (unat a2) (unat B)"
      using B by (intro insn_addrs_cong agree) simp_all
    have tail: "insn_ok config d m m' (of_nat n)"
      if n: "n \<in> set (insn_addrs m (unat a2) (unat B))" for n
    proof -
      from insn_addrs_bounds [OF n] B have nb: "unat a2 \<le> n" "n \<le> 0xFFFC" by simp_all
      define b :: "16 word" where "b = of_nat n"
      have ub: "unat b = n" using nb by (simp add: b_def unat_of_nat)
      then have ubl: "unat b \<le> 0xFFFC" using nb by simp
      note v = unat_add_small [OF ubl]
      have "m2 b = m b" "m2 (b + 1) = m (b + 1)" "m2 (b + 2) = m (b + 2)"
        using far ua2 nb ub v by simp_all
      then have "insn_ok config d m2 m' b = insn_ok config d m m' b"
        by (rule insn_ok_cong_src)
      then show ?thesis using r5 n eq by (simp add: b_def)
    qed
    have split: "insn_addrs m (unat a) (unat B) = unat a # insn_addrs m (unat a2) (unat B)"
      using lt by (subst insn_addrs.simps) (simp add: ua2 sz_def)
    show ?thesis
      using loop bound below head tail True unfolding split by auto
  qed
qed


lemma walk_step_not_runtime_error:
  "walk_step config d m a \<noteq> Inl (Runtime_error msg)"
  using opcode_entry [of "m a"]
  by (auto simp: walk_step_def relocate_abs_def relocate_zp_def GetWord_def SetWord_def Let_def
      split: sum.splits if_splits)

lemma walk_loop_not_runtime_error:
  assumes "walk_loop config B d m a = Some r"
  shows "r \<noteq> Inl (Runtime_error msg)"
proof (rule walk_loop.raw_induct
    [where P = "\<lambda>_ _ _ _ _ y. y \<noteq> Inl (Runtime_error msg)", OF _ assms])
  fix f config B d m a y
  assume IH: "\<And>config B d m a y. f config B d m a = Some y \<Longrightarrow> y \<noteq> Inl (Runtime_error msg)"
    and eq: "(if a < B
              then case walk_step config d m a of Inl e \<Rightarrow> Some (Inl e)
                   | Inr ma \<Rightarrow> f config B d (fst ma) (snd ma)
              else Some (Inr (m, a))) = Some y"
  show "y \<noteq> Inl (Runtime_error msg)"
  proof (cases "a < B")
    case False
    with eq show ?thesis by auto
  next
    case True
    show ?thesis
    proof (cases "walk_step config d m a")
      case (Inl e)
      with True eq walk_step_not_runtime_error [of config d m a msg] show ?thesis by auto
    next
      case (Inr ma)
      with True eq have "f config B d (fst ma) (snd ma) = Some y" by simp
      then show ?thesis by (rule IH)
    qed
  qed
qed



text \<open>
  The address at which a linear walk from \<open>a\<close> stops: the first address at or past
  \<open>bottom\<close> that is reached when every instruction starts where the previous one ends
  by the table's size. It follows the wording of the specification, not the loop of
  \<open>ProcessDriverCode\<close>, and is compared with the loop below.
\<close>

function walk_end :: "C64Memory \<Rightarrow> nat \<Rightarrow> nat \<Rightarrow> nat" where
  "walk_end data a bottom =
     (if a < bottom
      then walk_end data (a + unat (GetOpcodeSize (data (of_nat a)))) bottom
      else a)"
  by pat_completeness auto
termination
  by (relation "measure (\<lambda>(data, a, bottom). bottom - a)")
     (use GetOpcodeSize_pos in \<open>auto simp: diff_less_mono2\<close>)

declare walk_end.simps [simp del]

lemma walk_end_cong:
  "(\<And>n. a \<le> n \<Longrightarrow> n < B \<Longrightarrow> m1 (of_nat n) = m2 (of_nat n)) \<Longrightarrow>
   walk_end m1 a B = walk_end m2 a B"
proof (induction m1 a B rule: walk_end.induct)
  case (1 data a bottom)
  show ?case
  proof (cases "a < bottom")
    case True
    have eq: "data (of_nat a) = m2 (of_nat a)" using "1.prems" True by simp
    have "walk_end data (a + unat (GetOpcodeSize (data (of_nat a)))) bottom =
          walk_end m2 (a + unat (GetOpcodeSize (data (of_nat a)))) bottom"
      using "1.IH" [OF True] "1.prems" by simp
    then show ?thesis
      using True eq by (subst walk_end.simps, subst (2) walk_end.simps) simp
  next
    case False
    then show ?thesis by (subst walk_end.simps, subst (2) walk_end.simps) simp
  qed
qed

lemma walk_loop_end:
  assumes B: "unat B \<le> 0xFFFD"
  shows "walk_loop config B d m a = Some (Inr (m', a')) \<Longrightarrow>
         unat a' = walk_end m (unat a) (unat B)"
proof (induction "unat B - unat a" arbitrary: m a rule: less_induct)
  case less
  show ?case
  proof (cases "a < B")
    case False
    then have "\<not> unat a < unat B" by (simp add: word_less_nat_alt)
    then have "walk_end m (unat a) (unat B) = unat a"
      by (subst walk_end.simps) simp
    moreover from less.prems False have "a' = a"
      by (subst (asm) walk_loop.simps) simp
    ultimately show ?thesis by simp
  next
    case True
    then have lt: "unat a < unat B" by (simp add: word_less_nat_alt)
    with B have a: "unat a \<le> 0xFFFC" by simp
    define sz where "sz = GetOpcodeSize (m a)"
    obtain m2 where st: "walk_step config d m a = Inr (m2, a + ucast sz)"
      and far: "\<forall>x. unat x < unat a \<or> unat a + unat sz \<le> unat x \<longrightarrow> m2 x = m x"
      using walk_step_ok [OF a] unfolding sz_def by blast
    define a2 where "a2 = a + ucast sz"
    have ua2: "unat a2 = unat a + unat sz"
      unfolding a2_def sz_def by (rule unat_add_size [OF a])
    have szpos: "0 < unat sz"
      unfolding sz_def by (rule GetOpcodeSize_pos)
    have dec: "unat B - unat a2 < unat B - unat a" using ua2 szpos lt by simp
    have r1: "walk_loop config B d m2 a2 = Some (Inr (m', a'))"
      using less.prems True st by (subst (asm) walk_loop.simps) (simp add: a2_def)
    have agree: "m2 (of_nat n) = m (of_nat n)" if "unat a2 \<le> n" "n < unat B" for n
    proof -
      from that B have "n < 65536" by simp
      then show ?thesis using far ua2 that by (simp add: unat_of_nat)
    qed
    have "unat a' = walk_end m2 (unat a2) (unat B)"
      by (rule less.hyps [OF dec r1])
    also have "\<dots> = walk_end m (unat a2) (unat B)"
      by (intro walk_end_cong agree)
    also have "\<dots> = walk_end m (unat a) (unat B)"
      using lt by (subst (2) walk_end.simps) (simp add: ua2 sz_def)
    finally show ?thesis .
  qed
qed

section \<open>Core B: what the relocator guarantees\<close>

text \<open>
  The driver configurations and memory images used below. \<open>cfg_default\<close> holds the
  constants of sf2pack.cpp (\<open>DefaultDriverConfig\<close>: code at 0x0D7E, 0x0800 bytes,
  zero page base 2) with the target address 0x1000 and the target zero page base 0x40.
  \<open>cfg_top\<close> is a driver whose code region [0xF000, 0x10000) ends with the last byte
  of the memory, so that \<open>driver_top + driver_size\<close> is 0 in \<open>unsigned short\<close>.
\<close>

definition cfg_default :: DriverConfig where
  "cfg_default = \<lparr>driver_code_top = 0x0D7E, driver_code_size = 0x0800, current_lowest_zp = 0x02,
                  target_lowest_zp = 0x40, destination_address = 0x1000\<rparr>"

definition cfg_top :: DriverConfig where
  "cfg_top = \<lparr>driver_code_top = 0xF000, driver_code_size = 0x1000, current_lowest_zp = 0x02,
              target_lowest_zp = 0x40, destination_address = 0x1000\<rparr>"

definition cfg_one :: DriverConfig where
  "cfg_one = \<lparr>driver_code_top = 0x1000, driver_code_size = 1, current_lowest_zp = 0x02,
              target_lowest_zp = 0x02, destination_address = 0x1000\<rparr>"

definition cfg_three :: DriverConfig where
  "cfg_three = \<lparr>driver_code_top = 0x1000, driver_code_size = 3, current_lowest_zp = 0x02,
                target_lowest_zp = 0x40, destination_address = 0x2000\<rparr>"

definition mem_lda_abs :: "16 word \<Rightarrow> 8 word \<Rightarrow> 8 word \<Rightarrow> C64Memory" where
  "mem_lda_abs a lo hi = (\<lambda>_. 0)(a := 0xAD, a + 1 := lo, a + 2 := hi)"

definition mem_lda_zp :: "16 word \<Rightarrow> 8 word \<Rightarrow> C64Memory" where
  "mem_lda_zp a z = (\<lambda>_. 0)(a := 0xA5, a + 1 := z)"

lemmas opcode_eval =
  GetOpcodeAddressingMode_def GetOpcodeSize_def opcode_table_def op_mode_def op_size_def
  RequiresRelocation_def RequiresZeroPageAdjustment_def

lemma unat_bottom:
  assumes "unat (driver_code_top config) + unat (driver_code_size config) \<le> 0xFFFD"
  shows "unat (driver_code_top config + driver_code_size config) =
         unat (driver_code_top config) + unat (driver_code_size config)"
proof -
  have "unat (driver_code_top config) + unat (driver_code_size config) < 2 ^ LENGTH(16)"
    using assms by simp
  then show ?thesis by (simp add: unat_add_lem [THEN iffD1])
qed

lemma ProcessDriverCode_returns:
  assumes "unat (driver_code_top config) + unat (driver_code_size config) \<le> 0xFFFD"
  shows "\<exists>m'. ProcessDriverCode config m = Some (Inr m')"
proof -
  let ?B = "driver_code_top config + driver_code_size config"
  have B: "unat ?B \<le> 0xFFFD" using assms by (simp add: unat_bottom)
  from walk_loop_ok [OF B, of config "GetAddressDelta config" m "driver_code_top config"]
  obtain m' a' where
    "walk_loop config ?B (GetAddressDelta config) m (driver_code_top config) = Some (Inr (m', a'))"
    by blast
  then show ?thesis
    by (simp add: ProcessDriverCode_def ProcessDriverCode_walk_def Let_def)
qed

lemma uint_word16_reloc:
  "uint (v + (dst - src) :: 16 word) = (uint v + (uint dst - uint src)) mod 0x10000"
  by (simp add: uint_word_ariths mod_simps)

lemma uint_relocated_operand:
  "uint (relocated_operand (dst - src) v) =
     (if 0xD000 \<le> uint v \<and> uint v \<le> 0xDFFF then uint v
      else (uint v + (uint dst - uint src)) mod 0x10000)"
proof -
  have r: "(0xD000 \<le> v \<and> v \<le> 0xDFFF) = (0xD000 \<le> uint v \<and> uint v \<le> 0xDFFF)"
    by (simp add: word_le_def)
  show ?thesis
    unfolding relocated_operand_def r using uint_word16_reloc [of v dst src]
    by (simp del: word_less_eq_iff_unsigned)
qed

lemma uint_zp_relocated:
  "uint (t + (z - c) :: 8 word) = (uint t + (uint z - uint c)) mod 256"
  by (simp add: uint_word_ariths mod_simps)

text \<open>
  Claim C1, wherever the sum \<open>driver_top + driver_size\<close> stays clear of the 16-bit
  overflow. For every memory image and every driver configuration whose code region ends
  at 0xFFFD or below (\<open>driver_top + driver_size \<le> 0xFFFD\<close>),
  \<open>ProcessDriverCode\<close> returns, and every instruction the linear walk meets in
  [driver_top, driver_top + driver_size) keeps its opcode; when its addressing mode is
  ABS, ABX, ABY or IND, its little-endian operand V is unchanged if V is in
  [0xD000, 0xDFFF] and is otherwise (V + (destination_address - driver_top)) mod 0x10000.
\<close>

theorem ProcessDriverCode_relocates_abs:
  assumes "unat (driver_code_top config) + unat (driver_code_size config) \<le> 0xFFFD"
  shows "\<exists>m'. ProcessDriverCode config m = Some (Inr m') \<and>
     (\<forall>n \<in> set (insn_addrs m (unat (driver_code_top config))
                   (unat (driver_code_top config) + unat (driver_code_size config))).
        m' (of_nat n) = m (of_nat n) \<and>
        (RequiresRelocation (GetOpcodeAddressingMode (m (of_nat n))) \<longrightarrow>
           uint (operand_word m' (of_nat n)) =
             (if 0xD000 \<le> uint (operand_word m (of_nat n)) \<and>
                 uint (operand_word m (of_nat n)) \<le> 0xDFFF
              then uint (operand_word m (of_nat n))
              else (uint (operand_word m (of_nat n)) +
                    (uint (destination_address config) - uint (driver_code_top config)))
                   mod 0x10000)))"
proof -
  let ?B = "driver_code_top config + driver_code_size config"
  have B: "unat ?B \<le> 0xFFFD" using assms by (simp add: unat_bottom)
  from walk_loop_ok [OF B, of config "GetAddressDelta config" m "driver_code_top config"]
  obtain m' a' where
    w: "walk_loop config ?B (GetAddressDelta config) m (driver_code_top config) = Some (Inr (m', a'))"
    and ok: "\<forall>n \<in> set (insn_addrs m (unat (driver_code_top config)) (unat ?B)).
               insn_ok config (GetAddressDelta config) m m' (of_nat n)"
    by blast
  have "ProcessDriverCode config m = Some (Inr m')"
    using w by (simp add: ProcessDriverCode_def ProcessDriverCode_walk_def Let_def)
  moreover have "\<forall>n \<in> set (insn_addrs m (unat (driver_code_top config))
                   (unat (driver_code_top config) + unat (driver_code_size config))).
        m' (of_nat n) = m (of_nat n) \<and>
        (RequiresRelocation (GetOpcodeAddressingMode (m (of_nat n))) \<longrightarrow>
           operand_word m' (of_nat n) =
             relocated_operand (destination_address config - driver_code_top config)
               (operand_word m (of_nat n)))"
    using ok by (simp add: insn_ok_def unat_bottom [OF assms] GetAddressDelta_def)
  ultimately show ?thesis
    by (simp only: uint_relocated_operand [symmetric]) metis
qed

theorem ProcessDriverCode_relocates_abs_witness:
  "unat (driver_code_top cfg_default) + unat (driver_code_size cfg_default) \<le> 0xFFFD \<and>
   (\<exists>m'. ProcessDriverCode cfg_default (mem_lda_abs 0x0D7E 0x00 0x0E) = Some (Inr m') \<and>
         m' 0x0D7E = 0xAD \<and> uint (operand_word m' 0x0D7E) = 0x1082)"
proof -
  have h: "unat (driver_code_top cfg_default) + unat (driver_code_size cfg_default) \<le> 0xFFFD"
    by (simp add: cfg_default_def)
  have mem: "(0x0D7E :: nat) \<in> set (insn_addrs (mem_lda_abs 0x0D7E 0x00 0x0E)
       (unat (driver_code_top cfg_default))
       (unat (driver_code_top cfg_default) + unat (driver_code_size cfg_default)))"
    by (subst insn_addrs.simps) (simp add: cfg_default_def)
  have md: "RequiresRelocation (GetOpcodeAddressingMode (mem_lda_abs 0x0D7E 0x00 0x0E 0x0D7E))"
    by (simp add: mem_lda_abs_def opcode_eval)
  have v: "operand_word (mem_lda_abs 0x0D7E 0x00 0x0E) 0x0D7E = 0x0E00"
    by (simp add: mem_lda_abs_def operand_word_def)
  from ProcessDriverCode_relocates_abs [OF h, of "mem_lda_abs 0x0D7E 0x00 0x0E"]
  obtain m' where r: "ProcessDriverCode cfg_default (mem_lda_abs 0x0D7E 0x00 0x0E) = Some (Inr m')"
    and a: "\<forall>n \<in> set (insn_addrs (mem_lda_abs 0x0D7E 0x00 0x0E)
                   (unat (driver_code_top cfg_default))
                   (unat (driver_code_top cfg_default) + unat (driver_code_size cfg_default))).
        m' (of_nat n) = mem_lda_abs 0x0D7E 0x00 0x0E (of_nat n) \<and>
        (RequiresRelocation (GetOpcodeAddressingMode (mem_lda_abs 0x0D7E 0x00 0x0E (of_nat n))) \<longrightarrow>
           uint (operand_word m' (of_nat n)) =
             (if 0xD000 \<le> uint (operand_word (mem_lda_abs 0x0D7E 0x00 0x0E) (of_nat n)) \<and>
                 uint (operand_word (mem_lda_abs 0x0D7E 0x00 0x0E) (of_nat n)) \<le> 0xDFFF
              then uint (operand_word (mem_lda_abs 0x0D7E 0x00 0x0E) (of_nat n))
              else (uint (operand_word (mem_lda_abs 0x0D7E 0x00 0x0E) (of_nat n)) +
                    (uint (destination_address cfg_default) - uint (driver_code_top cfg_default)))
                   mod 0x10000))"
    by blast
  from a [rule_format, OF mem] md v
  have "m' 0x0D7E = 0xAD \<and> uint (operand_word m' 0x0D7E) = 0x1082"
    by (simp add: cfg_default_def mem_lda_abs_def)
  with h r show ?thesis by blast
qed

text \<open>
  The defect behind claim C1: \<open>driver_bottom\<close> is an \<open>unsigned short\<close> and the sum
  \<open>driver_top + driver_size\<close> is not guarded. For \<open>cfg_top\<close> it overflows to 0, the
  loop \<open>while (address < driver_bottom)\<close> never runs, and the instruction LDA 0xF100 at
  0xF000 keeps its operand 0xF100, where the claim asks for
  (0xF100 + (0x1000 - 0xF000)) mod 0x10000 = 0x1100.
\<close>

theorem ProcessDriverCode_abs_counterexample:
  "ProcessDriverCode cfg_top (mem_lda_abs 0xF000 0x00 0xF1) = Some (Inr (mem_lda_abs 0xF000 0x00 0xF1)) \<and>
   RequiresRelocation (GetOpcodeAddressingMode (mem_lda_abs 0xF000 0x00 0xF1 0xF000)) \<and>
   uint (operand_word (mem_lda_abs 0xF000 0x00 0xF1) 0xF000) = 0xF100 \<and>
   (0xF100 + (uint (destination_address cfg_top) - uint (driver_code_top cfg_top))) mod 0x10000
     = (0x1100 :: int)"
  by (simp add: ProcessDriverCode_def ProcessDriverCode_walk_def cfg_top_def walk_loop.simps
      mem_lda_abs_def opcode_eval operand_word_def)


text \<open>
  Claim C2, wherever the sum \<open>driver_top + driver_size\<close> stays clear of the 16-bit
  overflow. For every memory image and every driver configuration whose code region ends
  at 0xFFFD or below, \<open>ProcessDriverCode\<close> returns, and every instruction
  the linear walk meets in the region keeps its opcode; when its addressing mode is ZP,
  ZPX, ZPY, IZX or IZY, its one-byte operand z has become
  (target_lowest_zp + (z - current_lowest_zp)) mod 256.
\<close>

theorem ProcessDriverCode_relocates_zp:
  assumes "unat (driver_code_top config) + unat (driver_code_size config) \<le> 0xFFFD"
  shows "\<exists>m'. ProcessDriverCode config m = Some (Inr m') \<and>
     (\<forall>n \<in> set (insn_addrs m (unat (driver_code_top config))
                   (unat (driver_code_top config) + unat (driver_code_size config))).
        m' (of_nat n) = m (of_nat n) \<and>
        (RequiresZeroPageAdjustment (GetOpcodeAddressingMode (m (of_nat n))) \<longrightarrow>
           GetOpcodeSize (m (of_nat n)) = 2 \<and>
           uint (m' (of_nat n + 1)) =
             (uint (target_lowest_zp config) +
              (uint (m (of_nat n + 1)) - uint (current_lowest_zp config))) mod 256))"
proof -
  let ?B = "driver_code_top config + driver_code_size config"
  have B: "unat ?B \<le> 0xFFFD" using assms by (simp add: unat_bottom)
  from walk_loop_ok [OF B, of config "GetAddressDelta config" m "driver_code_top config"]
  obtain m' a' where
    w: "walk_loop config ?B (GetAddressDelta config) m (driver_code_top config) = Some (Inr (m', a'))"
    and ok: "\<forall>n \<in> set (insn_addrs m (unat (driver_code_top config)) (unat ?B)).
               insn_ok config (GetAddressDelta config) m m' (of_nat n)"
    by blast
  have "ProcessDriverCode config m = Some (Inr m')"
    using w by (simp add: ProcessDriverCode_def ProcessDriverCode_walk_def Let_def)
  moreover have "\<forall>n \<in> set (insn_addrs m (unat (driver_code_top config))
                   (unat (driver_code_top config) + unat (driver_code_size config))).
        m' (of_nat n) = m (of_nat n) \<and>
        (RequiresZeroPageAdjustment (GetOpcodeAddressingMode (m (of_nat n))) \<longrightarrow>
           GetOpcodeSize (m (of_nat n)) = 2 \<and>
           m' (of_nat n + 1) =
             target_lowest_zp config + (m (of_nat n + 1) - current_lowest_zp config))"
    using ok opcode_entry by (simp add: insn_ok_def unat_bottom [OF assms])
  ultimately show ?thesis
    by (simp only: uint_zp_relocated [symmetric]) metis
qed

theorem ProcessDriverCode_relocates_zp_witness:
  "unat (driver_code_top cfg_default) + unat (driver_code_size cfg_default) \<le> 0xFFFD \<and>
   (\<exists>m'. ProcessDriverCode cfg_default (mem_lda_zp 0x0D7E 0x05) = Some (Inr m') \<and>
         m' 0x0D7E = 0xA5 \<and> uint (m' 0x0D7F) = 0x43)"
proof -
  have h: "unat (driver_code_top cfg_default) + unat (driver_code_size cfg_default) \<le> 0xFFFD"
    by (simp add: cfg_default_def)
  have mem: "(0x0D7E :: nat) \<in> set (insn_addrs (mem_lda_zp 0x0D7E 0x05)
       (unat (driver_code_top cfg_default))
       (unat (driver_code_top cfg_default) + unat (driver_code_size cfg_default)))"
    by (subst insn_addrs.simps) (simp add: cfg_default_def)
  have md: "RequiresZeroPageAdjustment (GetOpcodeAddressingMode (mem_lda_zp 0x0D7E 0x05 0x0D7E))"
    by (simp add: mem_lda_zp_def opcode_eval)
  from ProcessDriverCode_relocates_zp [OF h, of "mem_lda_zp 0x0D7E 0x05"]
  obtain m' where r: "ProcessDriverCode cfg_default (mem_lda_zp 0x0D7E 0x05) = Some (Inr m')"
    and a: "\<forall>n \<in> set (insn_addrs (mem_lda_zp 0x0D7E 0x05)
                   (unat (driver_code_top cfg_default))
                   (unat (driver_code_top cfg_default) + unat (driver_code_size cfg_default))).
        m' (of_nat n) = mem_lda_zp 0x0D7E 0x05 (of_nat n) \<and>
        (RequiresZeroPageAdjustment (GetOpcodeAddressingMode (mem_lda_zp 0x0D7E 0x05 (of_nat n))) \<longrightarrow>
           GetOpcodeSize (mem_lda_zp 0x0D7E 0x05 (of_nat n)) = 2 \<and>
           uint (m' (of_nat n + 1)) =
             (uint (target_lowest_zp cfg_default) +
              (uint (mem_lda_zp 0x0D7E 0x05 (of_nat n + 1)) - uint (current_lowest_zp cfg_default)))
             mod 256)"
    by blast
  from a [rule_format, OF mem] md
  have "m' 0x0D7E = 0xA5 \<and> uint (m' 0x0D7F) = 0x43"
    by (simp add: cfg_default_def mem_lda_zp_def)
  with h r show ?thesis by blast
qed

text \<open>
  The same overflow of \<open>driver_bottom\<close> behind claim C2: for \<open>cfg_top\<close> the loop never
  runs and LDA 0x05 at 0xF000 keeps its operand 0x05, where the claim asks for
  (0x40 + (0x05 - 0x02)) mod 256 = 0x43.
\<close>

theorem ProcessDriverCode_zp_counterexample:
  "ProcessDriverCode cfg_top (mem_lda_zp 0xF000 0x05) = Some (Inr (mem_lda_zp 0xF000 0x05)) \<and>
   RequiresZeroPageAdjustment (GetOpcodeAddressingMode (mem_lda_zp 0xF000 0x05 0xF000)) \<and>
   GetOpcodeSize (mem_lda_zp 0xF000 0x05 0xF000) = 2 \<and>
   uint (mem_lda_zp 0xF000 0x05 0xF001) = 0x05 \<and>
   (uint (target_lowest_zp cfg_top) + (0x05 - uint (current_lowest_zp cfg_top))) mod 256
     = (0x43 :: int)"
  by (simp add: ProcessDriverCode_def ProcessDriverCode_walk_def cfg_top_def walk_loop.simps
      mem_lda_zp_def opcode_eval)

text \<open>
  Claim C3, as amended. For every memory image and every driver configuration whose code
  region ends at 0xFFFD or below, the walk of \<open>ProcessDriverCode\<close> terminates without an
  error, and its final address is \<open>walk_end\<close> of the memory image it was given: the
  address reached from \<open>driver_top\<close> when every step advances by the table's size of the
  opcode at the current address. That address is at least \<open>driver_top + driver_size\<close>
  and at most two bytes past it (the last instruction may straddle the end of the region).
\<close>

theorem ProcessDriverCode_walk_terminates:
  assumes "unat (driver_code_top config) + unat (driver_code_size config) \<le> 0xFFFD"
  shows "\<exists>m' a'. ProcessDriverCode_walk config m = Some (Inr (m', a')) \<and>
     unat a' = walk_end m (unat (driver_code_top config))
                 (unat (driver_code_top config) + unat (driver_code_size config)) \<and>
     unat (driver_code_top config) + unat (driver_code_size config) \<le> unat a' \<and>
     unat a' \<le> unat (driver_code_top config) + unat (driver_code_size config) + 2"
proof -
  let ?B = "driver_code_top config + driver_code_size config"
  have uB: "unat ?B = unat (driver_code_top config) + unat (driver_code_size config)"
    by (rule unat_bottom [OF assms])
  have B: "unat ?B \<le> 0xFFFD" using assms by (simp add: uB)
  from walk_loop_ok [OF B, of config "GetAddressDelta config" m "driver_code_top config"]
  obtain m' a' where
    w: "walk_loop config ?B (GetAddressDelta config) m (driver_code_top config) = Some (Inr (m', a'))"
    and b1: "driver_code_top config < ?B \<longrightarrow> unat ?B \<le> unat a' \<and> unat a' \<le> unat ?B + 2"
    and b2: "\<not> driver_code_top config < ?B \<longrightarrow> a' = driver_code_top config"
    by blast
  have "unat ?B \<le> unat a' \<and> unat a' \<le> unat ?B + 2"
  proof (cases "driver_code_top config < ?B")
    case True
    then show ?thesis using b1 by simp
  next
    case False
    then have "a' = driver_code_top config" "unat ?B \<le> unat (driver_code_top config)"
      using b2 by (simp_all add: word_less_nat_alt)
    then show ?thesis using uB by simp
  qed
  moreover have "unat a' = walk_end m (unat (driver_code_top config)) (unat ?B)"
    by (rule walk_loop_end [OF B w])
  ultimately show ?thesis
    using w unfolding uB
    by (simp add: ProcessDriverCode_walk_def Let_def)
qed

lemma walk_end_three: "walk_end (\<lambda>_. 0xA5) 0x1000 0x1003 = 0x1004"
  by code_simp

theorem ProcessDriverCode_walk_terminates_witness:
  "unat (driver_code_top cfg_three) + unat (driver_code_size cfg_three) \<le> 0xFFFD \<and>
   (\<exists>m' a'. ProcessDriverCode_walk cfg_three (\<lambda>_. 0xA5) = Some (Inr (m', a')) \<and>
      a' = 0x1004)"
proof -
  have h: "unat (driver_code_top cfg_three) + unat (driver_code_size cfg_three) \<le> 0xFFFD"
    by (simp add: cfg_three_def)
  have e: "walk_end (\<lambda>_. 0xA5) (unat (driver_code_top cfg_three))
             (unat (driver_code_top cfg_three) + unat (driver_code_size cfg_three)) = 0x1004"
    by (simp add: cfg_three_def walk_end_three)
  from ProcessDriverCode_walk_terminates [OF h, of "\<lambda>_. 0xA5"] obtain m' a' where
    "ProcessDriverCode_walk cfg_three (\<lambda>_. 0xA5) = Some (Inr (m', a'))" "unat a' = 0x1004"
    unfolding e by blast
  moreover from this(2) have "a' = 0x1004"
    by (simp add: word_unat_eq_iff)
  ultimately show ?thesis using h by blast
qed


text \<open>
  Claim C3 as the specification states it fails: with a code region of one byte that
  holds the 3-byte opcode 0x4C (JMP), the walk ends with the address 0x1003, two bytes
  past \<open>driver_top + driver_size\<close> = 0x1001.
\<close>

theorem ProcessDriverCode_walk_overshoot_counterexample:
  "0 < driver_code_size cfg_one \<and>
   ProcessDriverCode_walk cfg_one (\<lambda>_. 0x4C) = Some (Inr (\<lambda>_. 0x4C, 0x1003)) \<and>
   driver_code_top cfg_one + driver_code_size cfg_one = 0x1001"
  by (simp add: ProcessDriverCode_walk_def cfg_one_def walk_loop.simps GetAddressDelta_def
      walk_step_def relocate_abs_def relocate_zp_def GetWord_def opcode_eval Let_def)

text \<open>
  Claim C4. For every opcode byte the table gives size 3 to the modes ABS, ABX, ABY and IND
  and size 2 to the modes ZP, ZPX, ZPY, IZX and IZY; so, for every configuration and memory
  image, \<open>ProcessDriverCode\<close> never ends with one of its two \<open>runtime_error\<close>
  exceptions, whatever their message.
\<close>

theorem opcode_sizes_match_modes:
  "(RequiresRelocation (GetOpcodeAddressingMode opcode) \<longrightarrow> GetOpcodeSize opcode = 3) \<and>
   (RequiresZeroPageAdjustment (GetOpcodeAddressingMode opcode) \<longrightarrow> GetOpcodeSize opcode = 2) \<and>
   ProcessDriverCode config memory \<noteq> Some (Inl (Runtime_error msg))"
proof -
  have "ProcessDriverCode config memory \<noteq> Some (Inl (Runtime_error msg))"
  proof
    assume "ProcessDriverCode config memory = Some (Inl (Runtime_error msg))"
    then obtain r where
      r: "walk_loop config (driver_code_top config + driver_code_size config)
            (GetAddressDelta config) memory (driver_code_top config) = Some r"
      and e: "map_sum id fst r = Inl (Runtime_error msg)"
      by (auto simp: ProcessDriverCode_def ProcessDriverCode_walk_def Let_def)
    from e have "r = Inl (Runtime_error msg)" by (cases r) simp_all
    with walk_loop_not_runtime_error [OF r, of msg] show False by simp
  qed
  then show ?thesis using opcode_entry [of opcode] by blast
qed

theorem opcode_sizes_match_modes_witness:
  "RequiresRelocation (GetOpcodeAddressingMode 0x4C) \<and> GetOpcodeSize 0x4C = 3 \<and>
   RequiresZeroPageAdjustment (GetOpcodeAddressingMode 0xA5) \<and> GetOpcodeSize 0xA5 = 2"
proof -
  have a: "RequiresRelocation (GetOpcodeAddressingMode 0x4C)"
    and z: "RequiresZeroPageAdjustment (GetOpcodeAddressingMode 0xA5)"
    by (simp_all add: opcode_eval)
  from opcode_sizes_match_modes [of "0x4C"] a have "GetOpcodeSize 0x4C = 3" by blast
  moreover from opcode_sizes_match_modes [of "0xA5"] z have "GetOpcodeSize 0xA5 = 2" by blast
  ultimately show ?thesis using a z by blast
qed


section \<open>Core B: PRG marshalling and the packer (c64memory.cpp, packer_simple.cpp)\<close>

text \<open>
  \<open>ExportToPRG\<close> throws on an empty or reversed range; otherwise the vector holds the
  load address, low byte first, and the bytes \<open>data_[top_address .. bottom_address - 1]\<close>.
\<close>

definition ExportToPRG :: "C64Memory \<Rightarrow> 16 word \<Rightarrow> 16 word \<Rightarrow> error + 8 word list" where
  "ExportToPRG data top_address bottom_address =
     (if bottom_address \<le> top_address
      then Inl (Runtime_error ''Invalid address range for PRG export'')
      else
        (let data_size = unat bottom_address - unat top_address
         in Inr ([ucast (top_address AND 0xFF), ucast (drop_bit 8 top_address AND 0xFF)] @
                 map (\<lambda>i. data (top_address + of_nat i)) [0..<data_size])))"

text \<open>
  \<open>LoadFromPRG (prg_data, prg_size)\<close>: the buffer is a list (never a null pointer) and
  \<open>prg_size\<close> is the \<open>unsigned int\<close> the caller passes with it. The fit test
  \<open>load_address + data_size > 0x10000\<close> is computed in \<open>unsigned int\<close> and wraps at
  \<open>2 ^ 32\<close>. \<open>memcpy\<close> writes \<open>data_size\<close> bytes from \<open>prg_data[2]\<close> on to
  \<open>data_[load_address]\<close> on; reading past the buffer or writing past the 64 KiB array is
  the error \<open>Out_of_bounds\<close>. The result is the \<open>bool\<close> returned and the container
  after the call.
\<close>

definition LoadFromPRG :: "C64Memory \<Rightarrow> 8 word list \<Rightarrow> 32 word \<Rightarrow> error + (bool \<times> C64Memory)" where
  "LoadFromPRG data prg_data prg_size =
     (if prg_size < 3 then Inr (False, data)
      else if length prg_data < 2 then Inl Out_of_bounds
      else
        (let load_address :: 16 word =
               ucast (prg_data ! 0) OR push_bit 8 (ucast (prg_data ! 1));
             data_size :: 32 word = prg_size - 2
         in if 0x10000 < ucast load_address + data_size then Inr (False, data)
            else if length prg_data < unat prg_size \<or>
                    0x10000 < unat load_address + unat data_size
            then Inl Out_of_bounds
            else Inr (True,
                      \<lambda>a. if unat load_address \<le> unat a \<and>
                              unat a < unat load_address + unat data_size
                           then prg_data ! (2 + (unat a - unat load_address))
                           else data a)))"

text \<open>
  \<open>PackerSimple::Pack\<close> works on two containers: the caller's \<open>input_memory\<close> (a
  \<open>const\<close> reference) and the local \<open>memory\<close>. Every statement is a step on the pair.
  The four \<open>for\<close> loops are the functions \<open>Pack_copy\<close>, \<open>Pack_scan\<close>,
  \<open>Pack_move\<close> and \<open>Pack_clear\<close>; their counters are an \<open>unsigned int\<close> that
  stays below \<open>2 ^ 32\<close> (a natural number) or an \<open>unsigned short\<close> (a 16-bit word).
\<close>

record PackState =
  input_memory :: C64Memory
  memory :: C64Memory

function Pack_copy :: "PackState \<Rightarrow> nat \<Rightarrow> PackState" where
  "Pack_copy st i =
     (if i < 0x10000
      then Pack_copy (st\<lparr>memory := (memory st)(of_nat i := input_memory st (of_nat i))\<rparr>) (i + 1)
      else st)"
  by pat_completeness auto
termination
  by (relation "measure (\<lambda>(st, i). 0x10000 - i)") auto

function Pack_scan :: "C64Memory \<Rightarrow> 16 word \<Rightarrow> 16 word \<Rightarrow> 16 word" where
  "Pack_scan mem addr data_end =
     (if addr < 0x3000
      then Pack_scan mem (addr + 1) (if mem addr \<noteq> 0 then addr + 1 else data_end)
      else data_end)"
  by pat_completeness auto
termination
proof (relation "measure (\<lambda>(mem, addr, data_end). 0x3000 - unat addr)")
  show "wf (measure (\<lambda>(mem :: C64Memory, addr :: 16 word, data_end :: 16 word). 0x3000 - unat addr))"
    by simp
next
  fix mem :: C64Memory and addr data_end :: "16 word"
  assume lt: "addr < 0x3000"
  then have u: "unat addr < 0x3000" by (simp add: word_less_nat_alt)
  then have "unat addr + unat (1 :: 16 word) < 2 ^ LENGTH(16)" by simp
  then have "unat (addr + 1) = unat addr + 1" by (simp add: unat_add_lem [THEN iffD1])
  with u show "((mem, addr + 1, if mem addr \<noteq> 0 then addr + 1 else data_end), mem, addr, data_end)
        \<in> measure (\<lambda>(mem, addr, data_end). 0x3000 - unat addr)"
    by simp
qed

function Pack_move :: "DriverConfig \<Rightarrow> nat \<Rightarrow> PackState \<Rightarrow> nat \<Rightarrow> PackState" where
  "Pack_move config data_size st i =
     (if i < data_size
      then Pack_move config data_size
             (st\<lparr>memory := (memory st)
                   (destination_address config + of_nat i :=
                      memory st (driver_code_top config + of_nat i))\<rparr>) (i + 1)
      else st)"
  by pat_completeness auto
termination
  by (relation "measure (\<lambda>(config, data_size, st, i). data_size - i)") auto

function Pack_clear :: "16 word \<Rightarrow> PackState \<Rightarrow> 16 word \<Rightarrow> PackState" where
  "Pack_clear data_end st addr =
     (if addr < data_end
      then Pack_clear data_end (st\<lparr>memory := (memory st)(addr := 0)\<rparr>) (addr + 1)
      else st)"
  by pat_completeness auto
termination
proof (relation "measure (\<lambda>(data_end, st, addr). unat data_end - unat addr)")
  show "wf (measure (\<lambda>(data_end :: 16 word, st :: PackState, addr :: 16 word).
              unat data_end - unat addr))"
    by simp
next
  fix data_end addr :: "16 word" and st :: PackState
  assume lt: "addr < data_end"
  then have u: "unat addr < unat data_end" by (simp add: word_less_nat_alt)
  moreover have "unat data_end < 2 ^ LENGTH(16)" by (rule unsigned_less)
  ultimately have "unat addr + unat (1 :: 16 word) < 2 ^ LENGTH(16)" by simp
  then have "unat (addr + 1) = unat addr + 1" by (simp add: unat_add_lem [THEN iffD1])
  with u show "((data_end, st\<lparr>memory := (memory st)(addr := 0)\<rparr>, addr + 1), data_end, st, addr)
        \<in> measure (\<lambda>(data_end, st, addr). unat data_end - unat addr)"
    by simp
qed

text \<open>
  \<open>Pack\<close>: the vector returned (or the exception thrown) and the caller's container as
  it is when the call ends; \<open>None\<close> when \<open>ProcessDriverCode\<close> does not return.
  \<open>data_size\<close> is \<open>data_end - data_start\<close> computed in \<open>int\<close> and stored in an
  \<open>unsigned int\<close>; the arguments of \<open>operator[]\<close> and of \<open>ExportToPRG\<close> are cut to
  16 bits.
\<close>

definition Pack ::
  "DriverConfig \<Rightarrow> C64Memory \<Rightarrow> ((error + 8 word list) \<times> C64Memory) option" where
  "Pack config input =
     (let st1 = Pack_copy \<lparr>input_memory = input, memory = (\<lambda>_. 0)\<rparr> 0
      in case ProcessDriverCode config (memory st1) of
           None \<Rightarrow> None
         | Some (Inl e) \<Rightarrow> Some (Inl e, input_memory st1)
         | Some (Inr patched) \<Rightarrow>
             (let st2 = st1\<lparr>memory := patched\<rparr>;
                  data_start = driver_code_top config;
                  data_end = Pack_scan (memory st2)
                               (driver_code_top config + driver_code_size config)
                               (driver_code_top config + driver_code_size config);
                  data_size = nat ((uint data_end - uint data_start) mod 2 ^ 32);
                  st3 = (if destination_address config \<noteq> driver_code_top config
                         then Pack_clear data_end (Pack_move config data_size st2 0)
                                (driver_code_top config)
                         else st2)
              in Some (ExportToPRG (memory st3) (destination_address config)
                         (destination_address config + of_nat data_size),
                       input_memory st3)))"


section \<open>Core B: the PRG round trip and the packer's frame\<close>

lemma unat_of_nat32: "n < 2 ^ 32 \<Longrightarrow> unat (of_nat n :: 32 word) = n"
  by (simp add: unat_of_nat)

lemma unat_of_nat16: "n < 2 ^ 16 \<Longrightarrow> unat (of_nat n :: 16 word) = n"
  by (simp add: unat_of_nat)

lemma ExportToPRG_Inr:
  assumes "top_address < bottom_address"
  shows "ExportToPRG data top_address bottom_address =
     Inr ([ucast (top_address AND 0xFF), ucast (drop_bit 8 top_address AND 0xFF)] @
          map (\<lambda>i. data (top_address + of_nat i)) [0..<unat bottom_address - unat top_address])"
  using assms by (simp add: ExportToPRG_def Let_def not_le)

lemma LoadFromPRG_True:
  fixes la :: "16 word"
  assumes "\<not> prg_size < 3" and "2 \<le> length prg_data"
    and "la = ucast (prg_data ! 0) OR push_bit 8 (ucast (prg_data ! 1))"
    and "\<not> 0x10000 < ucast la + (prg_size - 2)"
    and "unat prg_size \<le> length prg_data"
    and "unat la + unat (prg_size - 2) \<le> 0x10000"
  shows "LoadFromPRG data prg_data prg_size =
     Inr (True, \<lambda>a. if unat la \<le> unat a \<and> unat a < unat la + unat (prg_size - 2)
                       then prg_data ! (2 + (unat a - unat la)) else data a)"
  unfolding LoadFromPRG_def Let_def assms(3) [symmetric] using assms(1,2,4,5,6)
  by (simp add: not_less)

text \<open>
  Claim C9. For every range \<open>top_address < bottom_address\<close>, \<open>ExportToPRG\<close> returns a
  PRG whose first two bytes are \<open>top_address\<close>, low byte first, followed by one byte for
  each address of the range; and \<open>LoadFromPRG\<close> of that PRG (with its length as
  \<open>prg_size\<close>) into any container succeeds and leaves, at every address of
  [top_address, bottom_address), the byte the exported container held there.
\<close>

theorem export_load_round_trip:
  assumes lt: "top_address < bottom_address"
  shows "\<exists>prg data'.
     ExportToPRG data top_address bottom_address = Inr prg \<and>
     length prg = unat bottom_address - unat top_address + 2 \<and>
     ucast (prg ! 0) OR push_bit 8 (ucast (prg ! 1)) = top_address \<and>
     LoadFromPRG other prg (of_nat (length prg)) = Inr (True, data') \<and>
     (\<forall>a. top_address \<le> a \<and> a < bottom_address \<longrightarrow> data' a = data a)"
proof -
  define n where "n = unat bottom_address - unat top_address"
  define prg where "prg = [ucast (top_address AND 0xFF), ucast (drop_bit 8 top_address AND 0xFF)] @
          map (\<lambda>i. data (top_address + of_nat i)) [0..<n]"
  have ex: "ExportToPRG data top_address bottom_address = Inr prg"
    unfolding prg_def n_def by (rule ExportToPRG_Inr [OF lt])
  have ult: "unat top_address < unat bottom_address" using lt by (simp add: word_less_nat_alt)
  have ub: "unat bottom_address < 2 ^ 16" using unsigned_less [of bottom_address, where 'a = nat] by simp
  have n: "0 < n" "unat top_address + n = unat bottom_address" "n < 2 ^ 16"
    using ult ub by (simp_all add: n_def)
  have len: "length prg = n + 2" by (simp add: prg_def)
  have la: "(ucast (prg ! 0) OR push_bit 8 (ucast (prg ! 1)) :: 16 word) = top_address"
    by (simp add: prg_def le16_join)
  have size: "unat (of_nat (length prg) :: 32 word) = n + 2"
  proof -
    have "unat (of_nat (n + 2) :: 32 word) = n + 2"
      by (rule unat_of_nat32) (use n in simp)
    then show ?thesis by (simp only: len)
  qed
  have ge3: "\<not> (of_nat (length prg) :: 32 word) < 3"
    using n size by (simp add: word_less_nat_alt)
  have ds: "unat ((of_nat (length prg) :: 32 word) - 2) = n"
  proof -
    have "(of_nat (length prg) :: 32 word) - 2 = of_nat n" by (simp add: len)
    then show ?thesis using n by (simp add: unat_of_nat32)
  qed
  have uc: "unat (ucast top_address :: 32 word) = unat top_address"
  proof -
    have "unat top_address < 2 ^ 32"
      using unsigned_less [of top_address, where 'a = nat] by simp
    then show ?thesis by (simp add: unsigned_ucast_eq take_bit_nat_eq_self)
  qed
  have sum: "unat ((ucast top_address :: 32 word) + (of_nat (length prg) - 2)) = unat bottom_address"
  proof -
    have "unat (ucast top_address :: 32 word) + unat ((of_nat (length prg) :: 32 word) - 2) < 2 ^ LENGTH(32)"
      using n ub by (simp add: ds uc)
    then have "unat ((ucast top_address :: 32 word) + (of_nat (length prg) - 2)) =
               unat (ucast top_address :: 32 word) + unat ((of_nat (length prg) :: 32 word) - 2)"
      by (simp only: unat_add_lem [THEN iffD1])
    then show ?thesis using n by (simp add: ds uc)
  qed
  have fit: "\<not> (0x10000 :: 32 word) < ucast top_address + (of_nat (length prg) - 2)"
    using sum ub by (simp add: word_less_nat_alt)
  define data' where "data' = (\<lambda>a. if unat top_address \<le> unat a \<and> unat a < unat top_address + n
                           then prg ! (2 + (unat a - unat top_address)) else other a)"
  have ld: "LoadFromPRG other prg (of_nat (length prg)) = Inr (True, data')"
  proof -
    have "2 \<le> length prg" "unat (of_nat (length prg) :: 32 word) \<le> length prg"
      unfolding size by (simp_all add: len)
    moreover have "unat top_address + unat ((of_nat (length prg) :: 32 word) - 2) \<le> 0x10000"
      using n ub by (simp only: ds) simp
    ultimately have "LoadFromPRG other prg (of_nat (length prg)) =
       Inr (True, \<lambda>a. if unat top_address \<le> unat a \<and>
                            unat a < unat top_address + unat ((of_nat (length prg) :: 32 word) - 2)
                         then prg ! (2 + (unat a - unat top_address)) else other a)"
      using ge3 la [symmetric] fit by (intro LoadFromPRG_True)
    then show ?thesis by (simp only: ds data'_def)
  qed
  have win: "data' a = data a" if "top_address \<le> a \<and> a < bottom_address" for a
  proof -
    from that have r: "unat top_address \<le> unat a" "unat a < unat top_address + n"
      using n by (simp_all add: word_le_nat_alt word_less_nat_alt)
    define k where "k = unat a - unat top_address"
    have k: "k < n" "unat top_address + k = unat a" using r by (simp_all add: k_def)
    have "top_address + of_nat k = a"
    proof -
      have "unat (top_address + of_nat k) = unat a"
      proof -
        have kk: "unat (of_nat k :: 16 word) = k" using k n by (simp add: unat_of_nat16)
        have "unat top_address + unat (of_nat k :: 16 word) < 2 ^ LENGTH(16)"
          using k n ub kk by simp
        then have "unat (top_address + of_nat k) = unat top_address + unat (of_nat k :: 16 word)"
          by (simp only: unat_add_lem [THEN iffD1])
        then show ?thesis using k kk by simp
      qed
      then show ?thesis by (simp add: word_unat_eq_iff)
    qed
    moreover have "prg ! (2 + k) = data (top_address + of_nat k)"
      using k by (simp add: prg_def nth_append)
    ultimately show ?thesis using r by (simp add: data'_def k_def)
  qed
  show ?thesis using ex len la ld win unfolding n_def by blast
qed

theorem export_load_round_trip_witness:
  "(0x1000 :: 16 word) < 0x1003 \<and>
   (\<exists>prg data'.
      ExportToPRG ((\<lambda>_. 0)(0x1000 := 0xAD, 0x1001 := 0x82, 0x1002 := 0x10)) 0x1000 0x1003 = Inr prg \<and>
      prg = [0x00, 0x10, 0xAD, 0x82, 0x10] \<and>
      LoadFromPRG (\<lambda>_. 0xFF) prg (of_nat (length prg)) = Inr (True, data') \<and>
      data' 0x1000 = 0xAD \<and> data' 0x1001 = 0x82 \<and> data' 0x1002 = 0x10)"
proof -
  have h: "(0x1000 :: 16 word) < 0x1003" by simp
  let ?m = "(\<lambda>_. 0)(0x1000 := 0xAD, 0x1001 := 0x82, 0x1002 := 0x10) :: C64Memory"
  from export_load_round_trip [OF h, of ?m "\<lambda>_. 0xFF"]
  obtain prg data' where
    e: "ExportToPRG ?m 0x1000 0x1003 = Inr prg" and
    l: "LoadFromPRG (\<lambda>_. 0xFF) prg (of_nat (length prg)) = Inr (True, data')" and
    w: "\<forall>a. 0x1000 \<le> a \<and> a < 0x1003 \<longrightarrow> data' a = ?m a"
    by blast
  have p: "prg = [0x00, 0x10, 0xAD, 0x82, 0x10]"
    using e by (simp add: ExportToPRG_def Let_def upt_rec)
  have "data' 0x1000 = 0xAD \<and> data' 0x1001 = 0x82 \<and> data' 0x1002 = 0x10"
    using w [rule_format, of "0x1000"] w [rule_format, of "0x1001"] w [rule_format, of "0x1002"]
    by simp
  with h e l p show ?thesis by blast
qed

lemma Pack_copy_input: "input_memory (Pack_copy st i) = input_memory st"
  by (induction st i rule: Pack_copy.induct) (subst Pack_copy.simps, simp)

lemma Pack_move_input: "input_memory (Pack_move config data_size st i) = input_memory st"
  by (induction config data_size st i rule: Pack_move.induct) (subst Pack_move.simps, simp)

lemma Pack_clear_input: "input_memory (Pack_clear data_end st addr) = input_memory st"
  by (induction data_end st addr rule: Pack_clear.induct) (subst Pack_clear.simps, simp)

declare Pack_copy.simps [simp del] Pack_move.simps [simp del] Pack_clear.simps [simp del]
  Pack_scan.simps [simp del]

text \<open>
  Claim C10. Whenever \<open>Pack\<close> ends, with the packed vector or with an exception, the
  caller's container holds at every address the byte it held before the call: the copy,
  the patches, the move and the zeroing all act on the local container. And \<open>Pack\<close>
  does end for every driver configuration whose code region ends at 0xFFFD or below.
\<close>

theorem Pack_leaves_input_unchanged:
  "(\<forall>r c. Pack config input = Some (r, c) \<longrightarrow> c = input) \<and>
   (unat (driver_code_top config) + unat (driver_code_size config) \<le> 0xFFFD \<longrightarrow>
      (\<exists>r. Pack config input = Some (r, input)))"
proof -
  define st1 where "st1 = Pack_copy \<lparr>input_memory = input, memory = (\<lambda>_. 0)\<rparr> 0"
  have i1: "input_memory st1 = input" by (simp add: st1_def Pack_copy_input)
  have frame: "c = input" if "Pack config input = Some (r, c)" for r c
    using that i1
    by (auto simp: Pack_def Let_def st1_def [symmetric] Pack_move_input Pack_clear_input
        split: option.splits sum.splits if_splits)
  have total: "\<exists>r. Pack config input = Some (r, input)"
    if "unat (driver_code_top config) + unat (driver_code_size config) \<le> 0xFFFD"
  proof -
    from ProcessDriverCode_returns [OF that, of "memory st1"]
    obtain m' where "ProcessDriverCode config (memory st1) = Some (Inr m')"
      by blast
    then obtain r c where "Pack config input = Some (r, c)"
      by (simp add: Pack_def Let_def st1_def [symmetric])
    with frame show ?thesis by blast
  qed
  show ?thesis using frame total by blast
qed

theorem Pack_leaves_input_unchanged_witness:
  "unat (driver_code_top cfg_default) + unat (driver_code_size cfg_default) \<le> 0xFFFD \<and>
   (\<exists>r. Pack cfg_default (mem_lda_abs 0x0D7E 0x00 0x0E) = Some (r, mem_lda_abs 0x0D7E 0x00 0x0E))"
proof -
  have h: "unat (driver_code_top cfg_default) + unat (driver_code_size cfg_default) \<le> 0xFFFD"
    by (simp add: cfg_default_def)
  with Pack_leaves_input_unchanged [of cfg_default "mem_lda_abs 0x0D7E 0x00 0x0E"]
  show ?thesis by blast
qed

definition psidh_init :: "8 word list" where
  "psidh_init = [
     0x50, 0x53, 0x49, 0x44, 0x00, 0x02, 0x00, 0x7C, 0x00, 0x00, 0x10, 0x00, 0x10, 0x03, 0x00, 0x01,
     0x00, 0x01, 0x00, 0x00, 0x00, 0x00, 0x3C, 0x3F, 0x3E, 0x00, 0x00, 0x00, 0x00, 0x00, 0x00, 0x00,
     0x00, 0x00, 0x00, 0x00, 0x00, 0x00, 0x00, 0x00, 0x00, 0x00, 0x00, 0x00, 0x00, 0x00, 0x00, 0x00,
     0x00, 0x00, 0x00, 0x00, 0x00, 0x00, 0x3C, 0x3F, 0x3E, 0x00, 0x00, 0x00, 0x00, 0x00, 0x00, 0x00,
     0x00, 0x00, 0x00, 0x00, 0x00, 0x00, 0x00, 0x00, 0x00, 0x00, 0x00, 0x00, 0x00, 0x00, 0x00, 0x00,
     0x00, 0x00, 0x00, 0x00, 0x00, 0x00, 0x31, 0x39, 0x3F, 0x3F, 0x20, 0x3C, 0x3F, 0x3E, 0x00, 0x00,
     0x00, 0x00, 0x00, 0x00, 0x00, 0x00, 0x00, 0x00, 0x00, 0x00, 0x00, 0x00, 0x00, 0x00, 0x00, 0x00,
     0x00, 0x00, 0x00, 0x00, 0x00, 0x00, 0x00, 0x14, 0x00, 0x00, 0x00, 0x00]"

definition aPatchSndmon :: "8 word list" where
  "aPatchSndmon = [
     0xa9, 0x01, 0x8d, 0x0f, 0xc0, 0xa9, 0x00, 0x8d, 0xc6, 0x02, 0x60]"

definition aPatchRckmon :: "8 word list" where
  "aPatchRckmon = [
     0xa9, 0x01, 0x8d, 0x0f, 0xc0, 0x4c, 0x12, 0xc0]"

definition aPatchPolly1 :: "8 word list" where
  "aPatchPolly1 = [
     0xa9, 0x7f, 0x8d, 0x0d, 0xdc, 0xad, 0x0d, 0xdc, 0xa0, 0x00, 0xea]"

definition aPatchPolly2 :: "8 word list" where
  "aPatchPolly2 = [
     0xa0, 0x19, 0xb9, 0x47, 0x0b, 0x99, 0xff, 0xd3, 0x88, 0xd0, 0xf7, 0xa9, 0x00, 0x8d, 0x15, 0xd0,
     0xea, 0xea, 0xea, 0xea, 0xea, 0xea]"

definition aPatchElcSnd :: "8 word list" where
  "aPatchElcSnd = [
     0x48, 0x20, 0x18, 0x00, 0x68, 0xaa, 0x8e, 0xab, 0x02, 0xbd, 0x15, 0x00, 0x8d, 0xff, 0x02, 0xa9,
     0x01, 0x8d, 0xf9, 0x02, 0x60, 0x0a]"

definition aPatchUbiksM :: "8 word list" where
  "aPatchUbiksM = [
     0x4C, 0x00, 0x00, 0x4C, 0x00, 0x00, 0x18, 0x69, 0x80, 0x8D, 0x00, 0x00, 0xA2, 0x00, 0xA9, 0x00,
     0x9D, 0x00, 0xD4, 0xE8, 0xE0, 0x20, 0xD0, 0xF6, 0x60, 0xA5, 0x01, 0x48, 0xA9, 0x36, 0x85, 0x01,
     0x20, 0x00, 0x00, 0x68, 0x85, 0x01, 0x60]"

definition aPatchMastCm :: "8 word list" where
  "aPatchMastCm = [
     0xA9, 0x01, 0x8D, 0x00, 0x00, 0xD0, 0x21, 0xA9, 0x00, 0xD0, 0x31]"

definition aPatchPolyAn :: "8 word list" where
  "aPatchPolyAn = [
     0x78, 0xD8, 0xA2, 0xFF, 0x9A, 0x20, 0x5B, 0x15, 0x20, 0x00, 0x10, 0x4C, 0x58, 0x15, 0xAD, 0x05,
     0x20, 0xD0, 0x0B, 0xA2, 0x02, 0xBD, 0x00, 0x0D, 0x95, 0x00, 0xE8, 0xD0, 0xF8, 0x60, 0xA2, 0x02,
     0xBD, 0x00, 0x1A, 0x95, 0x00, 0xE8, 0xD0, 0xF8, 0x60]"

definition aPatchMssiah :: "8 word list" where
  "aPatchMssiah = [
     0x78, 0xA9, 0x35, 0x85, 0x01, 0x20, 0x1C, 0x5F, 0x20, 0xF3, 0x5E, 0xA9, 0x00, 0x8D, 0x0E, 0xDC,
     0x8D, 0x0F, 0xDC, 0x8D, 0x19, 0xD0, 0x8D, 0x1A, 0xD0, 0xA9, 0x7F, 0x8D, 0x0D, 0xDC, 0xA9, 0x81,
     0x8D, 0x0D, 0xDC, 0xA9, 0x94, 0x8D, 0xFE, 0xFF, 0xA9, 0x5F, 0x8D, 0xFF, 0xFF, 0xA9, 0xA4, 0x8D,
     0xFA, 0xFF, 0xA9, 0x5F, 0x8D, 0xFB, 0xFF, 0xA9, 0xF6, 0x2C, 0x5A, 0x71, 0x30, 0x02, 0xA9, 0xAC,
     0x8D, 0x04, 0xDC, 0xA9, 0x07, 0x8D, 0x05, 0xDC, 0xA9, 0x11, 0x8D, 0x0E, 0xDC, 0xA9, 0x1B, 0x8D,
     0x11, 0xD0, 0x58, 0x20, 0x95, 0x5E, 0x60, 0, 0, 0, 0, 0]"

definition aPatchArneDD :: "8 word list" where
  "aPatchArneDD = [
     0xa9, 0x00, 0xea, 0xc9, 0x01, 0xf0, 0x05]"

definition aPatchDMC4f9 :: "8 word list" where
  "aPatchDMC4f9 = [
     0xC8, 0xB1, 0xF8, 0x9D, 0x26, 0x17, 0x60]"

definition aPatchDblTrk :: "8 word list" where
  "aPatchDblTrk = [
     0xA9, 0x63, 0x8D, 0x04, 0xDC, 0xA9, 0x26, 0x8D, 0x05, 0xDC, 0xA9, 0x00, 0x8D, 0xEB, 0x0F, 0x4C,
     0x48, 0x10, 0xA9, 0x00, 0x29, 0x01, 0xAA, 0xEE, 0xEB, 0x0F, 0xBD, 0xFB, 0x0F, 0x8D, 0xF9, 0x0F,
     0x4C, 0x21, 0x10, 0x21, 0x00, 0x00, 0x00, 0x00]"

definition af4 :: "(int \<times> int) list" where
  "af4 = [
     (0x006, 0xad), (0x015, 0xee), (0x018, 0xee), (0x01b, 0xee), (0x025, 0xce), (0x02d, 0x8d),
     (0x035, 0x8d), (0x039, 0xad), (0x04b, 0xde), (0x056, 0xbc), (0x065, 0x9d), (0x068, 0x9d),
     (0x06b, 0x9d), (0x06e, 0x8d), (0x077, 0x8d), (0x07e, 0xad), (0x083, 0x9d), (0x086, 0xfe),
     (0x08c, 0xad), (0x093, 0xad), (0x098, 0x9d), (0x09b, 0xfe), (0x0a1, 0xad), (0x0b2, 0x9d),
     (0x0b5, 0xbc), (0x0b8, 0x9d), (0x0bd, 0x9d), (0x0cc, 0x9d), (0x0cf, 0xfe), (0x0dc, 0x9d),
     (0x0ee, 0x9d), (0x0f6, 0x8d), (0x0f9, 0xfe), (0x102, 0x8d), (0x10b, 0xfe), (0x11f, 0x9d),
     (0x131, 0x9d), (0x13a, 0xbd), (0x13d, 0x9d), (0x143, 0x7d), (0x146, 0x9d), (0x151, 0xac),
     (0x157, 0x9d), (0x15a, 0x9d), (0x161, 0x9d), (0x164, 0xbd), (0x169, 0xbd), (0x170, 0x8e),
     (0x18c, 0x9d), (0x18f, 0x9d), (0x197, 0x9d), (0x19b, 0x9d), (0x1a3, 0x9d), (0x1a8, 0x9d),
     (0x1ac, 0x9d), (0x1af, 0xfe), (0x1b2, 0xbc), (0x1bd, 0x9d), (0x1c0, 0xbd), (0x1c5, 0xde),
     (0x1ca, 0xfe), (0x1d0, 0xfe), (0x1dd, 0xac), (0x1e0, 0xbd), (0x1e5, 0xbd), (0x1ea, 0x9d),
     (0x1ed, 0xbd), (0x1f7, 0x8d), (0x1fd, 0x8d), (0x203, 0x8d), (0x20a, 0xad), (0x211, 0xad),
     (0x21f, 0x9d), (0x225, 0x8d), (0x228, 0xbd), (0x22d, 0xde), (0x232, 0xfe), (0x237, 0xfe),
     (0x23a, 0xbd), (0x23d, 0xdd), (0x242, 0x9d), (0x245, 0xde), (0x248, 0xde), (0x24b, 0xbd),
     (0x256, 0x8d), (0x25f, 0x7d), (0x263, 0xce), (0x269, 0x6e), (0x26f, 0x8d), (0x275, 0x8d),
     (0x27b, 0x8d), (0x27e, 0xbd), (0x287, 0xad), (0x28a, 0xed), (0x28d, 0x8d), (0x290, 0xad),
     (0x293, 0xed), (0x296, 0x8d), (0x29c, 0xbd), (0x2a3, 0xbc), (0x2aa, 0xad), (0x2ad, 0x6d),
     (0x2b0, 0x8d), (0x2b3, 0xad), (0x2b6, 0x6d), (0x2b9, 0x8d), (0x2bf, 0xac), (0x2c2, 0xad),
     (0x2c8, 0xad), (0x2d0, 0xac), (0x2d3, 0xbd), (0x2d7, 0xfd), (0x2de, 0xbd), (0x2e9, 0xad),
     (0x2ed, 0xbd), (0x2f0, 0xed), (0x2f3, 0x9d), (0x2f9, 0xbd), (0x2fc, 0xed), (0x2ff, 0x9d),
     (0x308, 0xad), (0x30c, 0xbd), (0x30f, 0x6d), (0x312, 0x9d), (0x318, 0xbd), (0x31b, 0x6d),
     (0x31e, 0x9d), (0x324, 0xad), (0x334, 0xdd), (0x341, 0xdd), (0x34a, 0x8d), (0x350, 0xad),
     (0x355, 0x8d), (0x358, 0xbd), (0x35d, 0xbd), (0x361, 0xed), (0x364, 0x9d), (0x367, 0xbd),
     (0x36c, 0x9d), (0x375, 0x9d), (0x37a, 0xbd), (0x37e, 0x6d), (0x381, 0x9d), (0x384, 0xbd),
     (0x389, 0x9d), (0x392, 0x9d), (0x39a, 0xbd), (0x3a1, 0xbd), (0x3af, 0xac), (0x3b2, 0xbd),
     (0x3bb, 0xbd), (0x3c3, 0xad), (0x3cc, 0xbd), (0x3db, 0x9d), (0x3de, 0x8c), (0x3e1, 0xad),
     (0x3ea, 0x8e), (0x3f7, 0xbd), (0x41d, 0x8d), (0x420, 0xae), (0x424, 0x2d), (0x42b, 0x6d),
     (0x444, 0xbd), (0x44f, 0xcd), (0x458, 0x9d), (0x45e, 0xac), (0x461, 0xad), (0x468, 0xad),
     (0x488, 0xbd), (0x496, 0x99), (0x49c, 0x8d), (0x49f, 0xad), (0x4a8, 0xbd), (0x4ac, 0x6d),
     (0x4b2, 0xac), (0x4b5, 0xad), (0x4c6, 0xad), (0x4cf, 0xac), (0x4d2, 0xbd), (0x4e7, 0x9d),
     (0x4ed, 0xbd), (0x4f3, 0xbd), (0x4f9, 0xbd), (0x4fe, 0x9d), (0x501, 0xad), (0x508, 0xde),
     (0x50f, 0x9d), (0x514, 0xbd), (0x51f, 0xbd), (0x526, 0xac), (0x537, 0xac), (0x53a, 0xbd),
     (0x547, 0xad), (0x557, 0xad)]"

definition af40 :: "(int \<times> int) list" where
  "af40 = [
     (0x5a7, 0x8d), (0x704, 0x9d), (0x70c, 0x8d), (0x711, 0x8d), (0x714, 0x8d), (0x717, 0x8d),
     (0x71c, 0x9d), (0x71f, 0x9d), (0x722, 0x9d), (0x725, 0x9d), (0x72b, 0x8d)]"

definition af41 :: "(int \<times> int) list" where
  "af41 = [
     (0x569, 0x9d), (0x571, 0x8d), (0x576, 0x8d), (0x579, 0x8d), (0x57c, 0x8d), (0x581, 0x9d),
     (0x584, 0x9d), (0x587, 0x9d), (0x58a, 0x9d), (0x590, 0x8d), (0x5a7, 0x8d)]"

definition sld0 :: "(int \<times> int) list" where
  "sld0 = [
     (0x0034, 0x9d), (0x0037, 0x9d), (0x003a, 0x9d), (0x003d, 0x9d), (0x0040, 0x9d), (0x00a3, 0x8d),
     (0x00b8, 0x8d), (0x00cd, 0x8d), (0x017c, 0xad), (0x0182, 0xad), (0x0188, 0xad), (0x03d3, 0x9d),
     (0x03da, 0x7d), (0x03dd, 0x9d), (0x03e7, 0x9d), (0x03ea, 0xbd), (0x03ee, 0x7d), (0x03f1, 0x9d),
     (0x0418, 0x9d), (0x0420, 0x9d), (0x0436, 0xb9), (0x043d, 0xbe), (0x0456, 0x99), (0x045a, 0xb9),
     (0x045d, 0xd9), (0x0465, 0x79), (0x0472, 0xf9)]"

section \<open>Core A: the state of p2s.c and its accesses to the payload\<close>

text \<open>
  The file-scope variables of p2s.c that carry a result: the buffer \<open>realp\<close> read from
  the file (\<open>buf\<close>), the pointer \<open>p\<close> into it (as the offset \<open>p_off = p - realp\<close>),
  \<open>fsiz\<close>, \<open>initaddr\<close>, \<open>playaddr\<close>, \<open>loadaddr\<close>, \<open>extra\<close>,
  \<open>extrabytes\<close>, the header \<open>psidh\<close> and the identity \<open>ids\<close>. The scratch
  variables \<open>i\<close>, \<open>j\<close> and \<open>k\<close> are assigned in every function before they are
  read there, so each function below binds them locally. C's \<open>int\<close> values are
  integers; they stay far from 32 bits except where a conversion to \<open>unsigned char\<close>,
  \<open>unsigned short\<close> or \<open>unsigned int\<close> is written out as \<open>mod\<close>. The capacity
  of \<open>ids\<close> (30 bytes) is not modelled.

  Every access \<open>p[x]\<close> outside the buffer is undefined behaviour in C; here it is the
  value \<open>None\<close> of the option monad, which ends the computation.
\<close>

record p2s =
  buf :: "8 word list"
  p_off :: int
  fsiz :: int
  initaddr :: int
  playaddr :: int
  loadaddr :: int
  extra :: int
  extrabytes :: "8 word list"
  psidh :: "8 word list"
  ids :: string

definition in_buf :: "p2s \<Rightarrow> int \<Rightarrow> bool" where
  "in_buf s x = (0 \<le> p_off s + x \<and> p_off s + x < int (length (buf s)))"

text \<open>\<open>p[x]\<close>, \<open>*(unsigned short int*)(p+x)\<close> and \<open>*(unsigned int*)(p+x)\<close>, little-endian.\<close>

definition rd8 :: "p2s \<Rightarrow> int \<Rightarrow> int option" where
  "rd8 s x = (if in_buf s x then Some (uint (buf s ! nat (p_off s + x))) else None)"

definition rd16 :: "p2s \<Rightarrow> int \<Rightarrow> int option" where
  "rd16 s x = do { a \<leftarrow> rd8 s x; b \<leftarrow> rd8 s (x + 1); Some (a + 0x100 * b) }"

definition rd32 :: "p2s \<Rightarrow> int \<Rightarrow> int option" where
  "rd32 s x = do {
     a \<leftarrow> rd8 s x; b \<leftarrow> rd8 s (x + 1); c \<leftarrow> rd8 s (x + 2); d \<leftarrow> rd8 s (x + 3);
     Some (a + 0x100 * b + 0x10000 * c + 0x1000000 * d) }"

text \<open>\<open>p[x] = v\<close> (the value cut to a byte), \<open>memmove (p+x, patch, n)\<close>, \<open>memset (p+x, v, n)\<close>.\<close>

definition put :: "p2s \<Rightarrow> int \<Rightarrow> int \<Rightarrow> p2s option" where
  "put s x v =
     (if in_buf s x then Some (s\<lparr>buf := (buf s)[nat (p_off s + x) := word_of_int v]\<rparr>) else None)"

fun pokes :: "p2s \<Rightarrow> int \<Rightarrow> int list \<Rightarrow> p2s option" where
  "pokes s x [] = Some s"
| "pokes s x (v # vs) = do { s' \<leftarrow> put s x v; pokes s' (x + 1) vs }"

definition puts :: "p2s \<Rightarrow> int \<Rightarrow> 8 word list \<Rightarrow> p2s option" where
  "puts s x ws = pokes s x (map uint ws)"

definition fill :: "p2s \<Rightarrow> int \<Rightarrow> int \<Rightarrow> nat \<Rightarrow> p2s option" where
  "fill s x v n = pokes s x (replicate n v)"

text \<open>
  Conditions. \<open>&&\<close> and \<open>||\<close> evaluate from the left and stop early, so an operand
  that would read out of bounds is harmless when an earlier operand decides.
\<close>

fun all_of :: "bool option list \<Rightarrow> bool option" where
  "all_of [] = Some True"
| "all_of (c # cs) = (case c of None \<Rightarrow> None | Some b \<Rightarrow> if b then all_of cs else Some False)"

fun any_of :: "bool option list \<Rightarrow> bool option" where
  "any_of [] = Some False"
| "any_of (c # cs) = (case c of None \<Rightarrow> None | Some b \<Rightarrow> if b then Some True else any_of cs)"

definition b8 :: "p2s \<Rightarrow> int \<Rightarrow> int \<Rightarrow> bool option" where
  "b8 s x c = map_option (\<lambda>v. v = c) (rd8 s x)"

definition nb8 :: "p2s \<Rightarrow> int \<Rightarrow> int \<Rightarrow> bool option" where
  "nb8 s x c = map_option (\<lambda>v. v \<noteq> c) (rd8 s x)"

definition same8 :: "p2s \<Rightarrow> int \<Rightarrow> int \<Rightarrow> bool option" where
  "same8 s x y = do { a \<leftarrow> rd8 s x; b \<leftarrow> rd8 s y; Some (a = b) }"

definition w16 :: "p2s \<Rightarrow> int \<Rightarrow> int \<Rightarrow> bool option" where
  "w16 s x c = map_option (\<lambda>v. v = c) (rd16 s x)"

definition w32 :: "p2s \<Rightarrow> int \<Rightarrow> int \<Rightarrow> bool option" where
  "w32 s x c = map_option (\<lambda>v. v = c) (rd32 s x)"

definition w32m :: "p2s \<Rightarrow> int \<Rightarrow> int \<Rightarrow> int \<Rightarrow> bool option" where
  "w32m s x m c = map_option (\<lambda>v. v AND m = c) (rd32 s x)"

text \<open>
  A \<open>for\<close> loop that looks for the first value of its variable at which a condition
  holds and leaves with \<open>break\<close>: the value found, or nothing when the range is
  exhausted.
\<close>

fun find_first :: "(int \<Rightarrow> bool option) \<Rightarrow> int list \<Rightarrow> int option option" where
  "find_first c [] = Some None"
| "find_first c (x # xs) =
     (case c x of None \<Rightarrow> None | Some b \<Rightarrow> if b then Some (Some x) else find_first c xs)"

definition AdjustJ :: "int \<Rightarrow> int \<Rightarrow> int" where
  "AdjustJ x la = x + 2 - la"

definition CheckJ :: "int \<Rightarrow> int \<Rightarrow> bool" where
  "CheckJ x fs = (x < 0 \<or> x > fs - 1)"

text \<open>The pointer \<open>p[a] | p[a+1] << 8\<close> turned into an offset by \<open>AdjustJ\<close>.\<close>

definition ptr_at :: "p2s \<Rightarrow> int \<Rightarrow> int option" where
  "ptr_at s a = do { lo \<leftarrow> rd8 s a; hi \<leftarrow> rd8 s (a + 1);
                    Some (AdjustJ (lo OR push_bit 8 hi) (loadaddr s)) }"

definition set_psidh :: "nat \<Rightarrow> int \<Rightarrow> p2s \<Rightarrow> p2s" where
  "set_psidh n v s = s\<lparr>psidh := (psidh s)[n := word_of_int v]\<rparr>"

definition set_extrabyte :: "nat \<Rightarrow> int \<Rightarrow> p2s \<Rightarrow> p2s" where
  "set_extrabyte n v s = s\<lparr>extrabytes := (extrabytes s)[n := word_of_int v]\<rparr>"

text \<open>\<open>memmove (extrabytes + n, patch, sizeof patch)\<close>; every use stays inside the 128 bytes.\<close>

definition set_extrabytes :: "nat \<Rightarrow> 8 word list \<Rightarrow> p2s \<Rightarrow> p2s" where
  "set_extrabytes n ws s =
     s\<lparr>extrabytes := take n (extrabytes s) @ ws @ drop (n + length ws) (extrabytes s)\<rparr>"

definition P_MARKER :: nat where "P_MARKER = 0x00"
definition P_SIDVER :: nat where "P_SIDVER = 0x05"
definition P_INITADDR :: nat where "P_INITADDR = 0x0a"
definition P_PLAYADDR :: nat where "P_PLAYADDR = 0x0c"
definition P_SUBTUNES :: nat where "P_SUBTUNES = 0x0f"
definition P_STARTSNG :: nat where "P_STARTSNG = 0x11"
definition P_TIMING :: nat where "P_TIMING = 0x15"
definition P_SIDMODEL :: nat where "P_SIDMODEL = 0x77"
definition P_FREEPAGE :: nat where "P_FREEPAGE = 0x78"
definition P_FREEPMAX :: nat where "P_FREEPMAX = 0x79"
definition P_STEREOAD :: nat where "P_STEREOAD = 0x7a"


section \<open>Core A: the check functions of p2s.c\<close>

definition ret0 :: "p2s \<Rightarrow> (int \<times> p2s) option" where
  "ret0 s = Some (0, s)"

definition ret1 :: "p2s \<Rightarrow> (int \<times> p2s) option" where
  "ret1 s = Some (1, s)"

text \<open>
  \<open>fixfc4stack (buffer, lenbuff)\<close> and \<open>fixsklstack\<close>, with \<open>buffer = p + b\<close>. The
  first loops compare the table's bytes until one differs; the last loops patch the high
  byte 0x01 of an operand to 0x02 and set bit 8 of the result.
\<close>

definition matches_table :: "p2s \<Rightarrow> int \<Rightarrow> (int \<times> int) list \<Rightarrow> bool option" where
  "matches_table s b tbl = all_of (map (\<lambda>(off, c). b8 s (b + off) c) tbl)"

fun fix_entries :: "p2s \<Rightarrow> int \<Rightarrow> (int \<times> int) list \<Rightarrow> int \<Rightarrow> (int \<times> p2s) option" where
  "fix_entries s b [] j = Some (j, s)"
| "fix_entries s b ((off, c) # es) j = do {
     v \<leftarrow> rd8 s (b + off + 2);
     if v = 0x1
     then do { s' \<leftarrow> put s (b + off + 2) 0x2; fix_entries s' b es (j OR 0x100) }
     else fix_entries s b es j }"

definition fixfc4stack :: "p2s \<Rightarrow> int \<Rightarrow> int \<Rightarrow> (int \<times> p2s) option" where
  "fixfc4stack s b lenbuff =
     (if lenbuff < 0x600 then Some (-1, s)
      else do {
        common \<leftarrow> matches_table s b af4;
        if \<not> common then Some (-1, s)
        else do {
          m0 \<leftarrow> matches_table s b af40;
          z \<leftarrow> (if m0 then Some 0
                else do {
                  m1 \<leftarrow> matches_table s b (butlast af41);
                  if m1 then do { _ \<leftarrow> rd8 s (b + fst (last af41)); Some 1 }
                  else Some (-1) });
          if z = -1 then Some (-1, s)
          else do {
            (j, s1) \<leftarrow> fix_entries s b af4 z;
            fix_entries s1 b (if z = 0 then af40 else butlast af41) j } } })"

definition fixsklstack :: "p2s \<Rightarrow> int \<Rightarrow> int \<Rightarrow> (int \<times> p2s) option" where
  "fixsklstack s b lenbuff =
     (if lenbuff < 0x600 then Some (-1, s)
      else do {
        m \<leftarrow> matches_table s b sld0;
        if \<not> m then Some (-1, s) else fix_entries s b sld0 0 })"

definition AdjFC :: "p2s \<Rightarrow> p2s option" where
  "AdjFC s = do {
     c \<leftarrow> all_of [b8 s 0x48 0x20, b8 s 0x49 0xd0];
     if c then pokes s 0x47 [0xea, 0xea, 0xea] else Some s }"

definition Chk_FC :: "p2s \<Rightarrow> (int \<times> p2s) option" where
  "Chk_FC s =
     (if fsiz s < 0x200 then ret0 s
      else do {
        c \<leftarrow> all_of [b8 s 0x02 0x4c, b8 s 0x08 0xad, b8 s 0x0f 0xc9,
                      w32m s 0x0b 0xfffff0ff 0x07F000C9];
        if c then do {
          s1 \<leftarrow> AdjFC (s\<lparr>playaddr := initaddr s + 6\<rparr>);
          (i, s2) \<leftarrow> fixfc4stack (s1\<lparr>ids := ''FutureComposer''\<rparr>) 2 (fsiz s1 - 2);
          ret1 (if i \<noteq> -1
                then s2\<lparr>ids := ids s2 @ '' 4.'' @ (if i AND 1 \<noteq> 0 then ''1'' else ''0'') @
                                 (if i AND 0x100 \<noteq> 0 then '' (fixed)'' else '''')\<rparr>
                else s2) }
        else ret0 s })"

definition Chk_FCAlt :: "p2s \<Rightarrow> (int \<times> p2s) option" where
  "Chk_FCAlt s =
     (if fsiz s < 0x200 then ret0 s
      else do {
        c \<leftarrow> all_of [b8 s 0x02 0x4c, b8 s 0x03 0x08, b8 s 0x2c 0xee, b8 s 0x2d 0x42,
                      b8 s 0x2f 0xee, b8 s 0x30 0x43];
        if c then do {
          s1 \<leftarrow> AdjFC (s\<lparr>playaddr := initaddr s + 0x2a\<rparr>);
          ret1 (s1\<lparr>ids := ''FutureComposer'' @ '' (altered)''\<rparr>) }
        else ret0 s })"

text \<open>
  The test shared by MusicAssembler and MusicMixer: two JMPs at the start that already
  point to the entry points found.
\<close>

definition jmps_to :: "p2s \<Rightarrow> int \<Rightarrow> int \<Rightarrow> bool option" where
  "jmps_to s ia pa = all_of [b8 s 2 0x4c, b8 s 5 0x4c, w16 s 3 ia, w16 s 6 pa]"

definition Chk_MusAss :: "p2s \<Rightarrow> (int \<times> p2s) option" where
  "Chk_MusAss s =
     (if fsiz s < 0x200 then ret0 s
      else do {
        found \<leftarrow> find_first
          (\<lambda>i. all_of [w32 s i 0x90CE00A2, w32 s (0x05 + i) 0x26200C30,
                        w32 s (0x31 + i) 0x628D0F29]) [2..0x24];
        case found of
          None \<Rightarrow> ret0 s
        | Some i \<Rightarrow> do {
            dt \<leftarrow> all_of [b8 s 2 0xad, b8 s 3 0xd2, w32 s 0x05 0x00A205F0,
                           w32 s 0x19 0x02A205F0];
            if dt then do {
              let k = drop_bit 8 (loadaddr s) - 1;
              let ia = push_bit 8 k OR 0xd8;
              let pa = push_bit 8 k OR 0xea;
              let s1 = set_psidh P_TIMING 1 s;
              let s2 = s1\<lparr>initaddr := ia, playaddr := pa\<rparr>;
              let s3 = set_extrabyte 1 (drop_bit 8 ia) (set_extrabyte 0 (ia AND 0xff) s2);
              let s4 = set_extrabytes 2 aPatchDblTrk (s3\<lparr>extra := int (length aPatchDblTrk)\<rparr>);
              let s5 = set_extrabyte 0x24 (k + 1) (set_extrabyte 0x21 k (set_extrabyte 0x1e k
                         (set_extrabyte 0x1b k (set_extrabyte 0x13 (k + 1)
                           (set_extrabyte 0x10 k s4)))));
              s6 \<leftarrow> pokes s5 0 [0, 0];
              ret1 (s6\<lparr>ids := ''DoubleTracker''\<rparr>) }
            else do {
              let ia = loadaddr s + 0x48 - 0x23 + i;
              let pa = loadaddr s + 0x21 - 0x23 + i;
              jm \<leftarrow> jmps_to s ia pa;
              ret1 ((if jm then s\<lparr>initaddr := loadaddr s, playaddr := loadaddr s + 3\<rparr>
                     else s\<lparr>initaddr := ia, playaddr := pa\<rparr>)\<lparr>ids := ''MusicAssembler''\<rparr>) } } })"

definition Chk_MusMix :: "p2s \<Rightarrow> (int \<times> p2s) option" where
  "Chk_MusMix s =
     (if fsiz s < 0x200 then ret0 s
      else do {
        found \<leftarrow> find_first
          (\<lambda>i. all_of [b8 s (0x43 - 0x2b + i) 0xa9, w32 s (0x4b - 0x2b + i) 0x0F29D417,
                        w32 s (0xD4 - 0x2b + i) 0x2030FAB1,
                        w32 s (0x7b - 0x2b + i) 0xCE00A260]) [2..0x2c];
        case found of
          None \<Rightarrow> ret0 s
        | Some i \<Rightarrow> do {
            let ia = loadaddr s + 0x41 - 0x2b + i;
            let pa = loadaddr s + 0x7a - 0x2b + i;
            jm \<leftarrow> jmps_to s ia pa;
            ret1 ((if jm then s\<lparr>initaddr := loadaddr s, playaddr := loadaddr s + 3\<rparr>
                   else s\<lparr>initaddr := ia, playaddr := pa\<rparr>)\<lparr>ids := ''MusicMixer''\<rparr>) } })"

definition Chk_GMC :: "p2s \<Rightarrow> (int \<times> p2s) option" where
  "Chk_GMC s =
     (if fsiz s < 0x900 then ret0 s
      else do {
        found \<leftarrow> find_first
          (\<lambda>i. all_of [w32 s (0x0d0 - 0x16 + i) 0x18FADDC3, w32 s (0x0e0 - 0x16 + i) 0x47FBB470,
                        w32 s (0x1a4 - 0x16 + i) 0x0a0a0a0a]) [2..0x17];
        case found of
          None \<Rightarrow> ret0 s
        | Some i \<Rightarrow>
            ret1 (s\<lparr>initaddr := loadaddr s + 0x8ea - 0x16 + i,
                     playaddr := loadaddr s + 0x4ea - 0x16 + i,
                     ids := ''GMC/Superiors''\<rparr>) })"

definition Chk_Bappalander :: "p2s \<Rightarrow> (int \<times> p2s) option" where
  "Chk_Bappalander s =
     (if fsiz s < 0x400 then ret0 s
      else do {
        c1 \<leftarrow> all_of [w32 s 0x002 0x7DA200A9, w32 s 0x017 0xCE60B185, w32 s 0x215 0x0a0a0a0a];
        if c1
        then ret1 (s\<lparr>initaddr := loadaddr s, playaddr := loadaddr s + 0x18,
                      ids := ''Bappalander''\<rparr>)
        else do {
          c2 \<leftarrow> all_of [b8 s 2 0x4c, w32 s 0x00c 0xA9FA10CA, w32 s 0x084 0xBDAAB0B1,
                         w32 s 0x25a 0x0a0a0a0a];
          if c2
          then ret1 (s\<lparr>initaddr := loadaddr s + 3, playaddr := loadaddr s + 0,
                        ids := ''Bappalander'' @ ''/SpaceLab''\<rparr>)
          else ret0 s } })"

definition Chk_TrkPl3 :: "p2s \<Rightarrow> (int \<times> p2s) option" where
  "Chk_TrkPl3 s =
     (if fsiz s < 0x500 then ret0 s
      else do {
        c \<leftarrow> all_of [w32 s 0x142 0x00A900A2, w32 s 0x148 0x20E0E8D4, w32 s 0x289 0xCA2000A2,
                      w32 s 0x491 0x0a0a0a0a];
        if c
        then ret1 (s\<lparr>initaddr := loadaddr s + 0x140, playaddr := loadaddr s + 0x287,
                      ids := ''TrackPlayer''\<rparr>)
        else ret0 s })"

text \<open>
  \<open>Chk_Groovy\<close> turns the pointer at \<open>p[3..4]\<close> into the offset \<open>k\<close> and reads
  \<open>p + k\<close> without a call of \<open>CheckJ\<close>.
\<close>

definition Chk_Groovy :: "p2s \<Rightarrow> (int \<times> p2s) option" where
  "Chk_Groovy s =
     (if fsiz s < 0x200 then ret0 s
      else do {
        c \<leftarrow> all_of [b8 s 2 0x4c, w32 s 0x005 0x9D8A00A2];
        if c then do {
          hi \<leftarrow> rd8 s 4;
          lo \<leftarrow> rd8 s 3;
          let k = push_bit 8 hi + lo - loadaddr s + 2;
          v1 \<leftarrow> w32m s k 0xfffff0ff 0xAD0330EE;
          j \<leftarrow> (if v1 then Some (1::int)
                else do {
                  v2 \<leftarrow> all_of [b8 s k 0xe6, b8 s (k + 0x02) 0xa5, same8 s (k + 0x01) (k + 0x03),
                                 b8 s (k + 0x04) 0xc9];
                  Some (if v2 then 2 else 0) });
          if j > 0
          then ret1 (s\<lparr>initaddr := loadaddr s + 3, playaddr := loadaddr s + 0,
                        ids := ''GroovyBits v'' @ (if j = 1 then ''1'' else ''2'')\<rparr>)
          else ret0 s }
        else ret0 s })"

definition Chk_Parsec :: "p2s \<Rightarrow> (int \<times> p2s) option" where
  "Chk_Parsec s =
     (if fsiz s < 0x200 then ret0 s
      else do {
        c1 \<leftarrow> all_of [w32 s 0x0d8 0x06ADF4F2, w32 s 0x0e0 0xD002C974, w32 s 0x0f4 0x180A0A00];
        if c1
        then ret1 (s\<lparr>initaddr := loadaddr s + 3, playaddr := loadaddr s + 0,
                      ids := ''Parsec/LoS''\<rparr>)
        else do {
          c2 \<leftarrow> all_of [w32 s 0x0db 0x06ADF4F2, w32 s 0x0e3 0xD002C977, w32 s 0x0fa 0x180A0A00];
          if c2
          then ret1 (s\<lparr>initaddr := loadaddr s + 3, playaddr := loadaddr s + 0,
                        ids := ''Parsec/LoS''\<rparr>)
          else ret0 s } })"

definition Chk_Sosperec :: "p2s \<Rightarrow> (int \<times> p2s) option" where
  "Chk_Sosperec s =
     (if fsiz s < 0x200 then ret0 s
      else do {
        c \<leftarrow> all_of [w32 s 0x010 0x02020202, w32m s 0x102 0xff00ffff 0x8E00AA4C,
                      w32 s 0x132 0xD4168ED4];
        if c then do {
          s1 \<leftarrow> pokes (s\<lparr>initaddr := loadaddr s + 0xfc, playaddr := loadaddr s + 0x100\<rparr>)
                  0x0fe [0xaa, 0x4c, 0x03, drop_bit 8 (loadaddr s + 0x100)];
          ret1 (s1\<lparr>ids := ''Sosperec''\<rparr>) }
        else ret0 s })"


definition Chk_SoedeSoft :: "p2s \<Rightarrow> (int \<times> p2s) option" where
  "Chk_SoedeSoft s =
     (if fsiz s < 0x200 then ret0 s
      else do {
        c1 \<leftarrow> all_of [w32m s 0x02b 0xfffff0ff 0x3399A0A0, w32 s 0x02f 0xFAD08803,
                       w32 s 0x107 ((0x00DA2060 OR push_bit 24 (drop_bit 8 (loadaddr s)))
                                    mod 2 ^ 32)];
        if c1 then do {
          jmp \<leftarrow> b8 s 2 0x4c;
          s1 \<leftarrow> (if jmp
                 then pokes (s\<lparr>initaddr := loadaddr s\<rparr>) 3 [0x29, drop_bit 8 (loadaddr s)]
                 else Some (s\<lparr>initaddr := loadaddr s + 0x29\<rparr>));
          s2 \<leftarrow> put (s1\<lparr>playaddr := loadaddr s + 0x106\<rparr>) 0xda 0x60;
          irq \<leftarrow> b8 s2 0x142 0xa9;
          s3 \<leftarrow> (if irq then fill s2 0x142 0x60 8 else Some s2);
          ret1 (s3\<lparr>ids := ''Soedesoft'' @ '' v1''\<rparr>) }
        else do {
          c2 \<leftarrow> all_of [b8 s 2 0x4c, b8 s 5 0x4c, b8 s 8 0x4c, w32 s 0x01a 0x88033399,
                         w32 s 0x01e 0x00A9FAD0];
          if c2 then do {
            a \<leftarrow> b8 s 0x6 0x7b;
            pa \<leftarrow> (if a then Some (loadaddr s + 3)
                   else do { b \<leftarrow> b8 s 0x9 0x7b;
                             Some (if b then loadaddr s + 6 else loadaddr s + 0x7b) });
            s1 \<leftarrow> put (s\<lparr>initaddr := loadaddr s, playaddr := pa\<rparr>) 0x5c 0x60;
            ret1 (s1\<lparr>ids := ''Soedesoft'' @ '' v2''\<rparr>) }
          else do {
            c3 \<leftarrow> all_of [b8 s 2 0x4c, b8 s 5 0x4c, b8 s 6 0x35, b8 s 8 0x4c, b8 s 9 0x7c,
                           w32 s 0x03b 0x88033399, w32 s 0x07d 0x037CEE60];
            if c3
            then ret1 (s\<lparr>initaddr := loadaddr s + 3, playaddr := loadaddr s + 6,
                          ids := ''Soedesoft'' @ '' v3''\<rparr>)
            else ret0 s } } })"

definition Chk_Prosonix1 :: "p2s \<Rightarrow> (int \<times> p2s) option" where
  "Chk_Prosonix1 s =
     (if fsiz s < 0x200 then ret0 s
      else do {
        c \<leftarrow> all_of [b8 s 2 0x4c, b8 s 5 0x4c, b8 s 8 0x4c, w32m s 0x00b 0x00ffffff 0x00F000A9,
                      w32m s 0x00f 0x00ff00ff 0x00600010];
        if c then do {
          j \<leftarrow> ptr_at s 3;
          if \<not> CheckJ j (fsiz s) then do {
            m \<leftarrow> all_of [b8 s (j + 0x00) 0xa9, b8 s (j + 0x01) 0x01, b8 s (j + 0x02) 0x8d,
                          b8 s (j + 0x05) 0xa2];
            if m
            then ret1 (s\<lparr>initaddr := loadaddr s + 0, playaddr := loadaddr s + 9,
                          ids := ''Prosonix'' @ '' v1''\<rparr>)
            else ret0 s }
          else ret0 s }
        else ret0 s })"

text \<open>\<open>%02x\<close> of an \<open>int\<close>: the value as an \<open>unsigned int\<close>, in hexadecimal, two digits at least.\<close>

definition hex_digit :: "nat \<Rightarrow> char" where
  "hex_digit n = ''0123456789abcdef'' ! (n mod 16)"

function hex_str :: "nat \<Rightarrow> string" where
  "hex_str n = (if n < 16 then [hex_digit n] else hex_str (n div 16) @ [hex_digit n])"
  by pat_completeness auto
termination
  by (relation "measure id") auto

definition fmt_02x :: "int \<Rightarrow> string" where
  "fmt_02x v = (let t = hex_str (nat (v mod 2 ^ 32)) in if length t < 2 then CHR ''0'' # t else t)"

text \<open>
  \<open>Chk_4JMPS\<close>: Prosonix v2, then TFMX/Huelsbeck, Heathcliff v1 and the patched DMC 4.x.
  The offset \<open>j\<close> is reassigned on the way (\<open>j2\<close>, \<open>j3\<close>), and only some of the
  reassignments are followed by \<open>CheckJ\<close>.
\<close>

definition Chk_4JMPS_DMC :: "p2s \<Rightarrow> (int \<times> p2s) option" where
  "Chk_4JMPS_DMC s = do {
     let k = drop_bit 8 (loadaddr s);
     c \<leftarrow> all_of [w32m s (2 + 0) 0xff00ffff 0x4C001d4c, w32m s (2 + 0x04) 0xffff00ff 0x2F4C0085,
                   w32m s (2 + 0xdf) 0xff00ffff 0x4C00F920, b8 s (2 + 0xe1) (k - 1)];
     if c then do {
       let j = push_bit 8 (k - 1) OR 0xf9;
       let s1 = s\<lparr>initaddr := loadaddr s + 0, playaddr := loadaddr s + 3\<rparr>;
       let s2 = set_extrabyte 1 (drop_bit 8 j) (set_extrabyte 0 (j AND 0xff) s1);
       let s3 = set_extrabyte (2 + 5) (k + 7) (set_extrabytes 2 aPatchDMC4f9 s2);
       let s4 = s3\<lparr>extra := int (length aPatchDMC4f9)\<rparr>;
       s5 \<leftarrow> pokes s4 0 [(k + 7) mod 0x100, uint (last aPatchDMC4f9)];
       ret1 (s5\<lparr>ids := ''DMC 4.x + patch @ $'' @ fmt_02x (k - 1) @ ''f9''\<rparr>) }
     else ret0 s }"

definition Chk_4JMPS :: "p2s \<Rightarrow> (int \<times> p2s) option" where
  "Chk_4JMPS s =
     (if fsiz s < 0x800 then ret0 s
      else do {
        c \<leftarrow> all_of [b8 s 0x2 0x4c, b8 s 0x5 0x4c, b8 s 0x8 0x4c, b8 s 0xb 0x4c];
        if c then do {
          j \<leftarrow> ptr_at s 3;
          if \<not> CheckJ j (fsiz s) then do {
            a \<leftarrow> w32 s j 0x0C8D03A9;
            r \<leftarrow> (if a then do {
                     j2 \<leftarrow> ptr_at s 0xc;
                     if \<not> CheckJ j2 (fsiz s) then do {
                       m \<leftarrow> all_of [b8 s (j2 + 0) 0xad, b8 s (j2 + 1) 0x0c, b8 s (j2 + 3) 0xf0,
                                     b8 s (j2 + 8) 0x4c];
                       Some (m, j2) }
                     else Some (False, j2) }
                   else Some (False, j));
            if fst r
            then ret1 (s\<lparr>initaddr := loadaddr s + 0, playaddr := loadaddr s + 9,
                          ids := ''Prosonix'' @ '' v2''\<rparr>)
            else do {
              let j = snd r;
              t \<leftarrow> all_of [b8 s (j + 0x00) 0xad, b8 s (j + 0x03) 0x30, b8 s (j + 0x05) 0x20];
              r2 \<leftarrow> (if t then do {
                        j3 \<leftarrow> ptr_at s 0xc;
                        m \<leftarrow> all_of [b8 s (j3 + 0x00) 0x8d, b8 s (j3 + 0x03) 0x8e,
                                      b8 s (j3 + 0x06) 0x60,
                                      any_of [b8 s (j3 + 0x07) 0x18, b8 s (j3 + 0x0c) 0x18]];
                        Some (m, j3) }
                      else Some (False, j));
              if fst r2
              then ret1 (s\<lparr>initaddr := loadaddr s + 9, playaddr := loadaddr s + 0,
                            ids := ''TFMX/Huelsbeck''\<rparr>)
              else do {
                let j = snd r2;
                h \<leftarrow> all_of [w32m s (j + 0) 0xffff00ff 0xFBF000A9,
                              w32m s (j + 0x04) 0x00fff0ff 0x008d00a9,
                              w32m s (j + 0x09) 0x00ffffff 0x002000a2,
                              w32m s (j + 0x0e) 0x00ffffff 0x002007a2];
                if h
                then ret1 (s\<lparr>initaddr := loadaddr s + 9, playaddr := loadaddr s + 0,
                              ids := ''Heathcliff'' @ '' v1''\<rparr>)
                else Chk_4JMPS_DMC s } } }
          else ret0 s }
        else ret0 s })"

definition Chk_Heathcliff :: "p2s \<Rightarrow> (int \<times> p2s) option" where
  "Chk_Heathcliff s =
     (if fsiz s < 0x800 then ret0 s
      else do {
        c \<leftarrow> all_of [b8 s 0x2 0x4c, b8 s 0x5 0xa9, b8 s 0xa 0xa2];
        if c then do {
          j \<leftarrow> ptr_at s 3;
          if \<not> CheckJ j (fsiz s) then do {
            h \<leftarrow> all_of [w32m s (j + 0) 0x00ffffff 0x00F015A9,
                          w32m s (j + 0x04) 0x00ffffff 0x002000a2,
                          w32m s (j + 0x09) 0x00ffffff 0x002007a2];
            if h
            then ret1 (s\<lparr>initaddr := loadaddr s + 3, playaddr := loadaddr s + 0,
                          ids := ''Heathcliff'' @ '' v3''\<rparr>)
            else ret0 s }
          else ret0 s }
        else ret0 s })"

definition Chk_3JMPs1 :: "p2s \<Rightarrow> (int \<times> p2s) option" where
  "Chk_3JMPs1 s =
     (if fsiz s < 0x400 then ret0 s
      else do {
        c \<leftarrow> all_of [b8 s 0x2 0x4c, b8 s 0x5 0x4c, b8 s 0x8 0x4c, nb8 s 0xb 0x4c];
        if c then do {
          j \<leftarrow> ptr_at s 3;
          if \<not> CheckJ j (fsiz s) then do {
            a \<leftarrow> all_of [w16 s j 0x03A9, b8 s (j + 2) 0x8d];
            r \<leftarrow> (if a then do {
                     k \<leftarrow> rd8 s (j + 3);
                     j2 \<leftarrow> ptr_at s 0x9;
                     if \<not> CheckJ j2 (fsiz s) then do {
                       m \<leftarrow> all_of [b8 s (j2 + 0) 0xad, b8 s (j2 + 1) k, b8 s (j2 + 3) 0xf0,
                                     b8 s (j2 + 8) 0x4c];
                       Some (m, j2) }
                     else Some (False, j2) }
                   else Some (False, j));
            if fst r
            then ret1 (s\<lparr>initaddr := loadaddr s + 0, playaddr := loadaddr s + 6,
                          ids := ''Prosonix'' @ '' v3''\<rparr>)
            else do {
              let j = snd r;
              h \<leftarrow> all_of [w32m s (j + 0) 0x00ff00ff 0x00F000A9,
                            w32m s (j + 0x04) 0x00ffffff 0x002000a2,
                            w32m s (j + 0x09) 0x00ffffff 0x002007a2];
              if h
              then ret1 (s\<lparr>initaddr := loadaddr s + 6, playaddr := loadaddr s + 0,
                            ids := ''Heathcliff'' @ '' v2''\<rparr>)
              else do {
                f \<leftarrow> all_of [w16 s j 0x10AD, b8 s (j + 0x03) 0x8d, b8 s (j + 0x32) 0x60,
                              w32 s (j + 0x33) 0x18F003C0];
                if f
                then ret1 (s\<lparr>initaddr := loadaddr s + 0, playaddr := loadaddr s + 6,
                              ids := ''Frank Hammer''\<rparr>)
                else ret0 s } } }
          else ret0 s }
        else ret0 s })"

definition Chk_ArneAFL :: "p2s \<Rightarrow> (int \<times> p2s) option" where
  "Chk_ArneAFL s =
     (if fsiz s < 0x400 then ret0 s
      else do {
        c \<leftarrow> all_of [b8 s 0x2 0x4c, b8 s 0x5 0x4c, b8 s 0x8 0x4c, b8 s 0xb 0x4c];
        if c then do {
          j \<leftarrow> ptr_at s 3;
          if \<not> CheckJ j (fsiz s) then do {
            a \<leftarrow> w32 s j 0x40093F29;
            if a then do {
              j2 \<leftarrow> ptr_at s 0xc;
              if \<not> CheckJ j2 (fsiz s) then do {
                m \<leftarrow> all_of [b8 s (j2 + 0) 0x2c, b8 s (j2 + 3) 0x30, b8 s (j2 + 5) 0x70,
                              b8 s (j2 + 7) 0xa9];
                if m then do {
                  let s1 = s\<lparr>initaddr := loadaddr s + 0, playaddr := loadaddr s + 9,
                              ids := ''Arne/AFL''\<rparr>;
                  dd \<leftarrow> w32 s1 0x5b 0xc9dd0ead;
                  if dd then do {
                    s2 \<leftarrow> puts s1 0x5b aPatchArneDD;
                    ret1 (s2\<lparr>ids := ids s2 @ '' (fixed)''\<rparr>) }
                  else ret1 s1 }
                else ret0 s }
              else ret0 s }
            else ret0 s }
          else ret0 s }
        else ret0 s })"

fun Chk_ArneSndMk_loop :: "p2s \<Rightarrow> int list \<Rightarrow> (int \<times> p2s) option" where
  "Chk_ArneSndMk_loop s [] = ret0 s"
| "Chk_ArneSndMk_loop s (k # ks) = do {
     c \<leftarrow> all_of [b8 s (2 + k) 0x4c, nb8 s (5 + k) 0x4c, b8 s (8 + k) 0x4c];
     if c then do {
       j \<leftarrow> ptr_at s (9 + k);
       if CheckJ j (fsiz s) then ret0 s
       else do {
         m \<leftarrow> all_of [b8 s j 0xad, w32 s (j + 3) 0x60F001C9];
         if m
         then ret1 (s\<lparr>initaddr := loadaddr s + k + 0, playaddr := loadaddr s + k + 6,
                       ids := ''SoundMaker'' @ '' v4/Arne''\<rparr>)
         else Chk_ArneSndMk_loop s ks } }
     else Chk_ArneSndMk_loop s ks }"

definition Chk_ArneSndMk :: "p2s \<Rightarrow> (int \<times> p2s) option" where
  "Chk_ArneSndMk s = (if fsiz s < 0x400 then ret0 s else Chk_ArneSndMk_loop s [0, 0x20])"

definition Chk_Digitalizer :: "p2s \<Rightarrow> (int \<times> p2s) option" where
  "Chk_Digitalizer s =
     (if fsiz s < 0x200 then ret0 s
      else do {
        c \<leftarrow> all_of [b8 s 2 0x4c, b8 s 5 0x4c, b8 s 8 0x20, w32 s 0x0B 0x10033DCE,
                      w32 s 0x1B 0xADFAD0CA];
        if c
        then ret1 (s\<lparr>initaddr := loadaddr s + 3, playaddr := loadaddr s + 6,
                      ids := ''Digitalizer 2.x''\<rparr>)
        else ret0 s })"


text \<open>
  A chain \<open>if (c1) { a1; return ..; } if (c2) { a2; return ..; } ... rest\<close>: the
  conditions are tried in order on the same state, the first that holds runs its block.
\<close>

fun first_match ::
  "(bool option \<times> (p2s \<Rightarrow> (int \<times> p2s) option)) list \<Rightarrow> (p2s \<Rightarrow> (int \<times> p2s) option)
     \<Rightarrow> p2s \<Rightarrow> (int \<times> p2s) option" where
  "first_match [] rest s = rest s"
| "first_match (ca # cas) rest s =
     (case fst ca of None \<Rightarrow> None
      | Some b \<Rightarrow> if b then snd ca s else first_match cas rest s)"

text \<open>The most common block: set both entry points and the identity, return 1.\<close>

definition hit :: "int \<Rightarrow> int \<Rightarrow> string \<Rightarrow> p2s \<Rightarrow> (int \<times> p2s) option" where
  "hit ia pa name s = ret1 (s\<lparr>initaddr := ia, playaddr := pa, ids := name\<rparr>)"

text \<open>The header fields the RockMon family sets: RSID marker and the free pages.\<close>

definition rsid_pages :: "p2s \<Rightarrow> p2s" where
  "rsid_pages s =
     set_psidh P_FREEPMAX (drop_bit 8 (loadaddr s) - 8)
       (set_psidh P_FREEPAGE 8 (set_psidh P_MARKER 0x52 s))"

definition rockmon :: "string \<Rightarrow> p2s \<Rightarrow> (int \<times> p2s) option" where
  "rockmon name s = do {
     s1 \<leftarrow> puts (s\<lparr>initaddr := 0xc000, playaddr := 0\<rparr>) (0xc000 - loadaddr s + 2) aPatchRckmon;
     ret1 ((rsid_pages s1)\<lparr>ids := name\<rparr>) }"

definition Chk_Soundmon :: "p2s \<Rightarrow> (int \<times> p2s) option" where
  "Chk_Soundmon s =
     (let off = (\<lambda>a. a - loadaddr s + 2) in
      if fsiz s + loadaddr s > 0xcb00 \<and> fsiz s > 0x2b00 \<and> loadaddr s \<le> 0xa000 then
        first_match
          [(all_of [w32 s (off 0xc000) 0x4cc0124c, w32 s (off 0xc020) 0xC58D01A5],
            first_match
              [(w32 s (off 0xc029) 0xADCBE120,
                (\<lambda>s. ret1 ((rsid_pages (s\<lparr>initaddr := 0xce30, playaddr := 0\<rparr>))
                               \<lparr>ids := ''DUSAT/RockMon'' @ ''3h''\<rparr>))),
               (w32 s (off 0xc029) 0xAD80a020, rockmon (''DUSAT/RockMon'' @ ''2''))]
              (\<lambda>s. do {
                 s1 \<leftarrow> puts (s\<lparr>initaddr := 0xc000, playaddr := 0xc020\<rparr>) (off 0xc000) aPatchSndmon;
                 s2 \<leftarrow> put s1 (off 0xc031) 0x60;
                 ret1 ((set_psidh P_FREEPMAX (drop_bit 8 (loadaddr s) - 8)
                         (set_psidh P_FREEPAGE 8 (set_psidh P_TIMING 1 s2)))
                       \<lparr>ids := ''SoundMonitor''\<rparr>) })),
           (all_of [w32 s (off 0xc000) 0x4cc0124c, w32 s (off 0xc01d) 0x0E8E00a2,
                    all_of [w32 s (off 0x9fd0) 0x018536a9, w32 s (off 0x9fdb) 0x8D9FA99F]],
            (\<lambda>s. do {
               s1 \<leftarrow> pokes (s\<lparr>initaddr := 0x9fd0, playaddr := 0\<rparr>) (off 0x9fe1) [0x20, 0x12, 0xc0];
               ret1 ((rsid_pages s1)\<lparr>ids := ''DUSAT/RockMon'' @ ''4''\<rparr>) })),
           (all_of [w32 s (off 0xc000) 0x4cc0124c, w32 s (off 0xc01d) 0x0E8E00a2,
                    all_of [w32 s (off 0x9f00) 0x8D02C0AD, w32 s (off 0x9f04) 0x75209F0A]],
            rockmon (''DUSAT/RockMon'' @ ''3'')),
           (all_of [w32 s (off 0xc000) 0x4cc0124c, w32 s (off 0xc020) 0x4CA90295],
            rockmon (''DUSAT/RockMon'' @ ''5'')),
           (all_of [w32 s (off 0xc000) 0x4cc0124c, w32 s (off 0xc01d) 0x589B0020,
                    w32 s (off 0xc02c) 0xAD9BA020],
            rockmon ''MusicMaster 1.3/BB''),
           (all_of [w32 s (off 0xc000) 0x4cc0124c, w32 s (off 0xc01d) 0x589B0020,
                    w32 s (off 0xc02c) 0xadc47820],
            rockmon ''BeatBox/KarlXII''),
           (all_of [w32 s (off 0xc000) 0x4cc0124c, w32 s (off 0xc025) 0x03148DD4,
                    w32 s (off 0xcbdd) 0xAD9F0020],
            rockmon ''Digitronix'')]
          ret0 s
      else ret0 s)"

definition Chk_AMP2 :: "p2s \<Rightarrow> (int \<times> p2s) option" where
  "Chk_AMP2 s =
     (if fsiz s < 0x600 then ret0 s
      else do {
        c \<leftarrow> all_of [w32 s 0x0dc 0x5F4B3827, w32 s 0x1A3 0x5EDE04F0, w32 s 0x1e8 0x4a4a4a4a,
                      w32 s 0x224 0x0a0a0a0a];
        if c then do {
          a \<leftarrow> all_of [b8 s (2 + 0x568) 0xad, b8 s (2 + 0x569) 0x09];
          j \<leftarrow> (if a then Some 0x68
                else do {
                  b \<leftarrow> all_of [b8 s (2 + 0x57e) 0xa5, b8 s (2 + 0x588) 0xad, b8 s (2 + 0x589) 0x09];
                  Some (if b then 0x7e else 0) });
          if j \<noteq> 0 then do {
            s1 \<leftarrow> pokes s 2 [0x4c, j, drop_bit 8 (loadaddr s) + 5,
                              0x4c, 0xce, drop_bit 8 (loadaddr s) + 4];
            ret1 (s1\<lparr>ids := ''AMP 2.x''\<rparr>) }
          else ret0 s }
        else ret0 s })"

definition Chk_FC3x :: "p2s \<Rightarrow> (int \<times> p2s) option" where
  "Chk_FC3x s =
     (if fsiz s < 0x200 then ret0 s
      else do {
        c \<leftarrow> all_of [w32 s 0x08a 0x7AA200A9, w32 s 0x0af 0x8DF110CA, w32 s 0x15e 0x16D0FFC9,
                      b8 s 0x104 0xAD];
        if c then do {
          let s1 = s\<lparr>playaddr := loadaddr s + 6, initaddr := loadaddr s\<rparr>;
          v \<leftarrow> b8 s1 0x10a 0x07;
          s2 \<leftarrow> (if v then do {
                   let ia = loadaddr s - 2;
                   let t = set_extrabyte 1 (drop_bit 8 ia)
                             (set_extrabyte 0 (ia AND 0xff) (s1\<lparr>initaddr := ia\<rparr>));
                   pokes (t\<lparr>extra := 2\<rparr>) 0 [0xa9, 0x02] }
                 else Some s1);
          s3 \<leftarrow> pokes s2 2 [0x4c, 0xb4, drop_bit 8 (loadaddr s)];
          s4 \<leftarrow> pokes s3 8 [0x4c, 0x02, drop_bit 8 (loadaddr s) + 1];
          ret1 (s4\<lparr>ids := ''FutureComposer'' @ '' 3.x''\<rparr>) }
        else ret0 s })"

definition Chk_MoN_JTS :: "p2s \<Rightarrow> (int \<times> p2s) option" where
  "Chk_MoN_JTS s =
     (if fsiz s < 0x200 then ret0 s
      else do {
        c \<leftarrow> all_of [b8 s 0x05 0x4c, b8 s 0x06 0x2c, w32 s 0xe2 0x70A200A9,
                      w32 s 0xe9 0xA9FA10CA];
        if c then do {
          s1 \<leftarrow> pokes (s\<lparr>initaddr := loadaddr s + 0, playaddr := loadaddr s + 3\<rparr>) 2
                  [0x4c, 0x0a, drop_bit 8 (loadaddr s) + 1];
          ret1 (s1\<lparr>ids := ''MoN/JTS''\<rparr>) }
        else ret0 s })"

text \<open>
  The stub of one byte, TAX (0xaa) or TAY (0xa8), in front of the tune: the new load
  address is \<open>loadaddr - 1\<close>, its low byte in \<open>extrabytes[0]\<close>, its high byte in
  \<open>p[0]\<close>, the opcode in \<open>p[1]\<close>.
\<close>

definition one_byte_stub :: "int \<Rightarrow> p2s \<Rightarrow> p2s option" where
  "one_byte_stub opc s =
     (let ia = loadaddr s - 1
      in pokes ((set_extrabyte 0 (ia AND 0xff) (s\<lparr>initaddr := ia\<rparr>))\<lparr>extra := 1\<rparr>) 0
           [drop_bit 8 ia, opc])"

text \<open>
  The loop of \<open>Chk_3JMPs2\<close> over the JMPs at \<open>p[2], p[5], ... p[14]\<close> (JO v1): bit 0 of
  \<open>k\<close> and \<open>initaddr\<close> for an init routine, bit 1 and \<open>playaddr\<close> for a play routine.
\<close>

fun jo1_loop :: "p2s \<Rightarrow> int list \<Rightarrow> int \<Rightarrow> (int \<times> p2s) option" where
  "jo1_loop s [] k = Some (k, s)"
| "jo1_loop s (i # is) k = do {
     c \<leftarrow> b8 s i 0x4c;
     if c then do {
       j \<leftarrow> ptr_at s (i + 1);
       if CheckJ j (fsiz s) then jo1_loop s is k
       else do {
         a \<leftarrow> all_of [b8 s (j + 0x00) 0xbd, b8 s (j + 0x03) 0x8d, b8 s (j + 0x06) 0xbd,
                       b8 s (j + 0x09) 0x8d];
         if a then jo1_loop (s\<lparr>initaddr := loadaddr s + i - 2\<rparr>) is (k OR 1)
         else do {
           b \<leftarrow> all_of [b8 s (j + 0x00) 0xa9, b8 s (j + 0x02) 0xd0, b8 s (j + 0x03) 0x01,
                         b8 s (j + 0x04) 0x60];
           if b then jo1_loop (s\<lparr>playaddr := loadaddr s + i - 2\<rparr>) is (k OR 2)
           else jo1_loop s is k } } }
     else jo1_loop s is k }"

definition Chk_3JMPs2_JO :: "p2s \<Rightarrow> (int \<times> p2s) option" where
  "Chk_3JMPs2_JO s = do {
     (k, s1) \<leftarrow> jo1_loop s [2, 5, 8, 11, 14] 0;
     if k \<noteq> 3 then ret0 (s1\<lparr>initaddr := loadaddr s1, playaddr := loadaddr s1 + 3\<rparr>)
     else do {
       s2 \<leftarrow> (if initaddr s1 = loadaddr s1 then one_byte_stub 0xaa s1
              else do {
                let la = loadaddr s1 - 4;
                let t = set_extrabyte 3 0x4c (set_extrabyte 2 0xaa
                          (set_extrabyte 1 (drop_bit 8 la) (set_extrabyte 0 (la AND 0xff)
                            (s1\<lparr>extra := 4\<rparr>))));
                t' \<leftarrow> pokes t 0 [initaddr s1 AND 0xff, drop_bit 8 (initaddr s1)];
                Some (t'\<lparr>initaddr := la\<rparr>) });
       ret1 (s2\<lparr>ids := ''JO/Vibrants'' @ '' v1''\<rparr>) } }"

definition Chk_3JMPs2_via3 :: "p2s \<Rightarrow> (int \<times> p2s) option" where
  "Chk_3JMPs2_via3 s = do {
     j \<leftarrow> ptr_at s 3;
     if \<not> CheckJ j (fsiz s) then
       first_match
         [(all_of [b8 s (j + 0x00) 0xbd, b8 s (j + 0x03) 0x8d, b8 s (j + 0x06) 0x8d,
                   b8 s (j + 0x09) 0xbd],
           (\<lambda>s. do { s1 \<leftarrow> one_byte_stub 0xaa s;
                      ret1 (s1\<lparr>ids := ''SidDuzzIt '' @ ''0.98''\<rparr>) })),
          (all_of [w32 s (j + 0x00) 0xA98A00A2, w32 s (j + 0x1b) 0xE49003E0],
           hit (loadaddr s + 0) (loadaddr s + 6) (''Laxity'' @ '' v1'')),
          (all_of [w32m s (j + 0x00) 0xffff00ff 0x013000A9, b8 s (j + 0x04) 0x60,
                   b8 s (j + 0x05) 0xad, b8 s (j + 0x08) 0xf0],
           hit (loadaddr s + 6) (loadaddr s + 0) ''Deenen'')]
         Chk_3JMPs2_JO s
     else Chk_3JMPs2_JO s }"

definition Chk_3JMPs2_via9 :: "p2s \<Rightarrow> (int \<times> p2s) option" where
  "Chk_3JMPs2_via9 s = do {
     j \<leftarrow> ptr_at s 9;
     if \<not> CheckJ j (fsiz s) then
       first_match
         [(all_of [b8 s (j + 0x00) 0xad, w32 s (j + 0x03) 0xCE6001F0, w32 s (j + 0x0a) 0x2002A209],
           hit (loadaddr s) (loadaddr s + 6) (''Zardax'' @ '' v1'')),
          (all_of [b8 s (j + 0x00) 0xad, b8 s (j - 0x01) 0x60, b8 s (j + 0x08) 0x8d,
                   b8 s (j + 0x0b) 0xa5, w32 s (j + 0x03) 0xa56001F0],
           hit (loadaddr s) (loadaddr s + 6) (''Zardax'' @ '' v2'')),
          (all_of [b8 s (j + 0x00) 0xad, b8 s (j - 0x01) 0x60, w32 s (j + 0x03) 0x07f002c9,
                   w32 s (j + 0x08) 0x4c04d001],
           hit (loadaddr s) (loadaddr s + 6) ''MoN/RWE''),
          (do { c \<leftarrow> all_of [b8 s (j + 0x00) 0xa9, b8 s (j + 0x02) 0xf0, b8 s (j + 0x04) 0x60];
                if c then do {
                  k \<leftarrow> ptr_at s 3;
                  if \<not> CheckJ k (fsiz s)
                  then all_of [any_of [all_of [b8 s (k + 0x00) 0xa9, b8 s (k + 0x02) 0x8d],
                                       all_of [b8 s (k + 0x00) 0xa2, b8 s (k + 0x02) 0x8e]],
                               b8 s (k + 0x01) 0x01,
                               w16 s (k + 3) ((loadaddr s + j - 1) mod 0x10000)]
                  else Some False }
                else Some False },
           hit (loadaddr s) (loadaddr s + 6) ''MoN/Cyb2''),
          (all_of [b8 s (j + 0x00) 0xad, b8 s (j - 0x01) 0x60, b8 s (j - 0x0f) 0x8d,
                   b8 s (j - 0x3e) 0xa2, w32 s (j + 0x03) 0xa26001d0],
           (\<lambda>s. do {
              let i = j - 0x3e - 2 + loadaddr s;
              s1 \<leftarrow> pokes (s\<lparr>initaddr := loadaddr s, playaddr := loadaddr s + 6\<rparr>) 2
                      [0x4c, i AND 0xff, drop_bit 8 i];
              ret1 (s1\<lparr>ids := ''Laxity'' @ '' v4''\<rparr>) })),
          (all_of [b8 s (j + 0x03) 0x8d, b8 s (j + 0x12) 0x8d, w32 s (j + 0x06) 0x690a0a0a,
                   w32 s (j + 0x28) 0xA9D4178D],
           hit (loadaddr s + 6) (loadaddr s) ''Roland Hermans'')]
         Chk_3JMPs2_via3 s
     else Chk_3JMPs2_via3 s }"

definition Chk_3JMPs2 :: "p2s \<Rightarrow> (int \<times> p2s) option" where
  "Chk_3JMPs2 s =
     (if fsiz s < 0x200 then ret0 s
      else do {
        c \<leftarrow> all_of [b8 s 2 0x4c, b8 s 5 0x4c, b8 s 8 0x4c];
        if c then do {
          j \<leftarrow> ptr_at s 6;
          if \<not> CheckJ j (fsiz s) then do {
            d \<leftarrow> all_of [b8 s (j + 0x00) 0xa2, b8 s (j + 0x02) 0x8e, b8 s (j + 0x05) 0xbd,
                          w32 s (j + 0x30) 0xF0F07F29];
            r \<leftarrow> (if d then do { j2 \<leftarrow> ptr_at s 3; Some (\<not> CheckJ j2 (fsiz s), j2) }
                   else Some (False, j));
            if fst r then do {
              tax \<leftarrow> nb8 s (snd r) 0xaa;
              s1 \<leftarrow> (if tax then one_byte_stub 0xaa s else Some s);
              ret1 (s1\<lparr>ids := ''SidDuzzIt '' @ ''2.07''\<rparr>) }
            else do {
              let j = snd r;
              a \<leftarrow> all_of [b8 s (j + 0x00) 0xa9, b8 s (j + 0x01) 0x01, b8 s (j + 0x02) 0x8d,
                            b8 s (j + 0x08) 0x8d, b8 s (j + 0x0b) 0xa9];
              anvil \<leftarrow> (if a then do {
                          j3 \<leftarrow> ptr_at s 9;
                          if \<not> CheckJ j3 (fsiz s) then w32 s (j3 - 4) 0x60EE10CA
                          else Some False }
                        else Some False);
              if anvil then hit (loadaddr s + 3) (loadaddr s + 6) ''Anvil'' s
              else Chk_3JMPs2_via9 s } }
          else Chk_3JMPs2_via9 s }
        else ret0 s })"


text \<open>\<open>initaddr = loadaddr; playaddr = initaddr + 3\<close>, as several checks restore them.\<close>

definition default_addrs :: "p2s \<Rightarrow> p2s" where
  "default_addrs s = s\<lparr>initaddr := loadaddr s, playaddr := loadaddr s + 3\<rparr>"

definition Chk_JOv2 :: "p2s \<Rightarrow> (int \<times> p2s) option" where
  "Chk_JOv2 s =
     (if fsiz s < 0x200 then ret0 s
      else do {
        found \<leftarrow> find_first
          (\<lambda>i. do {
             c \<leftarrow> b8 s i 0x4c;
             if c then do {
               j \<leftarrow> ptr_at s (i + 1);
               if CheckJ j (fsiz s) then Some False
               else any_of [all_of [b8 s (j + 0x00) 0x8d, b8 s (j + 0x03) 0x8d,
                                    w32 s (j + 0x06) 0xA9A80A0A],
                            all_of [b8 s (j + 0x00) 0x8d, w32 s (j + 0x03) 0xA9A80A0A]] }
             else Some False }) [2, 5, 8];
        case found of
          None \<Rightarrow> ret0 (default_addrs s)
        | Some i \<Rightarrow> do {
            let s1 = s\<lparr>initaddr := loadaddr s + i - 2\<rparr>;
            play \<leftarrow> find_first
              (\<lambda>j. all_of [b8 s1 (i + j + 0x03) 0xad, b8 s1 (i + j + 0x06) 0xc9,
                            b8 s1 (i + j + 0x07) 0x01, b8 s1 (i + j + 0x08) 0xf0,
                            b8 s1 (i + j + 0x0a) 0xc9]) [0..0xf];
            case play of
              None \<Rightarrow> ret0 (default_addrs s1)
            | Some j \<Rightarrow>
                ret1 (s1\<lparr>playaddr := initaddr s1 + 3, ids := ''JO/Vibrants'' @ '' v2''\<rparr>) } })"

definition Chk_2JMPs_fixed :: "p2s \<Rightarrow> (int \<times> p2s) option" where
  "Chk_2JMPs_fixed s =
     first_match
       [(all_of [b8 s 8 0x2c, w32 s 0xb 0xA9600130],
         hit (loadaddr s + 0) (loadaddr s + 6) (''Laxity'' @ '' v3'')),
        (all_of [b8 s 0x08 0xa9, b8 s 0x09 0x00, b8 s 0x0a 0x2c, b8 s 0x11 0xa2,
                 any_of [w32 s 0x0d 0x38704430, w32 s 0x0d 0x3e704A30, w32 s 0x0d 0x3a704630,
                         w32 s 0x0d 0x4A705630, w32 s 0x0d 0x30703c30]],
         hit (loadaddr s + 0) (loadaddr s + 6) (''SidFactory'' @ '' II'' @ '' v1'')),
        (all_of [b8 s 0x0b 0xa9, b8 s 0x0c 0x00, b8 s 0x0d 0x2c, b8 s 0x14 0xa2,
                 any_of [w32 s 0x10 0x38704430, w32 s 0x10 0x46705230, w32 s 0x10 0x49705530]],
         hit (loadaddr s + 0) (loadaddr s + 9) (''SidFactory'' @ '' II'' @ '' v2'')),
        (all_of [b8 s 0x08 0xa9, b8 s 0x09 0x00, b8 s 0x0a 0x24,
                 any_of [w32 s 0x0c 0x1c702830, w32 s 0x0c 0x1A702630]],
         hit (loadaddr s + 0) (loadaddr s + 6) (''SidFactory'' @ '' II'' @ '' v3'')),
        (all_of [b8 s 0x0b 0xa9, b8 s 0x0c 0x00, b8 s 0x0d 0x8d, b8 s 0x10 0x2c, b8 s 0x17 0xa2,
                 w32 s 0x13 0x38704430],
         hit (loadaddr s + 0) (loadaddr s + 9) (''SidFactory'' @ '' II'' @ '' v4''))]
       ret0 s"

definition Chk_2JMPs_via3 :: "p2s \<Rightarrow> (int \<times> p2s) option" where
  "Chk_2JMPs_via3 s = do {
     j \<leftarrow> ptr_at s 3;
     if \<not> CheckJ j (fsiz s) then
       first_match
         [(all_of [b8 s (j + 0x00) 0xa0, b8 s (j + 0x01) 0x00, b8 s (j + 0x02) 0xf0,
                   b8 s (j + 0x04) 0x60],
           hit (loadaddr s + 3) (loadaddr s + 0) (''XTracker_V4.1'' @ ''a'' @ ''/LoS'')),
          (all_of [b8 s (j + 0x00) 0xce, b8 s (j + 0x02) (drop_bit 8 (loadaddr s)),
                   b8 s (j + 0x03) 0x10],
           hit (loadaddr s + 3) (loadaddr s + 0) (''XTracker_V4.1'' @ ''b'' @ ''/LoS'')),
          (all_of [b8 s (j + 0x00) 0x2c, b8 s (j + 0x02) (drop_bit 8 (loadaddr s)),
                   b8 s (j + 0x03) 0x30, w32 s (j + 5) 0xA2600170],
           hit (loadaddr s + 3) (loadaddr s + 0) ''LordsOfSonics/MS''),
          (all_of [b8 s (j + 0x00) 0xa2, b8 s (j + 0x01) 0x00, b8 s 0x08 0xad, b8 s 0x0b 0x10],
           hit (loadaddr s + 0) (loadaddr s + 6) ''Guy Shavitt''),
          (all_of [w32 s (j + 0x00) 0x00A978A2, w32 s (j + 0x07) 0x20FA10CA,
                   w32 s (j + 0x21) 0xA9F710CA, b8 s (j + 0x0d) 0xb9],
           (\<lambda>s. do { s1 \<leftarrow> one_byte_stub 0xa8 s; ret1 (s1\<lparr>ids := ''Audial Arts''\<rparr>) })),
          (all_of [w32 s (j - 0x03) 0xAD60FA10, w32 s (j + 0x03) 0x0EAE12F0,
                   w32 s (j + 0x0e) 0x8EE8FA10],
           hit (loadaddr s + 3) (loadaddr s + 0) ''TFMX/MasterComposer''),
          (all_of [b8 s (j + 0x00) 0xbd, b8 s (j + 0x03) 0x8d, b8 s (j + 0x06) 0xa9,
                   b8 s (j + 0x08) 0x8d,
                   any_of [b8 s (j + 0x18) 0x4a, b8 s (j + 0x18) 0xa9]],
           (\<lambda>s. do { s1 \<leftarrow> one_byte_stub 0xaa s;
                      ret1 (s1\<lparr>ids := ''SidDuzzIt '' @ ''2.1''\<rparr>) }))]
         Chk_2JMPs_fixed s
     else Chk_2JMPs_fixed s }"

definition Chk_2JMPs :: "p2s \<Rightarrow> (int \<times> p2s) option" where
  "Chk_2JMPs s =
     (if fsiz s < 0x200 then ret0 s
      else do {
        c \<leftarrow> all_of [b8 s 2 0x4c, b8 s 5 0x4c];
        if c then do {
          j \<leftarrow> ptr_at s 6;
          if \<not> CheckJ j (fsiz s) then
            first_match
              [(all_of [b8 s (j + 0x00) 0xaa, b8 s (j + 0x01) 0xbd, b8 s (j + 0x04) 0x8d],
                hit (loadaddr s + 3) (loadaddr s + 0) (''XTracker_V4.1'' @ ''c'' @ ''/LoS'')),
               (all_of [b8 s (j + 0x00) 0xa2, b8 s (j + 0x01) 0x00, b8 s (j + 0x02) 0xce,
                        b8 s (j + 0x05) 0x30, b8 s (j + 0x06) 0x09, b8 s (j + 0x07) 0x20,
                        b8 s (j + 0x0a) 0x20, b8 s (j + 0x0d) 0x4c],
                (\<lambda>s. do {
                   s1 \<leftarrow> pokes (s\<lparr>initaddr := loadaddr s + 6, playaddr := loadaddr s + 3\<rparr>) 8
                           [0xaa, 0x4c, loadaddr s AND 0xff, drop_bit 8 (loadaddr s)];
                   ret1 (s1\<lparr>ids := ''NordicBeat''\<rparr>) })),
               (all_of [w32 s (j + 0x00) 0x00A918A2, w32 s (j + 0x04) 0xCAD4009D,
                        w32 s (j + 0x43) 0x06F0F029, w32 s (j + 0x53) 0x06F0F029,
                        w32 s (j + 0xa9) 0x4A4A4A4A],
                hit (loadaddr s + 3) (loadaddr s + 0) ''ICC/The Voice''),
               (all_of [w32 s (j - 0x01) 0x8d00a960, w32 s (j + 0x07) 0xA2D4188D,
                        b8 s (j + 0x0c) 0x20, b8 s (j + 0x0f) 0x20],
                hit (loadaddr s + 3) (loadaddr s + 0) (''Burgstaller'' @ '' v1'')),
               (all_of [w32 s (j + 0x00) 0x00A917A2, w32 s (j + 0x04) 0xCAD4009D,
                        w32 s (j + 0x0f) 0xA2D4188D, b8 s (j + 0x14) 0x20, b8 s (j + 0x17) 0x20],
                hit (loadaddr s + 3) (loadaddr s + 0) (''Burgstaller'' @ '' v2'')),
               (all_of [b8 s j 0x8d, b8 s (j + 0x03) 0xa2, b8 s (j + 0x04) 0x00,
                        b8 s (j + 0x05) 0x20, b8 s (j + 0x08) 0x20,
                        any_of [w32 s (j + 0x10) 0x00690A8A, w32 s (j + 0x16) 0x00690A8A]],
                hit (loadaddr s + 3) (loadaddr s + 0) (''Burgstaller'' @ '' v3'')),
               (all_of [b8 s j 0x8d, w32 s (j + 0x05) 0xA2D4188D, b8 s (j + 0x09) 0x00,
                        b8 s (j + 0x0a) 0x20, b8 s (j + 0x0d) 0x20, w32 s (j + 0x1b) 0x00690A8A],
                hit (loadaddr s + 3) (loadaddr s + 0) (''Burgstaller'' @ '' v4''))]
              Chk_2JMPs_via3 s
          else Chk_2JMPs_via3 s }
        else ret0 s })"

definition Chk_LaxityV2 :: "p2s \<Rightarrow> (int \<times> p2s) option" where
  "Chk_LaxityV2 s =
     (if fsiz s < 0x200 then ret0 s
      else do {
        found \<leftarrow> find_first
          (\<lambda>k. all_of [b8 s (2 + k) 0x4c, b8 s (5 + k) 0x4c, w32 s (0xa + k) 0x2CD4188D])
          [0, 0x100];
        case found of
          None \<Rightarrow> ret0 s
        | Some k \<Rightarrow> hit (loadaddr s + 0 + k) (loadaddr s + 6 + k) (''Laxity'' @ '' v2'') s })"

definition Chk_HubbardV2 :: "p2s \<Rightarrow> (int \<times> p2s) option" where
  "Chk_HubbardV2 s =
     (if fsiz s < 0x200 then ret0 s
      else do {
        c \<leftarrow> all_of [b8 s 0x02 0x4c, b8 s 0x05 0x4c, b8 s 0x08 0x4c, b8 s 0x0b 0x4c,
                      b8 s 0x0e 0x4c, b8 s 0x11 0x4c];
        if c then do {
          found \<leftarrow> find_first
            (\<lambda>j. all_of [b8 s (0 + j) 0x2c, b8 s (3 + j) 0x30, b8 s (5 + j) 0x50]) [0x14..0x2f];
          case found of
            None \<Rightarrow> ret0 s
          | Some j \<Rightarrow> hit (loadaddr s + 0) (loadaddr s + 0x12) (''Hubbard'' @ '' v2'') s }
        else ret0 s })"

text \<open>
  \<open>Chk_HubbardV1\<close>: the inner loop stops at an RTS (0x60) or at the signature; the outer
  loop goes on after a hit, so the last offset \<open>k\<close> with a hit decides.
\<close>

fun hub1_inner :: "p2s \<Rightarrow> int list \<Rightarrow> bool option" where
  "hub1_inner s [] = Some False"
| "hub1_inner s (j # js) = do {
     r \<leftarrow> b8 s (0 + j) 0x60;
     if r then Some False
     else do {
       m \<leftarrow> all_of [b8 s (0 + j) 0x2c, b8 s (3 + j) 0x30, b8 s (5 + j) 0x50];
       if m then Some True else hub1_inner s js } }"

fun hub1_loop :: "p2s \<Rightarrow> int list \<Rightarrow> int \<Rightarrow> (int \<times> p2s) option" where
  "hub1_loop s [] i = Some (i, s)"
| "hub1_loop s (k # ks) i = do {
     c \<leftarrow> all_of [b8 s (0x02 + k) 0x4c, b8 s (0x05 + k) 0x4c];
     if c then do {
       f \<leftarrow> hub1_inner s [k + 8..k + 0x20 - 1];
       if f
       then hub1_loop (s\<lparr>initaddr := loadaddr s + 0 + k, playaddr := loadaddr s + 6 + k,
                          ids := ''Hubbard'' @ '' v1''\<rparr>) ks 1
       else hub1_loop s ks i }
     else hub1_loop s ks i }"

definition Chk_HubbardV1 :: "p2s \<Rightarrow> (int \<times> p2s) option" where
  "Chk_HubbardV1 s = (if fsiz s < 0x200 then ret0 s else hub1_loop s [0..0x100] 0)"

definition Chk_HubbardV3 :: "p2s \<Rightarrow> (int \<times> p2s) option" where
  "Chk_HubbardV3 s =
     (if fsiz s < 0x600 then ret0 s
      else do {
        c \<leftarrow> all_of [b8 s 0x41 0xa9, b8 s 0x46 0x2c, b8 s 0x561 0xa9, b8 s 0x562 0x40,
                      b8 s 0x566 0x60, w32 s 0x49 0x40502A30, w32 s 0x55 0x9DD40499];
        if c then hit (loadaddr s + 0x55f) (loadaddr s + 0x3f) (''Hubbard'' @ '' v3'') s
        else ret0 s })"

text \<open>
  \<open>Chk_HubbardV4\<close> and \<open>Chk_HubbardV5\<close> share their shape: \<open>sig k\<close> finds the
  driver at offset \<open>k > 0\<close>, \<open>playc\<close> and \<open>initc\<close> find the two routines from
  \<open>j - 0xf0\<close> on (the second search starts where the first one stopped).
\<close>

definition hubbard45 ::
  "(p2s \<Rightarrow> int \<Rightarrow> bool option) \<Rightarrow> (p2s \<Rightarrow> int \<Rightarrow> bool option) \<Rightarrow> (p2s \<Rightarrow> int \<Rightarrow> bool option)
     \<Rightarrow> string \<Rightarrow> p2s \<Rightarrow> (int \<times> p2s) option" where
  "hubbard45 sig playc initc name s =
     (if fsiz s < 0x700 then ret0 s
      else do {
        found \<leftarrow> find_first (sig s) [0..0x100];
        case found of
          None \<Rightarrow> ret0 s
        | Some i \<Rightarrow>
            if i > 0 then do {
              j0 \<leftarrow> ptr_at s (i + 3);
              if \<not> CheckJ j0 (fsiz s) then do {
                let j = j0 - 0xf0;
                pl \<leftarrow> find_first (\<lambda>k. playc s (j + k)) [0..0x100];
                case pl of
                  None \<Rightarrow> ret0 (default_addrs s)
                | Some k1 \<Rightarrow> do {
                    let s1 = s\<lparr>playaddr := loadaddr s + j + k1 - 2\<rparr>;
                    it \<leftarrow> find_first (\<lambda>k. initc s1 (j + k)) [k1..0x100];
                    case it of
                      None \<Rightarrow> ret0 (default_addrs s1)
                    | Some k2 \<Rightarrow> do {
                        let s2 = s1\<lparr>initaddr := loadaddr s + j + k2 - 2\<rparr>;
                        s3 \<leftarrow> (if i \<ge> 6 then do {
                                 t \<leftarrow> pokes s2 2
                                        [0x4c, initaddr s2 AND 0xff, drop_bit 8 (initaddr s2),
                                         0x4c, playaddr s2 AND 0xff, drop_bit 8 (playaddr s2)];
                                 Some (default_addrs t) }
                               else Some s2);
                        ret1 (s3\<lparr>ids := name\<rparr>) } } }
              else ret0 s }
            else ret0 s })"

definition Chk_HubbardV4 :: "p2s \<Rightarrow> (int \<times> p2s) option" where
  "Chk_HubbardV4 =
     hubbard45
       (\<lambda>s k. all_of [b8 s (0x00 + k) 0xa2, b8 s (0x01 + k) 0x02, b8 s (0x02 + k) 0xce,
                      b8 s (0x05 + k) 0x10, b8 s (0x06 + k) 0x06, b8 s (0x07 + k) 0xad,
                      b8 s (0x2b + k) 0x30, b8 s (0x2d + k) 0x4c, b8 s (0x30 + k) 0x4c])
       (\<lambda>s x. all_of [b8 s (x + 0x00) 0xad, b8 s (x + 0x03) 0xd0,
                      any_of [all_of [b8 s (x + 0x05) 0xee, b8 s (x + 0x08) 0xee],
                              all_of [b8 s (x + 0x05) 0xe6, b8 s (x + 0x07) 0xe6]]])
       (\<lambda>s x. all_of [b8 s (x + 0x00) 0xaa, b8 s (x + 0x01) 0xbd, b8 s (x + 0x06) 0xbd,
                      b8 s (x + 0x04) 0x85, b8 s (x + 0x09) 0x85, b8 s (x + 0x18) 0xa2])
       (''Hubbard'' @ '' v4'')"

definition Chk_HubbardV5 :: "p2s \<Rightarrow> (int \<times> p2s) option" where
  "Chk_HubbardV5 =
     hubbard45
       (\<lambda>s k. all_of [b8 s (0x00 + k) 0xa2, b8 s (0x01 + k) 0x02, b8 s (0x02 + k) 0xce,
                      b8 s (0x05 + k) 0x10, b8 s (0x06 + k) 0x06, b8 s (0x07 + k) 0xad,
                      b8 s (0x2e + k) 0x30, b8 s (0x30 + k) 0x4c, b8 s (0x33 + k) 0x4c])
       (\<lambda>s x. all_of [b8 s (x + 0x00) 0xad, b8 s (x + 0x03) 0xc9, b8 s (x + 0x07) 0xc9,
                      b8 s (x + 0x0b) 0xee, b8 s (x + 0x0e) 0xee, b8 s (x + 0x11) 0xee])
       (\<lambda>s x. all_of [b8 s (x + 0x00) 0x48, b8 s (x + 0x01) 0xa9, b8 s (x + 0x02) 0x01,
                      b8 s (x + 0x03) 0x8d, b8 s (x + 0x07) 0xaa, b8 s (x + 0x0b) 0x85,
                      b8 s (x + 0x1f) 0xa2])
       (''Hubbard'' @ '' v5'')"


definition Chk_MikeLSD :: "p2s \<Rightarrow> (int \<times> p2s) option" where
  "Chk_MikeLSD s =
     (if fsiz s < 0x200 then ret0 s
      else
        first_match
          [(all_of [b8 s 0x02 0x4c, b8 s 0x05 0x4c, b8 s 0x08 0x4c, b8 s 0x0b 0x4c, b8 s 0x0e 0x4c,
                    w32 s 0x15 0xA90001C9, w32 s 0x61 0x07E93898],
            hit (loadaddr s + 6) (loadaddr s + 3) (''Mike/LSD'' @ '' v1'')),
           (all_of [b8 s 0x02 0x4c, b8 s 0x05 0x4c, b8 s 0x08 0xa9, b8 s 0x0b 0x4c, b8 s 0x11 0x4c,
                    w32 s 0x14 0xA96080A9, w32 s 0xfe 0x07E9388A],
            hit (loadaddr s + 6) (loadaddr s + 3) (''Mike/LSD'' @ '' v2''))]
          ret0 s)"

definition Chk_Comptech :: "p2s \<Rightarrow> (int \<times> p2s) option" where
  "Chk_Comptech s =
     (if fsiz s < 0x200 then ret0 s
      else do {
        c \<leftarrow> all_of [b8 s 2 0x4c, b8 s 5 0x8d, b8 s 8 0x60];
        if c then do {
          j \<leftarrow> ptr_at s 3;
          if \<not> CheckJ j (fsiz s) then do {
            m \<leftarrow> all_of [b8 s j 0xad, w32 s (j + 0x3) 0xF6F0FFC9];
            if m then hit (loadaddr s + 3) (loadaddr s + 0) ''Comptech 2.x/LoS'' s else ret0 s }
          else ret0 s }
        else ret0 s })"

definition Chk_SoundMaker :: "p2s \<Rightarrow> (int \<times> p2s) option" where
  "Chk_SoundMaker s =
     (if fsiz s < 0x200 then ret0 s
      else do {
        c \<leftarrow> all_of [b8 s 2 0x4c, nb8 s 5 0x4c, b8 s 8 0x4c];
        if c then do {
          j \<leftarrow> ptr_at s 3;
          if \<not> CheckJ j (fsiz s) then do {
            m \<leftarrow> all_of [b8 s j 0xaa, b8 s (j + 1) 0xbd, b8 s (j + 4) 0x8d, b8 s (j + 7) 0x8a];
            if m then hit (loadaddr s + 0) (loadaddr s + 6) (''SoundMaker'' @ '' v3/UA'') s
            else ret0 s }
          else ret0 s }
        else ret0 s })"

definition Chk_Electrosound :: "p2s \<Rightarrow> (int \<times> p2s) option" where
  "Chk_Electrosound s =
     (if fsiz s < 0xc00 then ret0 s
      else do {
        c \<leftarrow> all_of [w32 s 0x02 0x05D0B0C9, w32 s 0x06 0x154C30A9, w32 s 0x18a 0x0a0a0a0a];
        if c then do {
          s1 \<leftarrow> fill s 0xa8a 0 0x278;
          s2 \<leftarrow> put s1 0xa64 0x60;
          s3 \<leftarrow> put s2 0xa7d 0x60;
          s4 \<leftarrow> put s3 0xa86 0x60;
          s5 \<leftarrow> puts s4 0xb02 aPatchElcSnd;
          s6 \<leftarrow> put s5 0xb05 (drop_bit 8 (loadaddr s) + 5);
          s7 \<leftarrow> put s6 0xb0d (drop_bit 8 (loadaddr s) + 0xb);
          ret1 ((set_psidh P_TIMING 1
                   (s7\<lparr>initaddr := loadaddr s + 0xb00, playaddr := loadaddr s + 0xa65\<rparr>))
                \<lparr>ids := ''Electrosound''\<rparr>) }
        else ret0 s })"

definition Chk_PollyTracker :: "p2s \<Rightarrow> (int \<times> p2s) option" where
  "Chk_PollyTracker s =
     (let off = (\<lambda>a. a - loadaddr s + 2) in
      if fsiz s < 0x400 then ret0 s
      else do {
        c \<leftarrow> all_of [Some (loadaddr s \<ge> 0x0800), Some (loadaddr s \<le> 0x080d),
                      w32 s (off 0x819) 0x8D02A6AD, w32 s (off 0x81d) 0x38A9080C,
                      w32 s (off 0x89f) 0x4a4a4a4a];
        if c then do {
          let s0 = set_psidh P_FREEPMAX 4 (set_psidh P_FREEPAGE 4
                     ((set_psidh P_MARKER 0x52 s)\<lparr>initaddr := 0x80d, playaddr := 0\<rparr>));
          s1 \<leftarrow> puts s0 (off 0x80e) aPatchPolly1;
          s2 \<leftarrow> puts s1 (off 0x873) aPatchPolly2;
          s3 \<leftarrow> put s2 (off 0x8b7) 0xa9;
          s4 \<leftarrow> fill s3 (off 0x8c8) 0xea 3;
          s5 \<leftarrow> fill s4 (off 0x9a4) 0xea 3;
          ret1 (s5\<lparr>ids := ''PollyTracker''\<rparr>) }
        else ret0 s })"

text \<open>
  \<open>Chk_MasterComp\<close> moves \<open>p\<close>, \<open>fsiz\<close> and \<open>loadaddr\<close> to the offset \<open>j\<close> of the
  player before it patches.
\<close>

definition Chk_MasterComp :: "p2s \<Rightarrow> (int \<times> p2s) option" where
  "Chk_MasterComp s =
     (if fsiz s < 0x400 then ret0 s
      else do {
        found \<leftarrow> find_first
          (\<lambda>k. all_of [w32 s (k + 0x02) 0x29D404AD, w32 s (k + 0x06) 0xD4048DFE,
                        w32 s (k + 0x12) 0x29D412AD, w32m s (k + 0x16) 0xff00ffff 0xD4008DFE,
                        w16 s (k + 0x9c) ((k + loadaddr s) mod 0x10000)])
          [0..fsiz s - 0x300 - 1];
        case found of
          None \<Rightarrow> ret0 s
        | Some j \<Rightarrow> do {
            let la = loadaddr s + j;
            let ia = la - 0x0d;
            let t0 = s\<lparr>p_off := p_off s + j, fsiz := fsiz s - j, loadaddr := la,
                        initaddr := ia, playaddr := la - 0x06\<rparr>;
            let t1 = set_extrabytes 2 aPatchMastCm
                       (set_extrabyte 1 (drop_bit 8 ia) (set_extrabyte 0 (ia AND 0xff) t0));
            let t2 = set_extrabyte 6 (drop_bit 8 (la - 0x05)) (set_extrabyte 5 ((la - 0x05) AND 0xff) t1);
            t3 \<leftarrow> pokes t2 0 [0x60, 0x00];
            let t4 = set_psidh P_TIMING 1 (t3\<lparr>extra := 13\<rparr>);
            d \<leftarrow> b8 t4 0x18 0x04;
            t5 \<leftarrow> (if d then put t4 0x18 0x12 else Some t4);
            t6 \<leftarrow> fill t5 0x1a 0x60 3;
            t7 \<leftarrow> fill t6 0x36 0x60 3;
            t8 \<leftarrow> put t7 0x85 0xea;
            t9 \<leftarrow> fill t8 0x90 0xea 0x0b;
            t10 \<leftarrow> pokes t9 0x90 [0xa9, 0x00, 0x8d, (la - 0x05) AND 0xff, drop_bit 8 (la - 0x05)];
            t11 \<leftarrow> fill t10 0x24c 0x60 3;
            t12 \<leftarrow> pokes t11 0x25a [0xea, 0x4c, (la + 0x26b) AND 0xff, drop_bit 8 (la + 0x26b)];
            t13 \<leftarrow> put t12 0x265 0xea;
            t14 \<leftarrow> fill t13 0x289 0xea 0x0c;
            ret1 (t14\<lparr>ids := ''Master Composer''\<rparr>) } })"

definition Chk_Ubik :: "p2s \<Rightarrow> (int \<times> p2s) option" where
  "Chk_Ubik s =
     (if fsiz s < 0x400 then ret0 s
      else do {
        found \<leftarrow> find_first
          (\<lambda>k. all_of [b8 s k 0xad, w32 s (k + 0x03) 0x22D00330, w32 s (k + 0x07) 0x7F291860,
                        w32 s (k + 0x30) 0xA8306918])
          [0x68..fsiz s - 0x300 - 1];
        case found of
          None \<Rightarrow> ret0 s
        | Some j \<Rightarrow> do {
            let k = j - 0x66;
            let ia = k + loadaddr s - 2;
            let pa = ia + 3;
            t1 \<leftarrow> fill (s\<lparr>initaddr := ia, playaddr := pa\<rparr>) k 0 0x66;
            t2 \<leftarrow> puts t1 k aPatchUbiksM;
            t3 \<leftarrow> pokes t2 (k + 1) [(pa + 3) AND 0xff, drop_bit 8 (pa + 3)];
            t4 \<leftarrow> pokes t3 (k + 4) [(pa + 22) AND 0xff, drop_bit 8 (pa + 22)];
            a \<leftarrow> rd8 t4 (j + 1);
            t5 \<leftarrow> put t4 (k + 10) a;
            b \<leftarrow> rd8 t5 (j + 2);
            t6 \<leftarrow> put t5 (k + 11) b;
            t7 \<leftarrow> pokes t6 (k + 33) [(j + loadaddr s - 2) AND 0xff, drop_bit 8 (j + loadaddr s - 2)];
            ret1 ((set_psidh P_SUBTUNES 9 t7)\<lparr>ids := ''Ubik's Music''\<rparr>) } })"

text \<open>
  \<open>Chk_AMP1\<close>: from the signature at \<open>k\<close> the \<open>while\<close> loop steps \<open>playaddr\<close> back
  over at most eight bytes to an RTS. When it finds none, the function returns 0 and
  \<open>playaddr\<close> keeps the value \<open>k - 8\<close>.
\<close>

definition Chk_AMP1 :: "p2s \<Rightarrow> (int \<times> p2s) option" where
  "Chk_AMP1 s =
     (if fsiz s < 0x600 then ret0 s
      else do {
        found \<leftarrow> find_first
          (\<lambda>k. all_of [w32 s k 0x0BB015E0, b8 s (k + 0x4) 0xad, b8 s (k + 0x7) 0x3d,
                        b8 s (k + 0xa) 0xf0]) [0x300..0x3ff];
        case found of
          None \<Rightarrow> ret0 s
        | Some k \<Rightarrow> do {
            back \<leftarrow> find_first (\<lambda>d. b8 s (k - d) 0x60) [0..7];
            case back of
              None \<Rightarrow> ret0 (s\<lparr>playaddr := k - 8\<rparr>)
            | Some d \<Rightarrow> do {
                it \<leftarrow> find_first (\<lambda>k'. all_of [b8 s k' 0x60, b8 s (k' + 1) 0xa9]) [k..0x3ff];
                case it of
                  None \<Rightarrow> ret0 (s\<lparr>playaddr := initaddr s + 3\<rparr>)
                | Some k' \<Rightarrow>
                    ret1 (s\<lparr>playaddr := k - d + 1 + (loadaddr s - 2),
                             initaddr := k' + 1 + (loadaddr s - 2),
                             ids := ''AMP 1.x''\<rparr>) } } })"

definition Chk_Boogaloo :: "p2s \<Rightarrow> (int \<times> p2s) option" where
  "Chk_Boogaloo s =
     (if fsiz s < 0x200 then ret0 s
      else do {
        c \<leftarrow> all_of [b8 s 0x2 0x4c, b8 s 0xd 0xd4, w32 s 0x05 0x9DAA0029];
        if c then hit (loadaddr s + 3) (loadaddr s + 0) ''Boogaloo'' s else ret0 s })"

definition Chk_Bjerregaard1 :: "p2s \<Rightarrow> (int \<times> p2s) option" where
  "Chk_Bjerregaard1 s =
     (if fsiz s < 0x200 then ret0 s
      else do {
        jmp \<leftarrow> b8 s 2 0x4c;
        found \<leftarrow> (if jmp
                  then find_first
                         (\<lambda>k. all_of [b8 s k 0xad, w32 s (k + 3) 0xCE600110, b8 s (k + 0x9) 0x10])
                         [0x00..0xff]
                  else Some None);
        case found of
          None \<Rightarrow> ret0 s
        | Some k \<Rightarrow>
            if k > 0 then do {
              s1 \<leftarrow> one_byte_stub 0xaa s;
              let j = k + loadaddr s - 2;
              v \<leftarrow> b8 s1 5 0x4c;
              s2 \<leftarrow> (if v then do {
                       lo \<leftarrow> rd8 s1 6; hi \<leftarrow> rd8 s1 7;
                       Some (if j \<noteq> (lo OR push_bit 8 hi) then s1\<lparr>playaddr := j\<rparr> else s1) }
                     else Some (s1\<lparr>playaddr := j\<rparr>));
              ret1 (s2\<lparr>ids := ''Bjerregaard'' @ '' v1''\<rparr>) }
            else ret0 s })"

definition Chk_Bjerregaard2 :: "p2s \<Rightarrow> (int \<times> p2s) option" where
  "Chk_Bjerregaard2 s =
     (if fsiz s < 0x200 then ret0 s
      else do {
        found \<leftarrow> find_first
          (\<lambda>k. all_of [b8 s (k + 0x00) 0x4c, b8 s (k + 0x03) 0x4c, b8 s (k + 0x06) 0x4c,
                        b8 s (k + 0x1b) 0xa9, w32 s (k + 0x1d) 0xA26001D0,
                        w32 s (k + 0x21) 0xA5DDC602]) [0..0xff];
        case found of
          None \<Rightarrow> ret0 s
        | Some k \<Rightarrow>
            if k > 0
            then hit (loadaddr s + k - 2) (loadaddr s + k - 2 + 6) (''Bjerregaard'' @ '' v2'') s
            else ret0 s })"

definition Chk_ReflexTrk :: "p2s \<Rightarrow> (int \<times> p2s) option" where
  "Chk_ReflexTrk s =
     (let off = (\<lambda>a. a - loadaddr s + 2) in
      if fsiz s + loadaddr s > 0xc500 \<and> fsiz s + loadaddr s < 0xd000 then do {
        c \<leftarrow> all_of [w32 s (off 0xc000) 0x4CC02C4C, w16 s (off 0xc004) 0xC016,
                      w32 s (off 0xc00a) 0xC02C2001];
        if c
        then ret1 ((set_psidh P_MARKER 0x52 (s\<lparr>initaddr := 0xc006, playaddr := 0\<rparr>))
                   \<lparr>ids := ''ReflexTracker''\<rparr>)
        else ret0 s }
      else ret0 s)"

text \<open>
  \<open>Chk_FAME\<close>: the first two searches set \<open>initaddr\<close> and \<open>playaddr\<close> when they find
  their signature, and return 1 only when the offset found is above 0.
\<close>

definition Chk_FAME :: "p2s \<Rightarrow> (int \<times> p2s) option" where
  "Chk_FAME s =
     (if fsiz s < 0x300 then ret0 s
      else do {
        f1 \<leftarrow> find_first
          (\<lambda>k. all_of [b8 s (k + 0x00) 0xaa, b8 s (k + 0x01) 0xbd, b8 s (k + 0x04) 0x8d,
                        b8 s (k + 0x35) 0x4c, b8 s (k + 0x38) 0xa2, w32 s (k + 0x07) 0x50850A8A,
                        w32 s (k + 0x0b) 0x5065180A]) [0..0x7f];
        let s1 = (case f1 of None \<Rightarrow> s
                  | Some j \<Rightarrow> s\<lparr>initaddr := j + loadaddr s - 2,
                                 playaddr := j + loadaddr s - 2 + 0x38\<rparr>);
        if (case f1 of None \<Rightarrow> False | Some j \<Rightarrow> j > 0)
        then ret1 (s1\<lparr>ids := ''FAME'' @ '' v1''\<rparr>)
        else do {
          f2 \<leftarrow> find_first (\<lambda>k. w32 s1 (k + 0x00) 0xA959A2A8) [0..0xfe];
          r \<leftarrow> (case f2 of None \<Rightarrow> Some (-1, s1)
                | Some j \<Rightarrow> do {
                    inner \<leftarrow> find_first
                      (\<lambda>k. all_of [w32 s1 (k + 0x00) 0x7D1898C8, b8 s1 (k + 0x0e) 0x4c,
                                    b8 s1 (k + 0x11) 0x4c, b8 s1 (k + 0x14) 0xa2]) [j..0x1ff];
                    Some (case inner of None \<Rightarrow> (-1, s1)
                          | Some k \<Rightarrow> (j, s1\<lparr>initaddr := j + loadaddr s - 2,
                                              playaddr := k + loadaddr s - 2 + 0x14\<rparr>)) });
          if fst r > 0 then ret1 ((snd r)\<lparr>ids := ''FAME'' @ '' v2''\<rparr>)
          else do {
            let s2 = snd r;
            c \<leftarrow> all_of [b8 s2 0x2 0x4c, b8 s2 0x9 0x8d, w32 s2 0x05 0x00A959A2];
            if c then hit (loadaddr s + 3) (loadaddr s + 0) (''FAME'' @ '' v3'') s2
            else ret0 s2 } } })"

text \<open>The stub of several bytes written to the start of \<open>extrabytes\<close>, and its length.\<close>

definition stub :: "int list \<Rightarrow> p2s \<Rightarrow> p2s" where
  "stub vs s = set_extrabytes 0 (map word_of_int vs) s"

definition Chk_20CC_v2 :: "p2s \<Rightarrow> (int \<times> p2s) option" where
  "Chk_20CC_v2 s = do {
     c \<leftarrow> all_of [b8 s 2 0xa4, b8 s 8 0x4c, w32 s 0x04 0x03F00930, w32 s 0x0c 0xA260D418];
     if c then do {
       let ia = loadaddr s - 5;
       let s1 = stub [ia AND 0xff, drop_bit 8 ia, 0xa9, 0x01, 0x85]
                  (s\<lparr>extra := 5, initaddr := ia, playaddr := loadaddr s\<rparr>);
       v \<leftarrow> rd8 s1 3;
       s2 \<leftarrow> pokes s1 0 [v, 0x60];
       ret1 (s2\<lparr>ids := ''20CC'' @ '' v2''\<rparr>) }
     else ret0 s }"

definition Chk_20CC :: "p2s \<Rightarrow> (int \<times> p2s) option" where
  "Chk_20CC s =
     (if fsiz s < 0x300 then ret0 s
      else do {
        found \<leftarrow> find_first
          (\<lambda>k. any_of
             [all_of [b8 s (k + 0x00) 0xa9, b8 s (k + 0x02) 0x30, b8 s (k + 0x04) 0xf0,
                      b8 s (k + 0x0a) 0xb9, b8 s (k + 0x10) 0xb9, b8 s (k + 0x0d) 0x8d,
                      b8 s (k + 0x13) 0x8d, w32 s (k + 0x06) 0xa80a0a0a],
              all_of [b8 s (k + 0x00) 0xa0, b8 s (k + 0x02) 0x30, b8 s (k + 0x04) 0xf0,
                      b8 s (k + 0x06) 0x88, b8 s (k + 0x07) 0x98, b8 s (k + 0x0c) 0xb9,
                      w32 s (k + 0x08) 0xa80a0a0a],
              all_of [b8 s (k + 0x00) 0xa0, b8 s (k + 0x02) 0x30, b8 s (k + 0x04) 0xf0,
                      b8 s (k + 0x06) 0xA2, b8 s (k + 0x07) 0x17, b8 s (k + 0x15) 0x8E,
                      b8 s (k + 0x22) 0xb9]]) [0..0xff];
        case found of
          None \<Rightarrow> Chk_20CC_v2 s
        | Some j \<Rightarrow>
            if j > 0 then do {
              let ia = loadaddr s - 6;
              let pa = j + loadaddr s - 2;
              let s1 = stub [ia AND 0xff, drop_bit 8 ia, 0xa9, 0x01, 0x8d, (pa + 1) AND 0xff]
                         (s\<lparr>extra := 6, initaddr := ia, playaddr := pa\<rparr>);
              s2 \<leftarrow> pokes s1 0 [drop_bit 8 (pa + 1), 0x60];
              ret1 (s2\<lparr>ids := ''20CC'' @ '' v1''\<rparr>) }
            else Chk_20CC_v2 s })"

definition Chk_CTExe :: "p2s \<Rightarrow> (int \<times> p2s) option" where
  "Chk_CTExe s = do {
     c \<leftarrow> all_of [Some (loadaddr s = 0x800), Some (fsiz s > 0x4000), w32 s 0x3ee1 0x9AFFA278,
                   w32 s 0x4001 0x4C4A7D4C, w32 s 0x40dc 0x4a4a4a4a];
     if c then do {
       let s1 = s\<lparr>initaddr := 0x53A2, playaddr := 0x53E2\<rparr>;
       r \<leftarrow> b8 s1 0x4be7 0x20;
       s2 \<leftarrow> (if r then put s1 0x4be7 0x2c else Some s1);
       ret1 (s2\<lparr>ids := ''Cybertracker/EXE''\<rparr>) }
     else ret0 s }"

definition Chk_System6581 :: "p2s \<Rightarrow> (int \<times> p2s) option" where
  "Chk_System6581 s =
     (if fsiz s < 0x200 then ret0 s
      else do {
        c1 \<leftarrow> all_of [w32m s 0x02 0x0fffffff 0x092CF0AA, w32 s 0x17 0xD4009DAA,
                       w32 s 0x22 0x8E01A2F5];
        name \<leftarrow> (if c1 then Some (Some (''System6581'' @ '' v1''))
                 else do {
                   c2 \<leftarrow> all_of [w32 s 0x02 0xC930F0A8, w32 s 0x06 0x4C35D001,
                                  w32m s 0x43 0xff1fffff 0xD4009DAA, w32 s 0x4d 0x3898F5D0];
                   Some (if c2 then Some (''System6581'' @ '' v2'') else None) });
        case name of
          None \<Rightarrow> ret0 s
        | Some nm \<Rightarrow> do {
            let ia = loadaddr s - 7;
            let s1 = stub [ia AND 0xff, drop_bit 8 ia, 0x18, 0x69, 0x02, 0xd0, 0x02]
                       (s\<lparr>ids := nm, extra := 7, initaddr := ia, playaddr := loadaddr s - 2\<rparr>);
            s2 \<leftarrow> pokes s1 0 [0xa9, 0x01];
            ret1 s2 } })"

definition Chk_MattGray :: "p2s \<Rightarrow> (int \<times> p2s) option" where
  "Chk_MattGray s =
     (if fsiz s < 0x200 then ret0 s
      else do {
        c \<leftarrow> all_of [b8 s 0x04 0xa2, b8 s 0x05 0x00, b8 s 0x06 0x20, b8 s 0x13 0x60,
                      b8 s 0x14 0xad, b8 s 0x15 (loadaddr s AND 0xff),
                      b8 s 0x16 (drop_bit 8 (loadaddr s)), b8 s 0x1d 0xc9, b8 s 0x1e 0xab];
        if c then do {
          let ia = loadaddr s - 6;
          let s1 = stub [ia AND 0xff, drop_bit 8 ia, 0xa9, 0x01, 0x8d, loadaddr s AND 0xff]
                     (s\<lparr>extra := 6, initaddr := ia, playaddr := loadaddr s + 2\<rparr>);
          s2 \<leftarrow> pokes s1 0 [drop_bit 8 (loadaddr s), 0x60];
          ret1 (s2\<lparr>ids := ''Matt Gray''\<rparr>) }
        else ret0 s })"

definition Chk_PowerMus :: "p2s \<Rightarrow> (int \<times> p2s) option" where
  "Chk_PowerMus s =
     (if fsiz s < 0x200 then ret0 s
      else do {
        c \<leftarrow> all_of [b8 s 0x03 0xad, b8 s 0x04 0x00, b8 s 0x05 (drop_bit 8 (loadaddr s)),
                      w32 s 0x06 0x01103AF0, w32 s 0x0a 0x01E93860];
        if c then do {
          let ia = loadaddr s - 7;
          let s1 = stub [ia AND 0xff, drop_bit 8 ia, 0x18, 0x69, 0x01, 0x8d, loadaddr s AND 0xff]
                     (s\<lparr>extra := 7, initaddr := ia, playaddr := loadaddr s + 1\<rparr>);
          s2 \<leftarrow> pokes s1 0 [drop_bit 8 (loadaddr s), 0x60];
          ret1 (s2\<lparr>ids := ''Power Music''\<rparr>) }
        else ret0 s })"


text \<open>
  The loops of \<open>Chk_GRGTiny2\<close> and \<open>Chk_GRGTiny4\<close> over \<open>k\<close>: bit 0 of \<open>j\<close> and
  \<open>playaddr\<close> for the play routine, bit 1 and \<open>initaddr\<close> for the init routine; they
  leave when both are found. In \<open>Chk_GRGTiny2\<close> the inner loop reads the four bytes at
  \<open>p + i\<close> for \<open>i\<close> from \<open>k - 4\<close> down to \<open>k - 0x1f\<close>.
\<close>

fun grg2_loop :: "p2s \<Rightarrow> int list \<Rightarrow> int \<Rightarrow> (int \<times> p2s) option" where
  "grg2_loop s [] j = Some (j, s)"
| "grg2_loop s (k # ks) j = do {
     a \<leftarrow> all_of [b8 s k 0xa2, b8 s (k + 1) 0x0e, b8 s (k + 2) 0x86];
     let s1 = (if a then s\<lparr>playaddr := k + loadaddr s - 2\<rparr> else s);
     let j1 = (if a then j OR 1 else j);
     b \<leftarrow> all_of [b8 s1 k 0xa9, b8 s1 (k + 1) 0x60];
     c \<leftarrow> (if b then any_of [all_of [b8 s1 (k + 2) 0x8d, b8 s1 (k + 5) 0xa2],
                                all_of [b8 s1 (k + 2) 0x85, b8 s1 (k + 4) 0xa2]]
           else Some False);
     r \<leftarrow> (if c then do {
             f \<leftarrow> find_first (\<lambda>i. w32m s1 i 0xffffffac 0xD002A6AC) (map (\<lambda>d. k - d) [4..0x1f]);
             Some (j1 OR 2,
                   s1\<lparr>initaddr := (case f of None \<Rightarrow> k + loadaddr s - 2
                                    | Some i \<Rightarrow> i + loadaddr s - 2)\<rparr>) }
           else Some (j1, s1));
     if fst r = 3 then Some r else grg2_loop (snd r) ks (fst r) }"

definition Chk_GRGTiny2 :: "p2s \<Rightarrow> (int \<times> p2s) option" where
  "Chk_GRGTiny2 s =
     (if fsiz s < 0x100 then ret0 s
      else do {
        (j, s') \<leftarrow> grg2_loop s [0..fsiz s - 0x20 - 1] 0;
        if j = 3 then ret1 (s'\<lparr>ids := ''GRG Tiny2''\<rparr>)
        else ret0 (s'\<lparr>initaddr := loadaddr s, playaddr := loadaddr s + 3\<rparr>) })"

fun grg4_loop :: "p2s \<Rightarrow> int list \<Rightarrow> int \<Rightarrow> (int \<times> p2s) option" where
  "grg4_loop s [] j = Some (j, s)"
| "grg4_loop s (k # ks) j = do {
     a \<leftarrow> all_of [b8 s k 0xa2, b8 s (k + 1) 0x0e, b8 s (k + 2) 0xb5, b8 s (k + 4) 0xf0,
                   b8 s (k + 6) 0xd6, b8 s (k + 8) 0xd0];
     let s1 = (if a then s\<lparr>playaddr := k + loadaddr s - 2\<rparr> else s);
     let j1 = (if a then j OR 1 else j);
     b \<leftarrow> all_of [b8 s1 k 0xa2, b8 s1 (k + 1) 0x0e, b8 s1 (k + 2) 0xb4, b8 s1 (k + 4) 0xb5,
                   b8 s1 (k + 6) 0x10, b8 s1 (k + 8) 0xa5];
     let s2 = (if b then s1\<lparr>playaddr := k + loadaddr s - 2\<rparr> else s1);
     let j2 = (if b then j1 OR 1 else j1);
     c \<leftarrow> all_of [b8 s2 k 0xa9, b8 s2 (k + 1) 0x00, b8 s2 (k + 2) 0xa2,
                   any_of [b8 s2 (k + 3) 0x14, b8 s2 (k + 3) 0x16], b8 s2 (k + 6) 0xd4];
     let s3 = (if c then s2\<lparr>initaddr := k + loadaddr s - 2\<rparr> else s2);
     let j3 = (if c then j2 OR 2 else j2);
     if j3 = 3 then Some (j3, s3) else grg4_loop s3 ks j3 }"

definition Chk_GRGTiny4 :: "p2s \<Rightarrow> (int \<times> p2s) option" where
  "Chk_GRGTiny4 s =
     (if fsiz s < 0x100 then ret0 s
      else do {
        (j, s') \<leftarrow> grg4_loop s [0..fsiz s - 0x20 - 1] 0;
        if j = 3 then ret1 (s'\<lparr>ids := ''GRG Tiny4''\<rparr>)
        else ret0 (s'\<lparr>initaddr := loadaddr s, playaddr := loadaddr s + 3\<rparr>) })"

definition Chk_Yip :: "p2s \<Rightarrow> (int \<times> p2s) option" where
  "Chk_Yip s =
     (if fsiz s < 0x200 then ret0 s
      else do {
        found \<leftarrow> find_first
          (\<lambda>k. all_of [b8 s k 0xa9, b8 s (k + 0x01) 0x01, b8 s (k + 0x02) 0x8d,
                        b8 s (k + 0x28) 0xa9, b8 s (k + 0x2e) 0xad, b8 s (k + 0x31) 0xd0,
                        b8 s (k + 0x32) 0x20, b8 s (k + 0x33) 0x60]) [0..0x4e];
        case found of
          None \<Rightarrow> ret0 s
        | Some k \<Rightarrow> hit (k + loadaddr s - 2) (k + loadaddr s - 2 + 0x2e) ''Yip Megasound'' s })"

definition Chk_TFX1 :: "p2s \<Rightarrow> (int \<times> p2s) option" where
  "Chk_TFX1 s =
     (if fsiz s < 0x200 then ret0 s
      else do {
        c \<leftarrow> all_of [b8 s 0x102 0x4c, b8 s 0x105 0x4c, b8 s 0x10e 0xa8, b8 s 0x10f 0xb9,
                      w32 s 0x108 0x8d0a0a0a];
        if c then hit (loadaddr s + 0x106) (loadaddr s + 0x100) ''TFX 1.0'' s else ret0 s })"

definition Chk_Griff1 :: "p2s \<Rightarrow> (int \<times> p2s) option" where
  "Chk_Griff1 s =
     (if fsiz s < 0x200 then ret0 s
      else do {
        c \<leftarrow> all_of [w32 s (0x48 + 0x02) 0x00A900A2, w32 s (0x4E + 0x02) 0x033C9DD4,
                      w32 s (0x92 + 0x02) 0x6003808D, w32 s (0xe0 + 0x02) 0xF0039CAD];
        if c then do {
          s1 \<leftarrow> pokes s 2 [0x4c, (loadaddr s + 0x47) AND 0xff, drop_bit 8 (loadaddr s + 0x47),
                            0x4c, (loadaddr s + 0xe0) AND 0xff, drop_bit 8 (loadaddr s + 0xe0)];
          s2 \<leftarrow> put s1 (0x47 + 2) 0xa8;
          hit (loadaddr s) (loadaddr s + 3) ''Griff'' s2 }
        else ret0 s })"

definition Chk_Griff2 :: "p2s \<Rightarrow> (int \<times> p2s) option" where
  "Chk_Griff2 s =
     (if fsiz s < 0x200 then ret0 s
      else do {
        c \<leftarrow> all_of [b8 s 2 0x4c, w32 s (0x00 + 0x05) 0xF003A8AD, w32 s (0x04 + 0x05) 0x50AD6001,
                      w32 s (0x08 + 0x05) 0xD4188D03, w32 s (0x0C + 0x05) 0x8D0351AD];
        if c then do {
          s1 \<leftarrow> one_byte_stub 0xa8 s;
          ret1 (s1\<lparr>ids := ''Griff'' @ ''/LightVoices''\<rparr>) }
        else ret0 s })"

text \<open>\<open>(p[a] | (p[a+1] << 8)) == v\<close>.\<close>

definition ptr_is :: "p2s \<Rightarrow> int \<Rightarrow> int \<Rightarrow> bool option" where
  "ptr_is s a v = do { lo \<leftarrow> rd8 s a; hi \<leftarrow> rd8 s (a + 1); Some ((lo OR push_bit 8 hi) = v) }"

definition Chk_Ariston :: "p2s \<Rightarrow> (int \<times> p2s) option" where
  "Chk_Ariston s =
     (if fsiz s < 0x200 then ret0 s
      else do {
        found \<leftarrow> find_first
          (\<lambda>k. any_of
             [all_of [b8 s (k + 0x03) 0xad, ptr_is s (k + 0x04) (loadaddr s + k),
                      b8 s (k + 0x06) 0xd0, b8 s (k + 0x07) 0x09, b8 s (k + 0x08) 0x8d,
                      b8 s (k + 0x0b) 0x20, b8 s (k + 0x0e) 0x4c, same8 s (k + 0x0d) (k + 0x10)],
              all_of [b8 s (k + 0x03) 0xad, ptr_is s (k + 0x04) (loadaddr s + k),
                      b8 s (k + 0x06) 0xc9, b8 s (k + 0x07) 0xff, b8 s (k + 0x08) 0xf0,
                      b8 s (k + 0x09) 0x3c, b8 s (k + 0x17) 0x20, b8 s (k + 0x1a) 0x4c,
                      same8 s (k + 0x1c) (k + 0x19)]]) [0..4];
        case found of
          None \<Rightarrow> ret0 s
        | Some k \<Rightarrow> do {
            let ia = loadaddr s - 6;
            lo \<leftarrow> rd8 s (k + 0x04);
            let s1 = stub [ia AND 0xff, drop_bit 8 ia, 0xaa, 0xe8, 0x8e, lo]
                       (s\<lparr>playaddr := loadaddr s + k + 1, initaddr := ia\<rparr>);
            hi \<leftarrow> rd8 s1 (k + 0x05);
            s2 \<leftarrow> pokes (s1\<lparr>extra := 6\<rparr>) 0 [hi, 0x60];
            ret1 (s2\<lparr>ids := ''Ariston''\<rparr>) } })"

definition Chk_Winterberg :: "p2s \<Rightarrow> (int \<times> p2s) option" where
  "Chk_Winterberg s =
     (if fsiz s < 0x200 then ret0 s
      else do {
        found \<leftarrow> find_first
          (\<lambda>i. all_of [w32 s i 0x9D8A00A2, w16 s (0x04 + i) (loadaddr s AND 0xff00),
                        w32 s (0x06 + i) 0xD02AE0E8, w32 s (0x37 + i) 0x4C03F000]) [2..0x2f];
        case found of
          None \<Rightarrow> ret0 s
        | Some i \<Rightarrow> do {
            let s0 = set_psidh P_TIMING 1
                       (s\<lparr>initaddr := loadaddr s + i - 2, playaddr := loadaddr s + i - 2 + 0x30\<rparr>);
            let j = i + 0x10;
            s1 \<leftarrow> fill s0 j 0xea 10;
            s2 \<leftarrow> pokes s1 j [0xa9, 0x25, 0x8d, 0x04, 0xdc];
            s3 \<leftarrow> put s2 (0x143 + i) 0x60;
            ret1 (s3\<lparr>ids := ''Winterberg''\<rparr>) } })"

definition Chk_Jensen :: "p2s \<Rightarrow> (int \<times> p2s) option" where
  "Chk_Jensen s =
     (if fsiz s < 0x800 then ret0 s
      else do {
        found \<leftarrow> find_first
          (\<lambda>i. all_of [b8 s (0x0e + i) 0x4c, b8 s (0x11 + i) 0x4c, b8 s (0x14 + i) 0x4c,
                        b8 s (0x17 + i) 0xce, b8 s (0x1a + i) 0xce, b8 s (0x20 + i) 0xa9,
                        w32 s (0x5b + i) 0x0AD00F30]) [0..0xf];
        case found of
          None \<Rightarrow> ret0 s
        | Some k \<Rightarrow> hit (loadaddr s + 0x0f + k) (loadaddr s + 0x15 + k) ''Henrik Jensen'' s })"

definition Chk_MegaVision :: "p2s \<Rightarrow> (int \<times> p2s) option" where
  "Chk_MegaVision s =
     (if fsiz s < 0xb00 then ret0 s
      else do {
        c \<leftarrow> all_of [b8 s 0x0f 0xad, b8 s 0x10 0x2d, w32 s 0x05c 0xD40099A8,
                      w32 s 0x060 0xD018C0C8, w32 s 0x1e0 0x60E93809];
        if c then do {
          s1 \<leftarrow> pokes s 2 [0xa9, 0x80, 0x8d, 0x28, drop_bit 8 (loadaddr s)];
          s2 \<leftarrow> fill s1 7 0xea 8;
          s3 \<leftarrow> put s2 0x26 0x60;
          s4 \<leftarrow> put s3 0x36 0x60;
          s5 \<leftarrow> put s4 0x904 0x60;
          hit (loadaddr s) (loadaddr s + 0x3e) ''MegaVision'' (set_psidh P_TIMING 1 s5) }
        else ret0 s })"

text \<open>
  \<open>Chk_SkylineTech_Danne\<close> compares the four bytes at \<open>p + 2\<close> with the \<open>int\<close>
  \<open>((loadaddr + 0x5d) << 8) | 0xad00004c\<close> converted to \<open>unsigned int\<close>.
\<close>

definition Chk_SkylineTech_Danne :: "p2s \<Rightarrow> (int \<times> p2s) option" where
  "Chk_SkylineTech_Danne s =
     (if fsiz s < 0x600 then ret0 s
      else do {
        let i = (push_bit 8 (loadaddr s + 0x5d) OR 0xad00004c) mod 0x100000000;
        c \<leftarrow> all_of [w32 s 0x02 i, w32 s 0x08 0xA903418D, w32 s 0x4a 0xD4009DAA,
                      w32 s 0x90 0x0341AD03];
        if c then do {
          let s0 = s\<lparr>initaddr := loadaddr s + 3, playaddr := loadaddr s + 0,
                      ids := ''SkylineTech/Danne''\<rparr>;
          (r, s1) \<leftarrow> fixsklstack s0 2 (fsiz s0 - 2);
          ret1 (if r = 0x100 then s1\<lparr>ids := ids s1 @ '' (fixed)''\<rparr> else s1) }
        else ret0 s })"

text \<open>
  \<open>Chk_Deflemask\<close>: the two loops try \<open>i = 2\<close> and \<open>i = 8\<close>; \<open>i = 8\<close> is a file that
  still has its six bytes of JMPs, which are rewritten in place, \<open>i = 2\<close> gets them as a
  stub of six bytes.
\<close>

definition Chk_Deflemask :: "p2s \<Rightarrow> (int \<times> p2s) option" where
  "Chk_Deflemask s =
     (if fsiz s < 0x200 then ret0 s
      else do {
        v2 \<leftarrow> find_first
          (\<lambda>i. all_of [w32 s (0x00c - 6 + i) 0x02D013E6, w32 s (0x010 - 6 + i) 0x84AD14E6,
                        w32 s (0x049 - 6 + i) 0xCAD40099]) [2, 8];
        case v2 of
          Some i \<Rightarrow> do {
            let ia = loadaddr s AND 0xff00;
            let j = (drop_bit 8 ia AND 0xff) + 1;
            let s0 = s\<lparr>initaddr := ia, playaddr := ia + 3\<rparr>;
            s1 \<leftarrow> (if i = 8 then pokes s0 2 [0x4c, 0x0f, j, 0x4c, 0x17, j]
                   else pokes (stub [ia AND 0xff, drop_bit 8 ia, 0x4c, 0x0f, j, 0x4c]
                                 (s0\<lparr>extra := 6\<rparr>)) 0 [0x17, j]);
            ret1 (s1\<lparr>ids := ''Deflemask v2''\<rparr>) }
        | None \<Rightarrow> do {
            v12 \<leftarrow> find_first
              (\<lambda>i. all_of [w32m s (0x006 - 6 + i) 0x00ffffff 0x00B518A2,
                            w32 s (0x00a - 6 + i) 0xCAD4009D, w32 s (0x05d - 6 + i) 0xA500FF60])
              [2, 8];
            case v12 of
              Some i \<Rightarrow> do {
                let ia = loadaddr s AND 0xff00;
                let pa = ia + 6;
                let j = (drop_bit 8 ia AND 0xff) + 1;
                let s0 = s\<lparr>initaddr := ia, playaddr := pa\<rparr>;
                s1 \<leftarrow> (if i = 8
                       then pokes s0 2 [0x4c, 0x03, j, 0x4c, pa AND 0xff, drop_bit 8 pa]
                       else pokes (stub [ia AND 0xff, drop_bit 8 ia, 0x4c, 0x03, j, 0x4c]
                                     (s0\<lparr>extra := 6\<rparr>)) 0 [pa AND 0xff, drop_bit 8 pa]);
                ret1 (s1\<lparr>ids := ''Deflemask v12''\<rparr>) }
            | None \<Rightarrow> do {
                c \<leftarrow> all_of [w32m s 0x002 0x00ffffff 0x00B518A2, w32 s 0x06 0xCAD4009D,
                              w32 s 0x60 0xA500FF60];
                if c then hit (loadaddr s + 0x106) (loadaddr s)
                            (''Deflemask v12'' @ ''/bank-switched'') s
                else ret0 s } } })"

definition Chk_Polyanna :: "p2s \<Rightarrow> (int \<times> p2s) option" where
  "Chk_Polyanna s =
     (let off = (\<lambda>a. a - loadaddr s + 2) in
      if fsiz s < 0x1000 then ret0 s
      else do {
        c \<leftarrow> all_of [Some (loadaddr s \<ge> 0x0800), Some (loadaddr s \<le> 0x080d),
                      w32 s (off 0x80d) 0xFFA2D878, w32 s (off 0x81b) 0xD02005AD,
                      w32 s (off 0x100c) 0xA9FFFB8D];
        if c then do {
          let s0 = (set_psidh P_MARKER 0x52 s)\<lparr>initaddr := 0x154d, playaddr := 0\<rparr>;
          s1 \<leftarrow> puts s0 (off 0x154d) aPatchPolyAn;
          ret1 (s1\<lparr>ids := ''Polyanna''\<rparr>) }
        else ret0 s })"

definition Chk_SidFactory :: "p2s \<Rightarrow> (int \<times> p2s) option" where
  "Chk_SidFactory s =
     (if fsiz s < 0x200 then ret0 s
      else do {
        jmp \<leftarrow> b8 s 0x2 0x4c;
        if jmp then do {
          found \<leftarrow> find_first
            (\<lambda>k. all_of [b8 s (k + 2 + 0x00) 0x2c, b8 s (k + 2 + 0x03) 0x30,
                          b8 s (k + 2 + 0x05) 0x70, b8 s (k + 2 + 0x07) 0xa9,
                          b8 s (k + 2 + 0x08) 0x00, b8 s (k + 2 + 0x09) 0xa2,
                          b8 s (k + 2 + 0x0b) 0xca]) [6, 9];
          case found of
            None \<Rightarrow> ret0 s
          | Some k \<Rightarrow> hit (loadaddr s) (loadaddr s + k) ''SidFactory'' s }
        else ret0 s })"

definition Chk_Mssiah :: "p2s \<Rightarrow> (int \<times> p2s) option" where
  "Chk_Mssiah s =
     (if fsiz s < 0x5000 then ret0 s
      else if loadaddr s > 0x5c7c then ret0 s
      else do {
        let j = 0x5c7c - loadaddr s + 2;
        c \<leftarrow> all_of [w32 s (j + 0x0) 0x5A8D80A9, w32 s (j + 0x4) 0x5EF32071,
                      w32 s (j + 0x8) 0x205F1C20, w32 s (j + 0xc) 0xF6A25E9B];
        if c then do {
          let s0 = (set_psidh P_MARKER 0x52 s)
                     \<lparr>initaddr := 0x5c20, playaddr := 0, p_off := p_off s + j,
                      fsiz := fsiz s - j, loadaddr := loadaddr s + j\<rparr>;
          s1 \<leftarrow> put s0 0x02aa 0x60;
          s2 \<leftarrow> put s1 0x030d 0xA2;
          s3 \<leftarrow> fill s2 0x0503 0xea 3;
          s4 \<leftarrow> fill s3 0x0509 0xea 3;
          s5 \<leftarrow> put s4 0x028A 0x5B;
          s6 \<leftarrow> put s5 0x0979 0x5B;
          s7 \<leftarrow> put s6 0x097F 0x5B;
          s8 \<leftarrow> put s7 0x0FAF 0x5B;
          s9 \<leftarrow> put s8 0x0FB5 0x5B;
          s10 \<leftarrow> put s9 0x10E6 0x5B;
          s11 \<leftarrow> put s10 0x10EF 0x5B;
          let s12 = set_psidh P_FREEPMAX 0x57 (set_psidh P_FREEPAGE 0x04 s11);
          v \<leftarrow> rd8 s12 0x150a;
          s13 \<leftarrow> (if v > 0 then do {
                    t \<leftarrow> put s12 0x150a 3;
                    let t1 = set_psidh P_STEREOAD 0x50 (set_psidh P_SIDVER 3 t);
                    let m = uint (psidh t1 ! P_SIDMODEL);
                    Some (set_psidh P_SIDMODEL (m OR push_bit 2 (m AND 0x30)) t1) }
                  else Some s12);
          let s14 = set_extrabytes 2 aPatchMssiah
                      (set_extrabyte 1 (drop_bit 8 (initaddr s13))
                         (set_extrabyte 0 (initaddr s13 AND 0xff) s13));
          ret1 (s14\<lparr>extra := 2 + int (length aPatchMssiah), ids := ''Mssiah''\<rparr>) }
        else ret0 s })"

text \<open>
  \<open>Chk_GoatMultispeed\<close> prints the speed \<open>0x4cc8 / d\<close>, a \<open>double\<close>, with the format
  \<open>%2.1f\<close> of the C library. The library is not part of the sources, so the text it
  prints for the divisor \<open>d\<close> is the parameter \<open>fmt\<close>.
\<close>

definition Chk_GoatMultispeed :: "(int \<Rightarrow> string) \<Rightarrow> p2s \<Rightarrow> (int \<times> p2s) option" where
  "Chk_GoatMultispeed fmt s =
     (if fsiz s < 0x500 then ret0 s
      else do {
        let k = 2;
        c \<leftarrow> all_of [b8 s (k + 0x00) 0xa2, b8 s (k + 0x0D) 0x4C, w32 s (k + 0x02) 0xA2DC048E,
                      w32 s (k + 0x07) 0x4CDC058E];
        if c then do {
          lo \<leftarrow> rd8 s (k + 1);
          hi \<leftarrow> rd8 s (k + 6);
          ret1 ((set_psidh P_TIMING 1 s)
                \<lparr>playaddr := initaddr s + 0xd,
                 ids := ''GoatTracker+MultiSpeed: '' @ fmt (lo OR push_bit 8 hi) @ ''x''\<rparr>) }
        else ret0 s })"

text \<open>
  A loop that tries two signatures at every position and leaves at the first that holds:
  the position and the number of the signature.
\<close>

fun find_first2 ::
  "(int \<Rightarrow> bool option) \<Rightarrow> (int \<Rightarrow> bool option) \<Rightarrow> int list \<Rightarrow> (int \<times> nat) option option" where
  "find_first2 a b [] = Some None"
| "find_first2 a b (x # xs) =
     (case a x of None \<Rightarrow> None
      | Some ra \<Rightarrow>
          if ra then Some (Some (x, 1))
          else (case b x of None \<Rightarrow> None
                | Some rb \<Rightarrow> if rb then Some (Some (x, 2)) else find_first2 a b xs))"

definition Chk_FlexSid :: "p2s \<Rightarrow> (int \<times> p2s) option" where
  "Chk_FlexSid s =
     (if fsiz s < 0x100 then ret0 s
      else do {
        found \<leftarrow> find_first2
          (\<lambda>k. all_of [w32 s (k + 0x00) 0xC19500AB, w32 s (k + 0x0C) 0x60D4188E,
                        w32 s (k + 0x10) 0xFF860EA2])
          (\<lambda>k. all_of [w32 s (k + 0x00) 0x00A93FA2, w32 s (k + 0x06) 0x60FB10CA,
                        w32 s (k + 0x0a) 0xFF860EA2])
          [0..fsiz s - 0x20 - 1];
        case found of
          None \<Rightarrow> ret0 s
        | Some (k, v) \<Rightarrow>
            if v = 1 then hit (k + loadaddr s - 2) (k + loadaddr s - 2 + 0x10) ''FlexSid'' s
            else hit (k + loadaddr s - 2) (k + loadaddr s - 2 + 0x0a) ''FlexSid-Bare'' s })"

text \<open>A list of \<open>memset\<close> calls at C64 addresses: (address, value, length).\<close>

fun fills_at :: "p2s \<Rightarrow> (int \<times> int \<times> nat) list \<Rightarrow> p2s option" where
  "fills_at s [] = Some s"
| "fills_at s ((a, v, n) # fs) = do { s' \<leftarrow> fill s (a - loadaddr s + 2) v n; fills_at s' fs }"

definition starbars_head :: "p2s \<Rightarrow> int \<Rightarrow> p2s" where
  "starbars_head s ia =
     (set_psidh P_SIDMODEL 0x34 (set_psidh P_MARKER 0x52 s))
       \<lparr>ids := ''StarBars '', initaddr := ia, playaddr := 0\<rparr>"

definition Chk_StarBars_11_12 :: "p2s \<Rightarrow> (int \<times> p2s) option" where
  "Chk_StarBars_11_12 s = do {
     j \<leftarrow> rd8 s (0x9be - loadaddr s + 2);
     let s0 = starbars_head s 0x09bb;
     s1 \<leftarrow> fills_at s0 [(0x08B1, 0, 0x99), (0x09c0, 0xea, 0x6b), (0x0a5b, 0x60, 1),
                          (0x0a5c, 0, 0x05a4), (0x1300, 0, 0x100)];
     if j = 0x42 then do {
       s2 \<leftarrow> fills_at s1 [(0x10b1, 0x60, 0x1e), (0x11e1, 0xea, 0x29), (0x122b, 0x60, 0x17),
                            (0x1271, 0x60, 0x12), (0x129c, 0x60, 0x20)];
       ret1 (s2\<lparr>ids := ids s2 @ ''v1.1''\<rparr>) }
     else do {
       s2 \<leftarrow> fills_at s1 [(0x10a1, 0x60, 0x1e), (0x11e8, 0xea, 0x29), (0x1232, 0x60, 0x17),
                            (0x1278, 0x60, 0x12), (0x12a3, 0x60, 0x20)];
       ret1 (s2\<lparr>ids := ids s2 @ ''v1.2''\<rparr>) } }"

definition Chk_StarBars_13b :: "p2s \<Rightarrow> (int \<times> p2s) option" where
  "Chk_StarBars_13b s = do {
     s1 \<leftarrow> fills_at (starbars_head s 0x080d)
             [(0x0812, 0xea, 0x90), (0x08d8, 0x60, 1), (0x08d9, 0, 0x057), (0x09d1, 0x60, 0x1e),
              (0x0b20, 0, 0x4e0), (0x10a5, 0xea, 0x29), (0x10f2, 0x60, 0x17),
              (0x1138, 0x60, 0x98), (0x11e8, 0x60, 0x21), (0x120a, 0, 0x1f6), (0x141c, 0, 0xe4)];
     ret1 (s1\<lparr>ids := ids s1 @ ''v1.3'' @ ''beta''\<rparr>) }"

definition Chk_StarBars_13 :: "p2s \<Rightarrow> (int \<times> p2s) option" where
  "Chk_StarBars_13 s = do {
     s1 \<leftarrow> fills_at (starbars_head s 0x080d)
             [(0x0818, 0xea, 0x7b), (0x08e6, 0x60, 0x49), (0x09E3, 0x60, 0x1e), (0x0b32, 0, 0x4ce),
              (0x10b4, 0xea, 0x1c), (0x10d7, 0x60, 0x3e), (0x111c, 0x60, 0x10),
              (0x113f, 0x60, 0x92), (0x1204, 0x60, 0x20), (0x128d, 0, 0x173), (0x141c, 0, 0xe4)];
     ret1 (s1\<lparr>ids := ids s1 @ ''v1.3''\<rparr>) }"

definition Chk_StarBars_14b :: "p2s \<Rightarrow> (int \<times> p2s) option" where
  "Chk_StarBars_14b s = do {
     s1 \<leftarrow> fills_at (starbars_head s 0x080d)
             [(0x0818, 0xea, 0x75), (0x08e0, 0x60, 0x48), (0x09E7, 0x60, 0x1e), (0x0b36, 0, 0x4ca),
              (0x10b4, 0xea, 0x1c), (0x10d7, 0x60, 0x3e), (0x111c, 0x60, 0x10),
              (0x113f, 0x60, 0x92), (0x1204, 0x60, 0x20), (0x128d, 0, 0x173), (0x141c, 0, 0xe4)];
     ret1 (s1\<lparr>ids := ids s1 @ ''v1.4'' @ ''beta''\<rparr>) }"

definition Chk_StarBars_14 :: "p2s \<Rightarrow> (int \<times> p2s) option" where
  "Chk_StarBars_14 s = do {
     s1 \<leftarrow> fills_at (starbars_head s 0x080d)
             [(0x0817, 0xea, 0x4e), (0x08b8, 0x60, 0x48), (0x09D6, 0x60, 0x1e), (0x0b35, 0, 0x4cb),
              (0x10b4, 0xea, 0x1c), (0x10d7, 0x60, 0x3e), (0x111c, 0x60, 0x10),
              (0x113f, 0x60, 0x92), (0x1204, 0x60, 0x20), (0x128d, 0, 0x173), (0x141c, 0, 0x95)];
     ret1 (s1\<lparr>ids := ids s1 @ ''v1.4''\<rparr>) }"

text \<open>
  \<open>Chk_StarBars\<close>: five blocks \<open>if (three signatures) { j = version byte; if (j is the
  expected one) { patch; return 1; } }\<close>, tried in order.
\<close>

definition Chk_StarBars :: "p2s \<Rightarrow> (int \<times> p2s) option" where
  "Chk_StarBars s =
     (let off = (\<lambda>a. a - loadaddr s + 2) in
      if fsiz s < 0x1000 then ret0 s
      else if loadaddr s \<ge> 0x0800 \<and> loadaddr s \<le> 0x080d then
        first_match
          [(all_of [w32 s (off 0x80d) 0x0009BB4C, w32 s (off 0x89c) 0x4E494541,
                    w32 s (off 0x1000) 0x8D1504AD,
                    any_of [b8 s (off 0x9be) 0x42, b8 s (off 0x9be) 0x49]],
            Chk_StarBars_11_12),
           (all_of [w32 s (off 0x80d) 0x0920D878, w32 s (off 0xb0b) 0x4E494541,
                    w32 s (off 0x930) 0x8D1504AD, b8 s (off 0x0810) 0x09],
            Chk_StarBars_13b),
           (all_of [w32 s (off 0x80d) 0x00A9D878, w32 s (off 0xb1d) 0x4E494541,
                    w32 s (off 0x92f) 0x8D1504AD, b8 s (off 0x0819) 0x04],
            Chk_StarBars_13),
           (all_of [w32 s (off 0x80d) 0x00A9D878, w32 s (off 0xb21) 0x4E494541,
                    w32 s (off 0x929) 0x8D1504AD, b8 s (off 0x0819) 0x04],
            Chk_StarBars_14b),
           (all_of [w32 s (off 0x80d) 0xAA00A978, w32 s (off 0xb20) 0x4E494541,
                    w32 s (off 0x901) 0x8D1504AD, b8 s (off 0x0818) 0x04],
            Chk_StarBars_14)]
          ret0 s
      else ret0 s)"

definition Chk_QuantumSndTrk :: "p2s \<Rightarrow> (int \<times> p2s) option" where
  "Chk_QuantumSndTrk s =
     (let off = (\<lambda>a. a - loadaddr s + 2) in
      if fsiz s < 0xdd8f + 0x3c + 2 - loadaddr s then ret0 s
      else if loadaddr s \<ge> 0x0800 \<and> loadaddr s \<le> 0x080d then do {
        c \<leftarrow> all_of [w32 s (off 0x80f) 0x8534A90D, w32 s (off 0x89b) 0x4A4A4A8A,
                      w32 s (off 0x9AF) 0xEDF0DD0D,
                      any_of [b8 s (off 0x80e) 0x6a, b8 s (off 0x80e) 0x6c]];
        if c then do {
          j \<leftarrow> rd8 s (off 0x80e);
          let s0 = (set_psidh P_FREEPMAX 4 (set_psidh P_FREEPAGE 4 (set_psidh P_MARKER 0x52 s)))
                     \<lparr>ids := ''Quantum SoundTracker 1.0''\<rparr>;
          s1 \<leftarrow> fills_at s0 [(0x0821, 0xea, 0x03), (0x082c, 0x78, 0x0c), (0x08e7, 0x60, 0x56),
                               (0x0fc0, 0x60, 0x3f), (0xdd6d, 0xea, 0x03), (0xdd73, 0xea, 0x03),
                               (0xdd8f, 0x60, 0x3c)];
          s2 \<leftarrow> (if j = 0x6c
                 then fills_at (s1\<lparr>ids := ids s1 @ ''/demo''\<rparr>)
                        [(0x0a3e, 0x60, 0x2e6), (0x0d8a, 0x60, 0xb9)]
                 else fills_at s1 [(0x0a3e, 0x60, 0x2e4), (0x0d88, 0x60, 0xb9)]);
          ret1 (s2\<lparr>initaddr := 0x080d, playaddr := 0\<rparr>) }
        else ret0 s }
      else ret0 s)"

definition Chk_Whittaker :: "p2s \<Rightarrow> (int \<times> p2s) option" where
  "Chk_Whittaker s =
     (if fsiz s < 0x800 then ret0 s
      else do {
        first \<leftarrow> find_first (\<lambda>k. w32 s k 0x8D00A9AA) [0..0x7ff];
        case first of
          None \<Rightarrow> ret0 s
        | Some k \<Rightarrow>
            if k > 0 then do {
              found \<leftarrow> find_first2
                (\<lambda>j. all_of [w32 s j 0xA548F8A5, b8 s (j + 0x06) 0xCE, b8 s (j + 0x09) 0xD0,
                              b8 s (j + 0x10) 0xD0, b8 s (j + 0x12) 0x20])
                (\<lambda>j. all_of [w32 s j 0xA548F8A5, b8 s (j + 0x06) 0x20, b8 s (j + 0x0f) 0x60,
                              b8 s (j + 0x15) 0xCE, b8 s (j + 0x18) 0xD0, b8 s (j + 0x1C) 0x20])
                [k..0x7ff];
              case found of
                None \<Rightarrow> ret0 s
              | Some (j, v) \<Rightarrow>
                  hit (loadaddr s + k - 2) (loadaddr s + j - 2)
                      (''Whittaker'' @ (if v = 1 then '' v1'' else '' v2'')) s }
            else ret0 s })"

section \<open>Core A: the scanner\<close>

text \<open>
  \<open>ScanFunc\<close>, in the order of the source, and \<open>Scanners\<close>: the loop calls one function
  after the other on the state the previous ones left and stops at the first result
  that is not 0, which it returns; after the last function it returns the 0 of that one.
\<close>

definition ScanFunc :: "(int \<Rightarrow> string) \<Rightarrow> (p2s \<Rightarrow> (int \<times> p2s) option) list" where
  "ScanFunc fmt =
     [Chk_FC, Chk_FCAlt, Chk_MusAss, Chk_MusMix, Chk_GMC, Chk_Bappalander, Chk_TrkPl3,
      Chk_Groovy, Chk_Parsec, Chk_Sosperec, Chk_SoedeSoft, Chk_Prosonix1, Chk_4JMPS,
      Chk_Heathcliff, Chk_3JMPs1, Chk_ArneAFL, Chk_ArneSndMk, Chk_Digitalizer, Chk_Soundmon,
      Chk_AMP2, Chk_FC3x, Chk_MoN_JTS, Chk_3JMPs2, Chk_JOv2, Chk_2JMPs, Chk_LaxityV2,
      Chk_HubbardV5, Chk_HubbardV4, Chk_HubbardV3, Chk_HubbardV2, Chk_HubbardV1, Chk_MikeLSD,
      Chk_Comptech, Chk_SoundMaker, Chk_Electrosound, Chk_PollyTracker, Chk_MasterComp,
      Chk_Ubik, Chk_AMP1, Chk_Boogaloo, Chk_Bjerregaard1, Chk_Bjerregaard2, Chk_ReflexTrk,
      Chk_FAME, Chk_20CC, Chk_CTExe, Chk_System6581, Chk_MattGray, Chk_PowerMus,
      Chk_GRGTiny2, Chk_GRGTiny4, Chk_Yip, Chk_TFX1, Chk_Griff1, Chk_Griff2, Chk_Ariston,
      Chk_Winterberg, Chk_Jensen, Chk_MegaVision, Chk_SkylineTech_Danne, Chk_Deflemask,
      Chk_Polyanna, Chk_SidFactory, Chk_Mssiah, Chk_GoatMultispeed fmt, Chk_FlexSid,
      Chk_StarBars, Chk_Whittaker, Chk_QuantumSndTrk]"

fun scan_loop :: "(p2s \<Rightarrow> (int \<times> p2s) option) list \<Rightarrow> int \<Rightarrow> p2s \<Rightarrow> (int \<times> p2s) option" where
  "scan_loop [] z s = Some (z, s)"
| "scan_loop (f # fs) z s = do {
     (z', s') \<leftarrow> f s;
     if z' \<noteq> 0 then Some (z', s') else scan_loop fs z' s' }"

definition Scanners :: "(int \<Rightarrow> string) \<Rightarrow> p2s \<Rightarrow> (int \<times> p2s) option" where
  "Scanners fmt s = scan_loop (ScanFunc fmt) 0 s"


section \<open>Core A: main\<close>

text \<open>
  The command line after the file name, as \<open>main\<close> uses it: \<open>arg_load\<close> is the number
  \<open>strtol\<close> returns for \<open>argv[2]\<close> when that argument is present and longer than two
  characters; \<open>arg_8580\<close> and \<open>arg_ntsc\<close> say that \<open>argv[3]\<close> starts with \<open>8\<close> and
  \<open>argv[4]\<close> with \<open>N\<close> or \<open>n\<close>; the three texts are the bytes of \<open>argv[5..7]\<close>;
  \<open>arg_songs\<close> and \<open>arg_start\<close> are the numbers \<open>strtol\<close> returns for \<open>argv[8]\<close> and
  \<open>argv[9]\<close>. An absent or empty argument is \<open>None\<close>.
\<close>

definition P_NAME :: nat where "P_NAME = 0x16"
definition P_AUTHOR :: nat where "P_AUTHOR = 0x36"
definition P_RELEASED :: nat where "P_RELEASED = 0x56"

record p2s_args =
  arg_load :: "int option"
  arg_8580 :: bool
  arg_ntsc :: bool
  arg_title :: "8 word list option"
  arg_author :: "8 word list option"
  arg_released :: "8 word list option"
  arg_songs :: "int option"
  arg_start :: "int option"

definition no_args :: p2s_args where
  "no_args = \<lparr>arg_load = None, arg_8580 = False, arg_ntsc = False, arg_title = None,
              arg_author = None, arg_released = None, arg_songs = None, arg_start = None\<rparr>"

text \<open>The state after \<open>fread\<close>: the globals with their initialisers, \<open>p = realp\<close>.\<close>

definition initial :: "8 word list \<Rightarrow> p2s" where
  "initial file =
     \<lparr>buf = file, p_off = 0, fsiz = int (length file), initaddr = 0, playaddr = 0,
      loadaddr = 0, extra = 0, extrabytes = replicate 128 0, psidh = psidh_init,
      ids = ''Generic''\<rparr>"

text \<open>
  \<open>if ((j > loadaddr) && (j < (loadaddr + fsiz - 2)))\<close>: start the rip at address \<open>j\<close>.
\<close>

definition cut_at :: "int option \<Rightarrow> p2s \<Rightarrow> p2s option" where
  "cut_at a s =
     (case a of
        None \<Rightarrow> Some s
      | Some j \<Rightarrow>
          if j > loadaddr s \<and> j < loadaddr s + fsiz s - 2
          then (let k = j - loadaddr s
                in pokes (s\<lparr>p_off := p_off s + k, fsiz := fsiz s - k, loadaddr := j\<rparr>) 0
                     [j AND 0xff, drop_bit 8 j])
          else Some s)"

text \<open>\<open>strncpy (tempstr, text, 32)\<close> into the zeroed \<open>tempstr\<close>, then 32 bytes to the header.\<close>

definition header_text :: "nat \<Rightarrow> 8 word list option \<Rightarrow> p2s \<Rightarrow> p2s" where
  "header_text n t s =
     (case t of
        None \<Rightarrow> s
      | Some w \<Rightarrow>
          if w = [] then s
          else s\<lparr>psidh := take n (psidh s) @ take 32 (w @ replicate 32 0) @ drop (n + 32) (psidh s)\<rparr>)"

definition header_count :: "nat \<Rightarrow> int option \<Rightarrow> p2s \<Rightarrow> p2s" where
  "header_count n c s =
     (case c of
        None \<Rightarrow> s
      | Some j \<Rightarrow> if j > 0 \<and> j < 256 then set_psidh n (j AND 0xff) s else s)"

definition header_args :: "p2s_args \<Rightarrow> p2s \<Rightarrow> p2s" where
  "header_args a s =
     (let s1 = (if arg_8580 a
                then set_psidh P_SIDMODEL ((uint (psidh s ! P_SIDMODEL) AND 0x0f) OR 0x20) s else s);
          s2 = (if arg_ntsc a
                then set_psidh P_SIDMODEL ((uint (psidh s1 ! P_SIDMODEL) AND 0xf0) OR 0x8) s1
                else s1);
          s3 = header_text P_NAME (arg_title a) s2;
          s4 = header_text P_AUTHOR (arg_author a) s3;
          s5 = header_text P_RELEASED (arg_released a) s4;
          s6 = header_count P_SUBTUNES (arg_songs a) s5
      in header_count P_STARTSNG (arg_start a) s6)"

text \<open>
  The end of \<open>main\<close>. \<open>new_loadaddr\<close> is the value of \<open>loadaddr\<close> after the block
  \<open>if (extra)\<close>; \<open>write_len\<close> is the value of \<open>fsiz\<close> passed to the last \<open>fwrite\<close>.
\<close>

definition new_loadaddr :: "p2s \<Rightarrow> int option" where
  "new_loadaddr s =
     (if extra s \<noteq> 0
      then (if extra s = 1
            then do { p0 \<leftarrow> rd8 s 0; Some (uint (extrabytes s ! 0) OR push_bit 8 p0) }
            else Some (uint (extrabytes s ! 0) OR push_bit 8 (uint (extrabytes s ! 1))))
      else Some (loadaddr s))"

definition write_len :: "p2s \<Rightarrow> int option" where
  "write_len s = do {
     la \<leftarrow> new_loadaddr s;
     let j = fsiz s + la + extra s - 2;
     Some (if j > 0xffff then fsiz s - (j - 0x10000) else fsiz s) }"

text \<open>
  What \<open>main\<close> prints and writes: the line with identity, init and play address, and
  the three \<open>fwrite\<close> calls. A negative length in the last \<open>fwrite\<close> becomes a huge
  \<open>size_t\<close>, a read outside the buffer.
\<close>

record conversion =
  shown_ids :: string
  shown_init :: int
  shown_play :: int
  sid_header :: "8 word list"
  sid_prepend :: "8 word list"
  sid_payload :: "8 word list"

definition sid_file :: "conversion \<Rightarrow> 8 word list" where
  "sid_file c = sid_header c @ sid_prepend c @ sid_payload c"

definition write_out :: "p2s \<Rightarrow> conversion option" where
  "write_out s =
     (let h = set_psidh (P_PLAYADDR + 1) (playaddr s AND 0xff)
                (set_psidh (P_PLAYADDR + 0) (drop_bit 8 (playaddr s))
                   (set_psidh (P_INITADDR + 1) (initaddr s AND 0xff)
                      (set_psidh (P_INITADDR + 0) (drop_bit 8 (initaddr s)) s)))
      in do {
        n \<leftarrow> write_len h;
        if n < 0 then None
        else Some \<lparr>shown_ids = ids h, shown_init = initaddr h, shown_play = playaddr h,
                   sid_header = psidh h,
                   sid_prepend = (if extra h \<noteq> 0 then take (nat (extra h)) (extrabytes h) else []),
                   sid_payload = take (nat n) (drop (nat (p_off h)) (buf h))\<rparr> })"

datatype outcome = Already_a_SID | Converted conversion

text \<open>
  \<open>main\<close> from the test for a file that is a SID already. Opening and creating the files
  is outside the model. For an empty file the result of \<open>calloc (0, 1)\<close> is
  implementation-defined and the first test reads \<open>p[0]\<close>; that is \<open>None\<close> here.

  \<open>already_sid\<close> is the test on the first four bytes, \<open>scan_input\<close> the state in
  which \<open>main\<close> calls \<open>Scanners\<close>: load address read, the rip cut at \<open>arg_load\<close>,
  the header filled from the arguments, and the default entry points.
\<close>

definition already_sid :: "p2s \<Rightarrow> bool option" where
  "already_sid s0 =
     all_of [any_of [b8 s0 (int P_MARKER + 0) (uint (psidh s0 ! (P_MARKER + 0))),
                     b8 s0 (int P_MARKER + 0) 0x52],
             b8 s0 (int P_MARKER + 1) (uint (psidh s0 ! (P_MARKER + 1))),
             b8 s0 (int P_MARKER + 2) (uint (psidh s0 ! (P_MARKER + 2))),
             b8 s0 (int P_MARKER + 3) (uint (psidh s0 ! (P_MARKER + 3)))]"

definition scan_input :: "p2s_args \<Rightarrow> 8 word list \<Rightarrow> p2s option" where
  "scan_input args file =
     (let s0 = initial file in do {
        lo \<leftarrow> rd8 s0 0;
        hi \<leftarrow> rd8 s0 1;
        s1 \<leftarrow> cut_at (arg_load args) (s0\<lparr>loadaddr := lo OR push_bit 8 hi\<rparr>);
        let s2 = header_args args s1;
        Some (s2\<lparr>initaddr := loadaddr s2, playaddr := loadaddr s2 + 3\<rparr>) })"

definition p2s_main :: "(int \<Rightarrow> string) \<Rightarrow> p2s_args \<Rightarrow> 8 word list \<Rightarrow> outcome option" where
  "p2s_main fmt args file = do {
     sid \<leftarrow> already_sid (initial file);
     if sid then Some Already_a_SID
     else do {
       s \<leftarrow> scan_input args file;
       (z, s') \<leftarrow> Scanners fmt s;
       r \<leftarrow> write_out s';
       Some (Converted r) } }"

text \<open>A 16-bit field of the header, high byte first.\<close>

definition field16 :: "8 word list \<Rightarrow> nat \<Rightarrow> int" where
  "field16 h n = uint (h ! n) * 0x100 + uint (h ! (n + 1))"


section \<open>Core A: what a check that returns 0 leaves behind\<close>

text \<open>
  \<open>same_but_entry s s'\<close>: the two states differ at most in \<open>initaddr\<close> and
  \<open>playaddr\<close>. \<open>returns0 R s m\<close>: when the computation \<open>m\<close> returns 0, its final state
  is related to \<open>s\<close> by \<open>R\<close>.
\<close>

definition same_but_entry :: "p2s \<Rightarrow> p2s \<Rightarrow> bool" where
  "same_but_entry s s' \<longleftrightarrow>
     buf s' = buf s \<and> p_off s' = p_off s \<and> fsiz s' = fsiz s \<and> loadaddr s' = loadaddr s \<and>
     extra s' = extra s \<and> extrabytes s' = extrabytes s \<and> psidh s' = psidh s \<and> ids s' = ids s"

definition returns0 :: "(p2s \<Rightarrow> p2s \<Rightarrow> bool) \<Rightarrow> p2s \<Rightarrow> (int \<times> p2s) option \<Rightarrow> bool" where
  "returns0 R s m \<longleftrightarrow> (\<forall>s'. m = Some (0, s') \<longrightarrow> R s s')"

text \<open>
  \<open>entry_only\<close>: only the two entry points may have changed, and nothing at all when
  the file is shorter than 0x100 bytes. \<open>untouched\<close>: nothing has changed.
\<close>

definition entry_only :: "p2s \<Rightarrow> p2s \<Rightarrow> bool" where
  "entry_only s s' \<longleftrightarrow> same_but_entry s s' \<and> (fsiz s < 0x100 \<longrightarrow> s' = s)"

definition untouched :: "p2s \<Rightarrow> p2s \<Rightarrow> bool" where
  "untouched s s' \<longleftrightarrow> s' = s"

lemma returns0_ret0: "R s t \<Longrightarrow> returns0 R s (ret0 t)"
  by (simp add: returns0_def ret0_def)

lemma returns0_ret1: "returns0 R s (ret1 t)"
  by (simp add: returns0_def ret1_def)

lemma returns0_hit: "returns0 R s (hit ia pa name t)"
  by (simp add: returns0_def hit_def ret1_def)

lemma returns0_None: "returns0 R s None"
  by (simp add: returns0_def)

lemma returns0_bind: "(\<And>x. m = Some x \<Longrightarrow> returns0 R s (f x)) \<Longrightarrow> returns0 R s (m \<bind> f)"
  by (auto simp: returns0_def bind_eq_Some_conv)

lemma returns0_if:
  "(c \<Longrightarrow> returns0 R s a) \<Longrightarrow> (\<not> c \<Longrightarrow> returns0 R s b) \<Longrightarrow> returns0 R s (if c then a else b)"
  by simp

lemma returns0_option:
  "(x = None \<Longrightarrow> returns0 R s a) \<Longrightarrow> (\<And>y. x = Some y \<Longrightarrow> returns0 R s (b y)) \<Longrightarrow>
   returns0 R s (case x of None \<Rightarrow> a | Some y \<Rightarrow> b y)"
  by (cases x) simp_all

lemma returns0_prod:
  "(\<And>a b. x = (a, b) \<Longrightarrow> returns0 R s (f a b)) \<Longrightarrow> returns0 R s (case x of (a, b) \<Rightarrow> f a b)"
  by (cases x) simp

lemma returns0_Let: "returns0 R s (f x) \<Longrightarrow> returns0 R s (Let x f)"
  by (simp add: Let_def)

lemma returns0_first_match_Nil: "returns0 R s (rest t) \<Longrightarrow> returns0 R s (first_match [] rest t)"
  by simp

lemma returns0_first_match_Cons:
  "returns0 R s (a t) \<Longrightarrow> returns0 R s (first_match cas rest t) \<Longrightarrow>
   returns0 R s (first_match ((c, a) # cas) rest t)"
  by (cases c) (auto simp: returns0_def)

lemma returns0_rockmon: "returns0 R s (rockmon name t)"
  by (auto simp: returns0_def rockmon_def ret1_def bind_eq_Some_conv)

lemma returns0_entry_onlyI:
  "returns0 same_but_entry s m \<Longrightarrow> 0x100 \<le> fsiz s \<Longrightarrow> returns0 entry_only s m"
  by (auto simp: returns0_def entry_only_def)

lemmas returns0_intros =
  returns0_ret1 returns0_hit returns0_None returns0_rockmon returns0_bind returns0_if
  returns0_option returns0_prod returns0_Let returns0_first_match_Nil returns0_first_match_Cons
  returns0_ret0

lemmas leaf_simps = entry_only_def untouched_def same_but_entry_def default_addrs_def
  bind_eq_Some_conv
lemmas leaf_splits = if_splits option.splits prod.splits
lemmas loop_simps = all_of.simps any_of.simps find_first.simps find_first2.simps pokes.simps
  fix_entries.simps jo1_loop.simps hub1_inner.simps hub1_loop.simps Chk_ArneSndMk_loop.simps
  grg2_loop.simps grg4_loop.simps fills_at.simps scan_loop.simps upto_rec_numeral


text \<open>The loops: a pass that returns 0 has changed at most the two entry points.\<close>

lemma Chk_ArneSndMk_loop_returns0: "returns0 entry_only s (Chk_ArneSndMk_loop s ks)"
proof (induction ks)
  case Nil
  show ?case
    by (simp add: returns0_ret0 entry_only_def same_but_entry_def)
next
  case (Cons k ks)
  show ?case
    unfolding Chk_ArneSndMk_loop.simps
    by (intro returns0_intros Cons.IH; auto simp: leaf_simps simp del: loop_simps)
qed

lemma hub1_loop_found: "hub1_loop s ks 1 = Some (i, s') \<Longrightarrow> i = 1"
  by (induction ks arbitrary: s)
     (auto simp: bind_eq_Some_conv simp del: all_of.simps upto_rec_numeral split: if_splits)

lemma hub1_loop_0: "hub1_loop s ks 0 = Some (0, s') \<Longrightarrow> s' = s"
  by (induction ks)
     (auto simp: bind_eq_Some_conv simp del: all_of.simps upto_rec_numeral split: if_splits
           dest: hub1_loop_found)

text \<open>\<open>keeps_frame s0 m\<close>: whatever \<open>m\<close> returns, its state differs from \<open>s0\<close> at most
  in the entry points.\<close>

definition keeps_frame :: "p2s \<Rightarrow> (int \<times> p2s) option \<Rightarrow> bool" where
  "keeps_frame s0 m \<longleftrightarrow> (\<forall>z s'. m = Some (z, s') \<longrightarrow> same_but_entry s0 s')"

lemma keeps_frame_Some: "same_but_entry s0 (snd r) \<Longrightarrow> keeps_frame s0 (Some r)"
  by (cases r) (simp add: keeps_frame_def)

lemma keeps_frame_bind:
  "(\<And>x. m = Some x \<Longrightarrow> keeps_frame s0 (f x)) \<Longrightarrow> keeps_frame s0 (m \<bind> f)"
  by (auto simp: keeps_frame_def bind_eq_Some_conv)

lemma keeps_frame_if:
  "(c \<Longrightarrow> keeps_frame s0 a) \<Longrightarrow> (\<not> c \<Longrightarrow> keeps_frame s0 b) \<Longrightarrow>
   keeps_frame s0 (if c then a else b)"
  by simp

lemma keeps_frame_Let: "keeps_frame s0 (f x) \<Longrightarrow> keeps_frame s0 (Let x f)"
  by (simp add: Let_def)

lemmas keeps_frame_intros = keeps_frame_bind keeps_frame_if keeps_frame_Let keeps_frame_Some

lemma jo1_loop_keeps_frame: "same_but_entry s0 s \<Longrightarrow> keeps_frame s0 (jo1_loop s js k)"
proof (induction js arbitrary: s k)
  case Nil
  then show ?case by (simp add: keeps_frame_def)
next
  case (Cons i js)
  show ?case
    using Cons.prems unfolding jo1_loop.simps
    by (intro keeps_frame_intros Cons.IH; simp add: same_but_entry_def)
qed

lemma jo1_loop_frame: "jo1_loop s js k = Some (k', s') \<Longrightarrow> same_but_entry s s'"
  using jo1_loop_keeps_frame [of s s js k] by (simp add: keeps_frame_def same_but_entry_def)

lemma grg2_loop_keeps_frame: "same_but_entry s0 s \<Longrightarrow> keeps_frame s0 (grg2_loop s ks j)"
proof (induction ks arbitrary: s j)
  case Nil
  then show ?case by (simp add: keeps_frame_def)
next
  case (Cons k ks)
  show ?case
    using Cons.prems unfolding grg2_loop.simps
    by (intro keeps_frame_intros Cons.IH;
        auto simp: same_but_entry_def bind_eq_Some_conv simp del: loop_simps
             split: if_splits)
qed

lemma grg2_loop_frame: "grg2_loop s ks j = Some (j', s') \<Longrightarrow> same_but_entry s s'"
  using grg2_loop_keeps_frame [of s s ks j] by (simp add: keeps_frame_def same_but_entry_def)

lemma grg4_loop_keeps_frame: "same_but_entry s0 s \<Longrightarrow> keeps_frame s0 (grg4_loop s ks j)"
proof (induction ks arbitrary: s j)
  case Nil
  then show ?case by (simp add: keeps_frame_def)
next
  case (Cons k ks)
  show ?case
    using Cons.prems unfolding grg4_loop.simps
    by (intro keeps_frame_intros Cons.IH;
        auto simp: same_but_entry_def simp del: loop_simps split: if_splits)
qed

lemma grg4_loop_frame: "grg4_loop s ks j = Some (j', s') \<Longrightarrow> same_but_entry s s'"
  using grg4_loop_keeps_frame [of s s ks j] by (simp add: keeps_frame_def same_but_entry_def)


text \<open>The checks, one by one.\<close>

lemma Chk_FC_returns0: "returns0 entry_only s (Chk_FC s)"
  unfolding Chk_FC_def
  by (intro returns0_intros; auto simp: leaf_simps simp del: loop_simps split: leaf_splits)

lemma Chk_FCAlt_returns0: "returns0 entry_only s (Chk_FCAlt s)"
  unfolding Chk_FCAlt_def
  by (intro returns0_intros; auto simp: leaf_simps simp del: loop_simps split: leaf_splits)

lemma Chk_MusAss_returns0: "returns0 entry_only s (Chk_MusAss s)"
  unfolding Chk_MusAss_def
  by (intro returns0_intros; auto simp: leaf_simps simp del: loop_simps split: leaf_splits)

lemma Chk_MusMix_returns0: "returns0 entry_only s (Chk_MusMix s)"
  unfolding Chk_MusMix_def
  by (intro returns0_intros; auto simp: leaf_simps simp del: loop_simps split: leaf_splits)

lemma Chk_GMC_returns0: "returns0 entry_only s (Chk_GMC s)"
  unfolding Chk_GMC_def
  by (intro returns0_intros; auto simp: leaf_simps simp del: loop_simps split: leaf_splits)

lemma Chk_Bappalander_returns0: "returns0 entry_only s (Chk_Bappalander s)"
  unfolding Chk_Bappalander_def
  by (intro returns0_intros; auto simp: leaf_simps simp del: loop_simps split: leaf_splits)

lemma Chk_TrkPl3_returns0: "returns0 entry_only s (Chk_TrkPl3 s)"
  unfolding Chk_TrkPl3_def
  by (intro returns0_intros; auto simp: leaf_simps simp del: loop_simps split: leaf_splits)

lemma Chk_Groovy_returns0: "returns0 entry_only s (Chk_Groovy s)"
  unfolding Chk_Groovy_def
  by (intro returns0_intros; auto simp: leaf_simps simp del: loop_simps split: leaf_splits)

lemma Chk_Parsec_returns0: "returns0 entry_only s (Chk_Parsec s)"
  unfolding Chk_Parsec_def
  by (intro returns0_intros; auto simp: leaf_simps simp del: loop_simps split: leaf_splits)

lemma Chk_Sosperec_returns0: "returns0 entry_only s (Chk_Sosperec s)"
  unfolding Chk_Sosperec_def
  by (intro returns0_intros; auto simp: leaf_simps simp del: loop_simps split: leaf_splits)

lemma Chk_SoedeSoft_returns0: "returns0 entry_only s (Chk_SoedeSoft s)"
  unfolding Chk_SoedeSoft_def
  by (intro returns0_intros; auto simp: leaf_simps simp del: loop_simps split: leaf_splits)

lemma Chk_Prosonix1_returns0: "returns0 entry_only s (Chk_Prosonix1 s)"
  unfolding Chk_Prosonix1_def
  by (intro returns0_intros; auto simp: leaf_simps simp del: loop_simps split: leaf_splits)

lemma Chk_Heathcliff_returns0: "returns0 entry_only s (Chk_Heathcliff s)"
  unfolding Chk_Heathcliff_def
  by (intro returns0_intros; auto simp: leaf_simps simp del: loop_simps split: leaf_splits)

lemma Chk_3JMPs1_returns0: "returns0 entry_only s (Chk_3JMPs1 s)"
  unfolding Chk_3JMPs1_def
  by (intro returns0_intros; auto simp: leaf_simps simp del: loop_simps split: leaf_splits)

lemma Chk_ArneAFL_returns0: "returns0 entry_only s (Chk_ArneAFL s)"
  unfolding Chk_ArneAFL_def
  by (intro returns0_intros; auto simp: leaf_simps simp del: loop_simps split: leaf_splits)

lemma Chk_Digitalizer_returns0: "returns0 entry_only s (Chk_Digitalizer s)"
  unfolding Chk_Digitalizer_def
  by (intro returns0_intros; auto simp: leaf_simps simp del: loop_simps split: leaf_splits)

lemma Chk_Soundmon_returns0: "returns0 entry_only s (Chk_Soundmon s)"
  unfolding Chk_Soundmon_def
  by (intro returns0_intros; auto simp: leaf_simps simp del: loop_simps split: leaf_splits)

lemma Chk_AMP2_returns0: "returns0 entry_only s (Chk_AMP2 s)"
  unfolding Chk_AMP2_def
  by (intro returns0_intros; auto simp: leaf_simps simp del: loop_simps split: leaf_splits)

lemma Chk_FC3x_returns0: "returns0 entry_only s (Chk_FC3x s)"
  unfolding Chk_FC3x_def
  by (intro returns0_intros; auto simp: leaf_simps simp del: loop_simps split: leaf_splits)

lemma Chk_MoN_JTS_returns0: "returns0 entry_only s (Chk_MoN_JTS s)"
  unfolding Chk_MoN_JTS_def
  by (intro returns0_intros; auto simp: leaf_simps simp del: loop_simps split: leaf_splits)

lemma Chk_JOv2_returns0: "returns0 entry_only s (Chk_JOv2 s)"
  unfolding Chk_JOv2_def
  by (intro returns0_intros; auto simp: leaf_simps simp del: loop_simps split: leaf_splits)

lemma Chk_LaxityV2_returns0: "returns0 entry_only s (Chk_LaxityV2 s)"
  unfolding Chk_LaxityV2_def
  by (intro returns0_intros; auto simp: leaf_simps simp del: loop_simps split: leaf_splits)

lemma Chk_HubbardV3_returns0: "returns0 entry_only s (Chk_HubbardV3 s)"
  unfolding Chk_HubbardV3_def
  by (intro returns0_intros; auto simp: leaf_simps simp del: loop_simps split: leaf_splits)

lemma Chk_HubbardV2_returns0: "returns0 entry_only s (Chk_HubbardV2 s)"
  unfolding Chk_HubbardV2_def
  by (intro returns0_intros; auto simp: leaf_simps simp del: loop_simps split: leaf_splits)

lemma Chk_MikeLSD_returns0: "returns0 entry_only s (Chk_MikeLSD s)"
  unfolding Chk_MikeLSD_def
  by (intro returns0_intros; auto simp: leaf_simps simp del: loop_simps split: leaf_splits)

lemma Chk_Comptech_returns0: "returns0 entry_only s (Chk_Comptech s)"
  unfolding Chk_Comptech_def
  by (intro returns0_intros; auto simp: leaf_simps simp del: loop_simps split: leaf_splits)

lemma Chk_SoundMaker_returns0: "returns0 entry_only s (Chk_SoundMaker s)"
  unfolding Chk_SoundMaker_def
  by (intro returns0_intros; auto simp: leaf_simps simp del: loop_simps split: leaf_splits)

lemma Chk_Electrosound_returns0: "returns0 entry_only s (Chk_Electrosound s)"
  unfolding Chk_Electrosound_def
  by (intro returns0_intros; auto simp: leaf_simps simp del: loop_simps split: leaf_splits)

lemma Chk_PollyTracker_returns0: "returns0 entry_only s (Chk_PollyTracker s)"
  unfolding Chk_PollyTracker_def
  by (intro returns0_intros; auto simp: leaf_simps simp del: loop_simps split: leaf_splits)

lemma Chk_MasterComp_returns0: "returns0 entry_only s (Chk_MasterComp s)"
  unfolding Chk_MasterComp_def
  by (intro returns0_intros; auto simp: leaf_simps simp del: loop_simps split: leaf_splits)

lemma Chk_Ubik_returns0: "returns0 entry_only s (Chk_Ubik s)"
  unfolding Chk_Ubik_def
  by (intro returns0_intros; auto simp: leaf_simps simp del: loop_simps split: leaf_splits)

lemma Chk_AMP1_returns0: "returns0 entry_only s (Chk_AMP1 s)"
  unfolding Chk_AMP1_def
  by (intro returns0_intros; auto simp: leaf_simps simp del: loop_simps split: leaf_splits)

lemma Chk_Boogaloo_returns0: "returns0 entry_only s (Chk_Boogaloo s)"
  unfolding Chk_Boogaloo_def
  by (intro returns0_intros; auto simp: leaf_simps simp del: loop_simps split: leaf_splits)

lemma Chk_Bjerregaard1_returns0: "returns0 entry_only s (Chk_Bjerregaard1 s)"
  unfolding Chk_Bjerregaard1_def
  by (intro returns0_intros; auto simp: leaf_simps simp del: loop_simps split: leaf_splits)

lemma Chk_Bjerregaard2_returns0: "returns0 entry_only s (Chk_Bjerregaard2 s)"
  unfolding Chk_Bjerregaard2_def
  by (intro returns0_intros; auto simp: leaf_simps simp del: loop_simps split: leaf_splits)

lemma Chk_ReflexTrk_returns0: "returns0 entry_only s (Chk_ReflexTrk s)"
  unfolding Chk_ReflexTrk_def
  by (intro returns0_intros; auto simp: leaf_simps simp del: loop_simps split: leaf_splits)

lemma Chk_FAME_returns0: "returns0 entry_only s (Chk_FAME s)"
  unfolding Chk_FAME_def
  by (intro returns0_intros; auto simp: leaf_simps simp del: loop_simps split: leaf_splits)

lemma Chk_CTExe_returns0: "returns0 entry_only s (Chk_CTExe s)"
  unfolding Chk_CTExe_def
  by (intro returns0_intros; auto simp: leaf_simps simp del: loop_simps split: leaf_splits)

lemma Chk_System6581_returns0: "returns0 entry_only s (Chk_System6581 s)"
  unfolding Chk_System6581_def
  by (intro returns0_intros; auto simp: leaf_simps simp del: loop_simps split: leaf_splits)

lemma Chk_MattGray_returns0: "returns0 entry_only s (Chk_MattGray s)"
  unfolding Chk_MattGray_def
  by (intro returns0_intros; auto simp: leaf_simps simp del: loop_simps split: leaf_splits)

lemma Chk_PowerMus_returns0: "returns0 entry_only s (Chk_PowerMus s)"
  unfolding Chk_PowerMus_def
  by (intro returns0_intros; auto simp: leaf_simps simp del: loop_simps split: leaf_splits)

lemma Chk_4JMPS_DMC_returns0: "returns0 entry_only s (Chk_4JMPS_DMC s)"
  unfolding Chk_4JMPS_DMC_def
  by (intro returns0_intros ; auto simp: leaf_simps simp del: loop_simps split: leaf_splits )

lemma Chk_4JMPS_returns0: "returns0 entry_only s (Chk_4JMPS s)"
  unfolding Chk_4JMPS_def
  by (intro returns0_intros Chk_4JMPS_DMC_returns0; auto simp: leaf_simps simp del: loop_simps split: leaf_splits )

lemma Chk_ArneSndMk_returns0: "returns0 entry_only s (Chk_ArneSndMk s)"
  unfolding Chk_ArneSndMk_def
  by (intro returns0_intros Chk_ArneSndMk_loop_returns0; auto simp: leaf_simps)

lemma Chk_3JMPs2_JO_returns0: "returns0 same_but_entry s (Chk_3JMPs2_JO s)"
  unfolding Chk_3JMPs2_JO_def
  by (intro returns0_intros; auto simp: leaf_simps simp del: loop_simps split: leaf_splits dest: jo1_loop_frame)

lemma Chk_3JMPs2_via3_returns0: "returns0 same_but_entry s (Chk_3JMPs2_via3 s)"
  unfolding Chk_3JMPs2_via3_def
  by (intro returns0_intros Chk_3JMPs2_JO_returns0; auto simp: leaf_simps simp del: loop_simps split: leaf_splits )

lemma Chk_3JMPs2_via9_returns0: "returns0 same_but_entry s (Chk_3JMPs2_via9 s)"
  unfolding Chk_3JMPs2_via9_def
  by (intro returns0_intros Chk_3JMPs2_via3_returns0; auto simp: leaf_simps simp del: loop_simps split: leaf_splits )

lemma Chk_3JMPs2_returns0: "returns0 entry_only s (Chk_3JMPs2 s)"
  unfolding Chk_3JMPs2_def
  by (intro returns0_intros returns0_entry_onlyI [OF Chk_3JMPs2_via9_returns0]; auto simp: leaf_simps simp del: loop_simps split: leaf_splits )

lemma Chk_2JMPs_fixed_returns0: "returns0 entry_only s (Chk_2JMPs_fixed s)"
  unfolding Chk_2JMPs_fixed_def
  by (intro returns0_intros ; auto simp: leaf_simps simp del: loop_simps split: leaf_splits )

lemma Chk_2JMPs_via3_returns0: "returns0 entry_only s (Chk_2JMPs_via3 s)"
  unfolding Chk_2JMPs_via3_def
  by (intro returns0_intros Chk_2JMPs_fixed_returns0; auto simp: leaf_simps simp del: loop_simps split: leaf_splits )

lemma Chk_2JMPs_returns0: "returns0 entry_only s (Chk_2JMPs s)"
  unfolding Chk_2JMPs_def
  by (intro returns0_intros Chk_2JMPs_via3_returns0; auto simp: leaf_simps simp del: loop_simps split: leaf_splits )

lemma hubbard45_returns0: "returns0 entry_only s (hubbard45 sig playc initc name s)"
  unfolding hubbard45_def
  by (intro returns0_intros; auto simp: leaf_simps simp del: loop_simps split: leaf_splits)

lemma Chk_HubbardV4_returns0: "returns0 entry_only s (Chk_HubbardV4 s)"
  unfolding Chk_HubbardV4_def by (rule hubbard45_returns0)

lemma Chk_HubbardV5_returns0: "returns0 entry_only s (Chk_HubbardV5 s)"
  unfolding Chk_HubbardV5_def by (rule hubbard45_returns0)

lemma Chk_HubbardV1_returns0: "returns0 entry_only s (Chk_HubbardV1 s)"
  unfolding Chk_HubbardV1_def
  by (auto simp: returns0_def ret0_def leaf_simps simp del: loop_simps dest: hub1_loop_0)

lemma Chk_20CC_v2_returns0: "returns0 entry_only s (Chk_20CC_v2 s)"
  unfolding Chk_20CC_v2_def
  by (intro returns0_intros ; auto simp: leaf_simps simp del: loop_simps split: leaf_splits )

lemma Chk_20CC_returns0: "returns0 entry_only s (Chk_20CC s)"
  unfolding Chk_20CC_def
  by (intro returns0_intros Chk_20CC_v2_returns0; auto simp: leaf_simps simp del: loop_simps split: leaf_splits )

definition resets :: "p2s \<Rightarrow> p2s \<Rightarrow> bool" where
  "resets s s' \<longleftrightarrow>
     same_but_entry s s' \<and>
     (if fsiz s < 0x100 then s' = s
      else initaddr s' = loadaddr s \<and> playaddr s' = loadaddr s + 3)"

lemma Chk_GRGTiny2_returns0: "returns0 resets s (Chk_GRGTiny2 s)"
  unfolding Chk_GRGTiny2_def
  by (intro returns0_intros;
      auto simp: resets_def leaf_simps simp del: loop_simps split: leaf_splits
           dest: grg2_loop_frame)

lemma Chk_GRGTiny4_returns0: "returns0 resets s (Chk_GRGTiny4 s)"
  unfolding Chk_GRGTiny4_def
  by (intro returns0_intros;
      auto simp: resets_def leaf_simps simp del: loop_simps split: leaf_splits
           dest: grg4_loop_frame)

lemma Chk_Yip_returns0: "returns0 untouched s (Chk_Yip s)"
  unfolding Chk_Yip_def
  by (intro returns0_intros ; auto simp: leaf_simps simp del: loop_simps split: leaf_splits )

lemma Chk_TFX1_returns0: "returns0 untouched s (Chk_TFX1 s)"
  unfolding Chk_TFX1_def
  by (intro returns0_intros ; auto simp: leaf_simps simp del: loop_simps split: leaf_splits )

lemma Chk_Griff1_returns0: "returns0 untouched s (Chk_Griff1 s)"
  unfolding Chk_Griff1_def
  by (intro returns0_intros ; auto simp: leaf_simps simp del: loop_simps split: leaf_splits )

lemma Chk_Griff2_returns0: "returns0 untouched s (Chk_Griff2 s)"
  unfolding Chk_Griff2_def
  by (intro returns0_intros ; auto simp: leaf_simps simp del: loop_simps split: leaf_splits )

lemma Chk_Ariston_returns0: "returns0 untouched s (Chk_Ariston s)"
  unfolding Chk_Ariston_def
  by (intro returns0_intros ; auto simp: leaf_simps simp del: loop_simps split: leaf_splits )

lemma Chk_Winterberg_returns0: "returns0 untouched s (Chk_Winterberg s)"
  unfolding Chk_Winterberg_def
  by (intro returns0_intros ; auto simp: leaf_simps simp del: loop_simps split: leaf_splits )

lemma Chk_Jensen_returns0: "returns0 untouched s (Chk_Jensen s)"
  unfolding Chk_Jensen_def
  by (intro returns0_intros ; auto simp: leaf_simps simp del: loop_simps split: leaf_splits )

lemma Chk_MegaVision_returns0: "returns0 untouched s (Chk_MegaVision s)"
  unfolding Chk_MegaVision_def
  by (intro returns0_intros ; auto simp: leaf_simps simp del: loop_simps split: leaf_splits )

lemma Chk_SkylineTech_Danne_returns0: "returns0 untouched s (Chk_SkylineTech_Danne s)"
  unfolding Chk_SkylineTech_Danne_def
  by (intro returns0_intros ; auto simp: leaf_simps simp del: loop_simps split: leaf_splits )

lemma Chk_Deflemask_returns0: "returns0 untouched s (Chk_Deflemask s)"
  unfolding Chk_Deflemask_def
  by (intro returns0_intros ; auto simp: leaf_simps simp del: loop_simps split: leaf_splits )

lemma Chk_Polyanna_returns0: "returns0 untouched s (Chk_Polyanna s)"
  unfolding Chk_Polyanna_def
  by (intro returns0_intros ; auto simp: leaf_simps simp del: loop_simps split: leaf_splits )

lemma Chk_SidFactory_returns0: "returns0 untouched s (Chk_SidFactory s)"
  unfolding Chk_SidFactory_def
  by (intro returns0_intros ; auto simp: leaf_simps simp del: loop_simps split: leaf_splits )

lemma Chk_Mssiah_returns0: "returns0 untouched s (Chk_Mssiah s)"
  unfolding Chk_Mssiah_def
  by (intro returns0_intros ; auto simp: leaf_simps simp del: loop_simps split: leaf_splits )

lemma Chk_FlexSid_returns0: "returns0 untouched s (Chk_FlexSid s)"
  unfolding Chk_FlexSid_def
  by (intro returns0_intros ; auto simp: leaf_simps simp del: loop_simps split: leaf_splits )

lemma Chk_Whittaker_returns0: "returns0 untouched s (Chk_Whittaker s)"
  unfolding Chk_Whittaker_def
  by (intro returns0_intros ; auto simp: leaf_simps simp del: loop_simps split: leaf_splits )

lemma Chk_QuantumSndTrk_returns0: "returns0 untouched s (Chk_QuantumSndTrk s)"
  unfolding Chk_QuantumSndTrk_def
  by (intro returns0_intros ; auto simp: leaf_simps simp del: loop_simps split: leaf_splits )

lemma Chk_GoatMultispeed_returns0: "returns0 untouched s (Chk_GoatMultispeed fmt s)"
  unfolding Chk_GoatMultispeed_def
  by (intro returns0_intros; auto simp: leaf_simps simp del: loop_simps split: leaf_splits)

lemma Chk_StarBars_11_12_returns0: "returns0 R s (Chk_StarBars_11_12 t)"
  unfolding Chk_StarBars_11_12_def
  by (intro returns0_intros)

lemma Chk_StarBars_13b_returns0: "returns0 R s (Chk_StarBars_13b t)"
  unfolding Chk_StarBars_13b_def
  by (intro returns0_intros)

lemma Chk_StarBars_13_returns0: "returns0 R s (Chk_StarBars_13 t)"
  unfolding Chk_StarBars_13_def
  by (intro returns0_intros)

lemma Chk_StarBars_14b_returns0: "returns0 R s (Chk_StarBars_14b t)"
  unfolding Chk_StarBars_14b_def
  by (intro returns0_intros)

lemma Chk_StarBars_14_returns0: "returns0 R s (Chk_StarBars_14 t)"
  unfolding Chk_StarBars_14_def
  by (intro returns0_intros)

lemma Chk_StarBars_returns0: "returns0 untouched s (Chk_StarBars s)"
  unfolding Chk_StarBars_def
  by (intro returns0_intros Chk_StarBars_11_12_returns0 Chk_StarBars_13b_returns0 Chk_StarBars_13_returns0 Chk_StarBars_14b_returns0 Chk_StarBars_14_returns0; auto simp: leaf_simps simp del: loop_simps split: leaf_splits )


section \<open>Core A: a scan in which no check matches\<close>

lemma entry_only_refl: "entry_only s s"
  by (simp add: entry_only_def same_but_entry_def)

lemma entry_only_trans: "entry_only a b \<Longrightarrow> entry_only b c \<Longrightarrow> entry_only a c"
  by (auto simp: entry_only_def same_but_entry_def)

lemma scan_loop_returns0:
  assumes fs: "\<And>f s. f \<in> set fs \<Longrightarrow> returns0 R s (f s)"
    and refl: "\<And>s. R s s"
    and trans: "\<And>a b c. R a b \<Longrightarrow> R b c \<Longrightarrow> R a c"
  shows "scan_loop fs 0 s = Some (0, s') \<Longrightarrow> R s s'"
  using fs
proof (induction fs arbitrary: s)
  case Nil
  then show ?case by (simp add: refl)
next
  case (Cons f fs)
  from Cons.prems(1) obtain s1 where f: "f s = Some (0, s1)"
    and rest: "scan_loop fs 0 s1 = Some (0, s')"
    by (auto simp: bind_eq_Some_conv split: if_splits)
  have "returns0 R s (f s)"
    by (rule Cons.prems(2)) simp
  with f have "R s s1"
    by (simp add: returns0_def)
  moreover have "R s1 s'"
    by (rule Cons.IH [OF rest]) (rule Cons.prems(2), simp)
  ultimately show ?case
    by (rule trans)
qed

lemma scan_loop_append:
  "scan_loop (xs @ ys) 0 s = Some (0, s') \<Longrightarrow>
   \<exists>sm. scan_loop xs 0 s = Some (0, sm) \<and> scan_loop ys 0 sm = Some (0, s')"
  by (induction xs arbitrary: s) (auto simp: bind_eq_Some_conv split: if_splits)

lemma ScanFunc_split:
  "ScanFunc fmt =
     take 49 (ScanFunc fmt) @ [Chk_GRGTiny2, Chk_GRGTiny4] @ drop 51 (ScanFunc fmt)"
  by (simp add: ScanFunc_def)

lemma checks_before_GRG:
  "list_all (\<lambda>f. \<forall>s. returns0 entry_only s (f s)) (take 49 (ScanFunc fmt))"
  by (simp add: ScanFunc_def
      Chk_FC_returns0 Chk_FCAlt_returns0 Chk_MusAss_returns0 Chk_MusMix_returns0
      Chk_GMC_returns0 Chk_Bappalander_returns0 Chk_TrkPl3_returns0 Chk_Groovy_returns0
      Chk_Parsec_returns0 Chk_Sosperec_returns0 Chk_SoedeSoft_returns0 Chk_Prosonix1_returns0
      Chk_4JMPS_returns0 Chk_Heathcliff_returns0 Chk_3JMPs1_returns0 Chk_ArneAFL_returns0
      Chk_ArneSndMk_returns0 Chk_Digitalizer_returns0 Chk_Soundmon_returns0 Chk_AMP2_returns0
      Chk_FC3x_returns0 Chk_MoN_JTS_returns0 Chk_3JMPs2_returns0 Chk_JOv2_returns0
      Chk_2JMPs_returns0 Chk_LaxityV2_returns0 Chk_HubbardV5_returns0 Chk_HubbardV4_returns0
      Chk_HubbardV3_returns0 Chk_HubbardV2_returns0 Chk_HubbardV1_returns0 Chk_MikeLSD_returns0
      Chk_Comptech_returns0 Chk_SoundMaker_returns0 Chk_Electrosound_returns0
      Chk_PollyTracker_returns0 Chk_MasterComp_returns0 Chk_Ubik_returns0 Chk_AMP1_returns0
      Chk_Boogaloo_returns0 Chk_Bjerregaard1_returns0 Chk_Bjerregaard2_returns0
      Chk_ReflexTrk_returns0 Chk_FAME_returns0 Chk_20CC_returns0 Chk_CTExe_returns0
      Chk_System6581_returns0 Chk_MattGray_returns0 Chk_PowerMus_returns0)

lemma checks_after_GRG:
  "list_all (\<lambda>f. \<forall>s. returns0 untouched s (f s)) (drop 51 (ScanFunc fmt))"
  by (simp add: ScanFunc_def
      Chk_Yip_returns0 Chk_TFX1_returns0 Chk_Griff1_returns0 Chk_Griff2_returns0
      Chk_Ariston_returns0 Chk_Winterberg_returns0 Chk_Jensen_returns0 Chk_MegaVision_returns0
      Chk_SkylineTech_Danne_returns0 Chk_Deflemask_returns0 Chk_Polyanna_returns0
      Chk_SidFactory_returns0 Chk_Mssiah_returns0 Chk_GoatMultispeed_returns0
      Chk_FlexSid_returns0 Chk_StarBars_returns0 Chk_Whittaker_returns0
      Chk_QuantumSndTrk_returns0)

text \<open>
  When every check returns 0, the state in which \<open>main\<close> called \<open>Scanners\<close> comes back
  unchanged: \<open>Chk_AMP1\<close> and \<open>Chk_FAME\<close> can leave other entry points behind, and
  \<open>Chk_GRGTiny2\<close> and \<open>Chk_GRGTiny4\<close>, which run after them, restore the defaults.
\<close>

lemma Scanners_no_match:
  assumes scan: "Scanners fmt s = Some (0, s')"
    and init: "initaddr s = loadaddr s"
    and play: "playaddr s = loadaddr s + 3"
  shows "s' = s"
proof -
  have "Scanners fmt s =
          scan_loop (take 49 (ScanFunc fmt) @ [Chk_GRGTiny2, Chk_GRGTiny4] @
                       drop 51 (ScanFunc fmt)) 0 s"
    unfolding Scanners_def
    by (rule arg_cong [where f = "\<lambda>fs. scan_loop fs 0 s", OF ScanFunc_split])
  with scan have all: "scan_loop (take 49 (ScanFunc fmt) @ [Chk_GRGTiny2, Chk_GRGTiny4] @
                         drop 51 (ScanFunc fmt)) 0 s = Some (0, s')"
    by simp
  from scan_loop_append [OF all] obtain s1 where
    pre: "scan_loop (take 49 (ScanFunc fmt)) 0 s = Some (0, s1)"
    and rest1: "scan_loop ([Chk_GRGTiny2, Chk_GRGTiny4] @ drop 51 (ScanFunc fmt)) 0 s1 =
                  Some (0, s')"
    by blast
  from scan_loop_append [OF rest1] obtain s3 where
    grg: "scan_loop [Chk_GRGTiny2, Chk_GRGTiny4] 0 s1 = Some (0, s3)"
    and post: "scan_loop (drop 51 (ScanFunc fmt)) 0 s3 = Some (0, s')"
    by blast
  from grg obtain s2 where g2: "Chk_GRGTiny2 s1 = Some (0, s2)"
    and g4: "Chk_GRGTiny4 s2 = Some (0, s3)"
    by (auto simp: bind_eq_Some_conv split: if_splits)
  have e1: "entry_only s s1"
  proof (rule scan_loop_returns0 [where R = entry_only, OF _ _ _ pre])
    show "returns0 entry_only t (f t)" if "f \<in> set (take 49 (ScanFunc fmt))" for f t
      using checks_before_GRG [of fmt] that by (simp add: list_all_iff)
  qed (rule entry_only_refl, rule entry_only_trans)
  have r2: "resets s1 s2"
    using Chk_GRGTiny2_returns0 [of s1] g2 by (simp add: returns0_def)
  have r3: "resets s2 s3"
    using Chk_GRGTiny4_returns0 [of s2] g4 by (simp add: returns0_def)
  have "untouched s3 s'"
  proof (rule scan_loop_returns0 [where R = untouched, OF _ _ _ post])
    show "returns0 untouched t (f t)" if "f \<in> set (drop 51 (ScanFunc fmt))" for f t
      using checks_after_GRG [of fmt] that by (simp add: list_all_iff)
  qed (simp_all add: untouched_def)
  then have "s' = s3"
    by (simp add: untouched_def)
  moreover have "s3 = s"
  proof (cases "fsiz s < 0x100")
    case True
    with e1 r2 r3 show ?thesis
      by (auto simp: entry_only_def resets_def)
  next
    case False
    with e1 r2 r3 init play show ?thesis
      by (intro p2s.equality) (auto simp: entry_only_def resets_def same_but_entry_def)
  qed
  ultimately show ?thesis
    by simp
qed


section \<open>Core A: inputs used below\<close>

text \<open>
  \<open>scan_state file L\<close> is the state in which \<open>main\<close> calls \<open>Scanners\<close> for a file
  with the load address \<open>L\<close> and no further arguments. \<open>prg_S1\<close> is the file of the
  specification's scenario S1. \<open>prg_two\<close> carries the signatures of
  \<open>Chk_FCAlt\<close> and of \<open>Chk_Parsec\<close>. \<open>prg_groovy\<close> starts with a JMP to 0x2000 and
  the four bytes \<open>Chk_Groovy\<close> looks for. \<open>prg_jo\<close> has the load address 3 and three
  JMPs, to a play routine, an init routine and elsewhere, as \<open>Chk_3JMPs2\<close> looks for
  them (JO v1). \<open>prg_top\<close> is 64 zero bytes loaded at 0xFFFD.
\<close>

definition scan_state :: "8 word list \<Rightarrow> int \<Rightarrow> p2s" where
  "scan_state file L = (initial file)\<lparr>loadaddr := L, initaddr := L, playaddr := L + 3\<rparr>"

definition prg_S1 :: "8 word list" where
  "prg_S1 = [0x00, 0x10] @ replicate 64 0"


definition prg_groovy :: "8 word list" where
  "prg_groovy = [0x00, 0x10, 0x4c, 0x00, 0x20, 0xA2, 0x00, 0x8A, 0x9D] @ replicate 0x1F7 0"


definition prg_top :: "8 word list" where
  "prg_top = [0xFD, 0xFF] @ replicate 64 0"

section \<open>Core A: the scanner stops at the first match\<close>




section \<open>Core A: a check that reads outside the file\<close>

text \<open>
  Claim C7 does not hold for \<open>Chk_Groovy\<close>. For \<open>prg_groovy\<close>, a file of 0x200 bytes
  loaded at 0x1000, the seven checks before \<open>Chk_Groovy\<close> return 0 and leave the state
  as it was. \<open>Chk_Groovy\<close> finds its JMP and its four bytes, computes the offset
  \<open>k = 0x2000 - 0x1000 + 2 = 0x1002\<close> from the target of the JMP and reads
  \<open>*(unsigned int*)(p + k)\<close> without a call of \<open>CheckJ\<close>, which would have refused
  this offset: the read is outside the buffer.
\<close>

theorem Chk_Groovy_reads_outside:
  "scan_input no_args prg_groovy = Some (scan_state prg_groovy 0x1000) \<and>
   fsiz (scan_state prg_groovy 0x1000) = 0x200 \<and>
   scan_loop (take 7 (ScanFunc fmt)) 0 (scan_state prg_groovy 0x1000) =
     Some (0, scan_state prg_groovy 0x1000) \<and>
   CheckJ 0x1002 (fsiz (scan_state prg_groovy 0x1000)) \<and>
   rd32 (scan_state prg_groovy 0x1000) 0x1002 = None \<and>
   Chk_Groovy (scan_state prg_groovy 0x1000) = None \<and>
   Scanners fmt (scan_state prg_groovy 0x1000) = None"
  by code_simp


section \<open>Core A: the last write of main\<close>

lemma write_len_header:
  "write_len (set_psidh n v s) = write_len s"
  by (simp add: write_len_def new_loadaddr_def set_psidh_def rd8_def in_buf_def)

lemma write_len_value:
  assumes "new_loadaddr s = Some la"
  shows "write_len s =
     Some (if fsiz s + la + extra s - 2 > 0x10000
           then fsiz s - (fsiz s + la + extra s - 2 - 0x10000) else fsiz s)"
  using assms by (auto simp: write_len_def)




section \<open>Core A: the conversion when no check matches\<close>

lemma rd8_range: "rd8 s x = Some v \<Longrightarrow> 0 \<le> v \<and> v < 0x100"
  using uint_lt2p [of "buf s ! nat (p_off s + x)"]
  by (auto simp: rd8_def split: if_splits)

lemma pokes_frame:
  "pokes s x vs = Some s' \<Longrightarrow>
   p_off s' = p_off s \<and> fsiz s' = fsiz s \<and> initaddr s' = initaddr s \<and>
   playaddr s' = playaddr s \<and> loadaddr s' = loadaddr s \<and> extra s' = extra s \<and>
   extrabytes s' = extrabytes s \<and> psidh s' = psidh s \<and> ids s' = ids s"
  by (induction vs arbitrary: s x)
     (auto simp: bind_eq_Some_conv put_def split: if_splits)

lemma header_text_frame:
  "p_off (header_text n t s) = p_off s \<and> fsiz (header_text n t s) = fsiz s \<and>
   loadaddr (header_text n t s) = loadaddr s \<and> extra (header_text n t s) = extra s \<and>
   ids (header_text n t s) = ids s \<and> buf (header_text n t s) = buf s \<and>
   (n + 32 \<le> length (psidh s) \<longrightarrow> length (psidh (header_text n t s)) = length (psidh s))"
  by (auto simp: header_text_def split: option.splits)

lemma header_count_frame:
  "p_off (header_count n c s) = p_off s \<and> fsiz (header_count n c s) = fsiz s \<and>
   loadaddr (header_count n c s) = loadaddr s \<and> extra (header_count n c s) = extra s \<and>
   ids (header_count n c s) = ids s \<and> buf (header_count n c s) = buf s \<and>
   length (psidh (header_count n c s)) = length (psidh s)"
  by (auto simp: header_count_def set_psidh_def split: option.splits)

lemma header_args_frame:
  assumes "length (psidh s) = 0x7c"
  shows "p_off (header_args a s) = p_off s \<and> fsiz (header_args a s) = fsiz s \<and>
   loadaddr (header_args a s) = loadaddr s \<and> extra (header_args a s) = extra s \<and>
   ids (header_args a s) = ids s \<and> buf (header_args a s) = buf s \<and>
   length (psidh (header_args a s)) = 0x7c"
  using assms
  by (simp add: header_args_def Let_def header_text_frame header_count_frame set_psidh_def
      P_NAME_def P_AUTHOR_def P_RELEASED_def)

lemma scan_input_facts:
  assumes "scan_input args file = Some s"
  shows "initaddr s = loadaddr s" and "playaddr s = loadaddr s + 3" and "extra s = 0"
    and "ids s = ''Generic''" and "0 \<le> fsiz s" and "0 \<le> loadaddr s"
    and "length (psidh s) = 0x7c"
proof -
  let ?s0 = "initial file"
  from assms obtain lo hi s1 where
    lo: "rd8 ?s0 0 = Some lo" and hi: "rd8 ?s0 1 = Some hi"
    and cut0: "cut_at (arg_load args) (?s0\<lparr>loadaddr := lo OR push_bit 8 hi\<rparr>) = Some s1"
    and s: "s = (header_args args s1)\<lparr>initaddr := loadaddr (header_args args s1),
                                       playaddr := loadaddr (header_args args s1) + 3\<rparr>"
    by (auto simp: scan_input_def Let_def bind_eq_Some_conv)
  define L where "L = lo OR push_bit 8 hi"
  have la0: "0 \<le> L"
    unfolding L_def using rd8_range [OF lo] rd8_range [OF hi] by simp
  from cut0 have cut: "cut_at (arg_load args) (?s0\<lparr>loadaddr := L\<rparr>) = Some s1"
    by (simp add: L_def)
  have s1: "extra s1 = 0 \<and> ids s1 = ''Generic'' \<and> 0 \<le> fsiz s1 \<and> 0 \<le> loadaddr s1 \<and>
            length (psidh s1) = 0x7c"
  proof (cases "arg_load args")
    case None
    with cut la0 show ?thesis
      by (auto simp: cut_at_def initial_def psidh_init_def)
  next
    case (Some j)
    show ?thesis
    proof (cases "j > L \<and> j < L + int (length file) - 2")
      case True
      with cut Some have
        "pokes (?s0\<lparr>loadaddr := L, p_off := p_off ?s0 + (j - L),
                    fsiz := fsiz ?s0 - (j - L), loadaddr := j\<rparr>) 0
           [j AND 0xff, drop_bit 8 j] = Some s1"
        by (simp add: cut_at_def Let_def initial_def)
      from pokes_frame [OF this] True la0 show ?thesis
        by (simp add: initial_def psidh_init_def)
    next
      case False
      with cut Some la0 show ?thesis
        by (auto simp: cut_at_def initial_def psidh_init_def)
    qed
  qed
  then have len: "length (psidh s1) = 0x7c" by simp
  from header_args_frame [OF len, of args] s1 s
  show "initaddr s = loadaddr s" and "playaddr s = loadaddr s + 3" and "extra s = 0"
    and "ids s = ''Generic''" and "0 \<le> fsiz s" and "0 \<le> loadaddr s"
    and "length (psidh s) = 0x7c"
    by simp_all
qed

lemma be16:
  "uint (word_of_int (drop_bit 8 v) :: 8 word) * 0x100 + uint (word_of_int (v AND 0xff) :: 8 word)
     = v mod 0x10000"
proof -
  have m: "(0xff :: int) = mask 8"
    by (simp add: mask_eq_exp_minus_1)
  have a: "uint (word_of_int (drop_bit 8 v) :: 8 word) = v div 0x100 mod 0x100"
    by (simp add: uint_word_of_int drop_bit_eq_div)
  have "v AND mask 8 = v mod 0x100"
    by (simp add: take_bit_eq_mask [symmetric] take_bit_eq_mod)
  then have b: "uint (word_of_int (v AND 0xff) :: 8 word) = v mod 0x100"
    unfolding m by (simp add: uint_word_of_int)
  have "v mod (0x100 * 0x100) = 0x100 * (v div 0x100 mod 0x100) + v mod 0x100"
    by (rule zmod_zmult2_eq) simp
  then show ?thesis
    unfolding a b by simp
qed

text \<open>
  Claim C5, wherever \<open>L + 3\<close> fits the 16-bit header field. \<open>L\<close> is the load address
  of the state \<open>s\<close> in which \<open>main\<close> calls \<open>Scanners\<close>. When \<open>Scanners\<close> returns 0
  there (no check matches), \<open>main\<close> ends with a conversion: the identity shown is
  \<open>Generic\<close>, the init and play addresses shown are \<open>L\<close> and \<open>L + 3\<close>, the header of
  124 bytes holds \<open>L\<close> in its init field and \<open>(L + 3) mod 0x10000\<close> in its play field
  (\<open>L + 3\<close> itself up to \<open>L = 0xFFFC\<close>), no prepend is written, and the payload
  written is the payload the checks saw, byte for byte: all \<open>fsiz\<close> bytes, or the first
  \<open>0x10002 - L\<close> of them when the truncation of \<open>main\<close> applies.
\<close>

theorem no_match_is_Generic:
  assumes "already_sid (initial file) = Some False"
    and "scan_input args file = Some s"
    and "Scanners fmt s = Some (0, s')"
    and "loadaddr s \<le> 0xFFFF"
  shows "\<exists>r. p2s_main fmt args file = Some (Converted r) \<and>
     shown_ids r = ''Generic'' \<and> shown_init r = loadaddr s \<and> shown_play r = loadaddr s + 3 \<and>
     length (sid_header r) = 0x7c \<and>
     field16 (sid_header r) P_INITADDR = loadaddr s \<and>
     field16 (sid_header r) P_PLAYADDR = (loadaddr s + 3) mod 0x10000 \<and>
     (loadaddr s \<le> 0xFFFC \<longrightarrow> field16 (sid_header r) P_PLAYADDR = loadaddr s + 3) \<and>
     sid_prepend r = [] \<and>
     sid_payload r =
       take (nat (min (fsiz s) (0x10002 - loadaddr s))) (drop (nat (p_off s)) (buf s))"
proof -
  note f = scan_input_facts [OF assms(2)]
  have same: "s' = s"
    by (rule Scanners_no_match [OF assms(3) f(1) f(2)])
  let ?L = "loadaddr s"
  let ?h = "(psidh s)[P_INITADDR + 0 := word_of_int (drop_bit 8 ?L),
                      P_INITADDR + 1 := word_of_int (?L AND 0xff),
                      P_PLAYADDR + 0 := word_of_int (drop_bit 8 (?L + 3)),
                      P_PLAYADDR + 1 := word_of_int ((?L + 3) AND 0xff)]"
  let ?n = "if fsiz s + ?L + extra s - 2 > 0x10000
            then fsiz s - (fsiz s + ?L + extra s - 2 - 0x10000) else fsiz s"
  have la: "new_loadaddr s = Some ?L"
    using f(3) by (simp add: new_loadaddr_def)
  have n: "?n = min (fsiz s) (0x10002 - ?L)"
    using f(3) by auto
  have n0: "0 \<le> ?n"
    using f(3,5) assms(4) by auto
  have w: "write_out s =
     Some \<lparr>shown_ids = ''Generic'', shown_init = ?L, shown_play = ?L + 3, sid_header = ?h,
           sid_prepend = [], sid_payload = take (nat ?n) (drop (nat (p_off s)) (buf s))\<rparr>"
    using n0 write_len_value [OF la] f(1,2,3,4)
    by (simp add: write_out_def Let_def write_len_header) (simp add: set_psidh_def)
  have main: "p2s_main fmt args file =
     Some (Converted \<lparr>shown_ids = ''Generic'', shown_init = ?L, shown_play = ?L + 3,
           sid_header = ?h, sid_prepend = [],
           sid_payload = take (nat ?n) (drop (nat (p_off s)) (buf s))\<rparr>)"
    using assms(1,2,3) w by (simp add: p2s_main_def same)
  have fi: "field16 ?h P_INITADDR = ?L mod 0x10000"
    using f(7) be16 [of ?L]
    by (simp add: field16_def P_INITADDR_def P_PLAYADDR_def)
  have fp: "field16 ?h P_PLAYADDR = (?L + 3) mod 0x10000"
    using f(7) be16 [of "?L + 3"]
    by (simp add: field16_def P_INITADDR_def P_PLAYADDR_def)
  have li: "?L mod 0x10000 = ?L"
    using f(6) assms(4) by simp
  have lp: "?L \<le> 0xFFFC \<longrightarrow> (?L + 3) mod 0x10000 = ?L + 3"
    using f(6) by simp
  show ?thesis
    using main fi fp li lp f(7) n by simp
qed

theorem no_match_is_Generic_witness:
  "\<exists>r. p2s_main (\<lambda>_. []) no_args prg_S1 = Some (Converted r) \<and>
     shown_ids r = ''Generic'' \<and> shown_init r = 0x1000 \<and> shown_play r = 0x1003 \<and>
     field16 (sid_header r) P_INITADDR = 0x1000 \<and> field16 (sid_header r) P_PLAYADDR = 0x1003 \<and>
     sid_prepend r = [] \<and> sid_payload r = prg_S1 \<and> length (sid_file r) = 124 + 66"
proof -
  have h1: "already_sid (initial prg_S1) = Some False"
    by code_simp
  have h2: "scan_input no_args prg_S1 = Some (scan_state prg_S1 0x1000)"
    by code_simp
  have h3: "Scanners (\<lambda>_. []) (scan_state prg_S1 0x1000) = Some (0, scan_state prg_S1 0x1000)"
    by code_simp
  have h4: "loadaddr (scan_state prg_S1 0x1000) \<le> 0xFFFF"
    by (simp add: scan_state_def)
  have st: "loadaddr (scan_state prg_S1 0x1000) = 0x1000" "fsiz (scan_state prg_S1 0x1000) = 66"
    "p_off (scan_state prg_S1 0x1000) = 0" "buf (scan_state prg_S1 0x1000) = prg_S1"
    "length prg_S1 = 66"
    by (simp_all add: scan_state_def initial_def prg_S1_def)
  from no_match_is_Generic [OF h1 h2 h3 h4] show ?thesis
    unfolding st by (auto simp: sid_file_def st)
qed

text \<open>
  The defect behind claim C5: the play address \<open>L + 3\<close> is written to a header field of
  two bytes with no guard. For \<open>prg_top\<close>, 64 zero bytes loaded at 0xFFFD, no check
  matches, the line printed shows \<open>Play = 0x10000\<close>, and the header holds the play
  address 0, which a PSID player reads as a tune that has no play routine.
\<close>

theorem play_field_wraps_counterexample:
  "scan_input no_args prg_top = Some (scan_state prg_top 0xFFFD) \<and>
   map_option fst (Scanners (\<lambda>_. []) (scan_state prg_top 0xFFFD)) = Some 0 \<and>
   (case p2s_main (\<lambda>_. []) no_args prg_top of
      Some (Converted r) \<Rightarrow>
        shown_ids r = ''Generic'' \<and> shown_init r = 0xFFFD \<and> shown_play r = 0x10000 \<and>
        field16 (sid_header r) P_INITADDR = 0xFFFD \<and> field16 (sid_header r) P_PLAYADDR = 0
    | _ \<Rightarrow> False)"
  by code_simp


end
